theory Spec2Isabelle
  imports Main
begin

section \<open>Values, errors and the outside world\<close>

text \<open>
  The program is an asynchronous Python client of two remote services: a language model
  (\<open>client.models.generate_content\<close>) and a set of tool servers (\<open>session.call_tool\<close>).
  Every exception the code can raise is a value of \<open>error\<close>; a function that may raise
  returns \<open>error + 'a\<close> together with the trace of the remote calls it made, so that the
  calls made before an exception stay visible.

  Python strings are modelled as \<open>string\<close>, holding the UTF-8 bytes of the text. The code
  modelled here only concatenates and compares strings, so bytes and code points agree;
  the slicing and \<open>len\<close> of the console log lines are not part of the model, and neither is
  any other console output (\<open>print\<close>, \<open>log_box\<close>), which influences neither a return value
  nor a remote call.
\<close>

datatype error =
    LLMCallError | ToolInvocationError | JSONDecodeError
  | IndexError | KeyError | TypeError | AttributeError

text \<open>What \<open>json.loads\<close> returns: \<open>None\<close>, a bool, a number, a \<open>str\<close>, a \<open>list\<close> or a
  \<open>dict\<close> (an association list in insertion order, keys distinct).\<close>

datatype json =
    JNull | JBool bool | JNum int | JStr string | JArr "json list" | JObj "(string \<times> json) list"

text \<open>
  The objects of the model SDK, as the code reads them. Every field the code reads is
  optional there and \<open>None\<close> by default: the name and the arguments of a tool-call request
  (\<open>fc\<close> in the source), the text and the tool call of a part, the parts of a content, the
  content of a candidate and the candidates of a response.
\<close>

record function_call =
  fc_name :: "string option"
  fc_args :: "(string \<times> json) list option"

record function_response =
  fr_name :: "string option"
  fr_response :: "(string \<times> string) list"

record part =
  "text" :: "string option"
  function_call :: "function_call option"
  function_response :: "function_response option"

record content =
  role :: string
  parts :: "part list option"

record candidate =
  content :: "content option"

record response =
  candidates :: "candidate list option"

record function_declaration =
  fd_name :: string
  description :: string
  parameters_json_schema :: json

type_synonym tool = "function_declaration list"

record request =
  model :: string
  contents :: "content list"
  system_instruction :: "string option"
  tools :: "tool list option"
  automatic_function_calling_disable :: bool
  response_mime_type :: "string option"

text \<open>A content block of a tool result: it either has a \<open>text\<close> attribute or is rendered
  by \<open>str\<close>.\<close>

datatype block = TextContent string | OtherContent string

text \<open>
  The outside world, as the sequences of its answers: \<open>generate_content E n\<close> is the outcome
  of the \<open>n\<close>-th model call of a run (an exception, or the response),
  \<open>call_tool E n\<close> the outcome of the \<open>n\<close>-th tool invocation. \<open>json_loads\<close> and
  \<open>py_str\<close> stand for Python's JSON parser and for its rendering of a value inside an
  f-string; neither is code of this repository.
\<close>

record env =
  generate_content :: "nat \<Rightarrow> error + response"
  call_tool :: "nat \<Rightarrow> error + block list"
  json_loads :: "string \<Rightarrow> error + json"
  py_str :: "json \<Rightarrow> string"

text \<open>The remote calls made so far, oldest first: the model requests, the tool invocations
  (server, tool, arguments) and the specialist invocations (agent, task, outcome).\<close>

record trace =
  llm_calls :: "request list"
  tool_calls :: "(string \<times> string \<times> (string \<times> json) list) list"
  runs :: "(string \<times> string \<times> (error + string)) list"

definition empty_trace :: trace where
  "empty_trace = \<lparr>llm_calls = [], tool_calls = [], runs = []\<rparr>"

definition generate :: "env \<Rightarrow> request \<Rightarrow> trace \<Rightarrow> (error + response) \<times> trace" where
  "generate E req tr =
     (generate_content E (length (llm_calls tr)), tr\<lparr>llm_calls := llm_calls tr @ [req]\<rparr>)"

subsection \<open>String constants of the source\<close>

definition EMPTY_RESPONSE :: string where
  \<comment> \<open>the placeholder returned for a response without text (Korean for: empty response)\<close>
  "EMPTY_RESPONSE =
    ''('' @ [CHR 0xEB, CHR 0xB9, CHR 0x88] @ '' '' @
    [CHR 0xEC, CHR 0x9D, CHR 0x91, CHR 0xEB, CHR 0x8B, CHR 0xB5] @ '')''"

definition unknown_tool_prefix :: string where
  \<comment> \<open>Korean for: error: unknown tool, followed by an opening quote\<close>
  "unknown_tool_prefix =
    [CHR 0xEC, CHR 0x98, CHR 0xA4, CHR 0xEB, CHR 0xA5, CHR 0x98] @ '': '' @
    [CHR 0xEC, CHR 0x95, CHR 0x8C] @ '' '' @ [CHR 0xEC, CHR 0x88, CHR 0x98] @ '' '' @
    [CHR 0xEC, CHR 0x97, CHR 0x86, CHR 0xEB, CHR 0x8A, CHR 0x94] @ '' '' @
    [CHR 0xEB, CHR 0x8F, CHR 0x84, CHR 0xEA, CHR 0xB5, CHR 0xAC] @ '' '' @ [CHR 0x27]"

definition MAX_ITERATIONS_WARNING :: string where
  \<comment> \<open>Korean for: [warning] the maximum number of iterations (10) was reached.\<close>
  "MAX_ITERATIONS_WARNING =
    ''['' @ [CHR 0xEA, CHR 0xB2, CHR 0xBD, CHR 0xEA, CHR 0xB3, CHR 0xA0] @ ''] '' @
    [CHR 0xEC, CHR 0xB5, CHR 0x9C, CHR 0xEB, CHR 0x8C, CHR 0x80] @ '' '' @
    [CHR 0xEB, CHR 0xB0, CHR 0x98, CHR 0xEB, CHR 0xB3, CHR 0xB5] @ '' '' @
    [CHR 0xED, CHR 0x9A, CHR 0x9F, CHR 0xEC, CHR 0x88, CHR 0x98] @ ''(10)'' @
    [CHR 0xEC, CHR 0x97, CHR 0x90] @ '' '' @
    [CHR 0xEB, CHR 0x8F, CHR 0x84, CHR 0xEB, CHR 0x8B, CHR 0xAC, CHR 0xED, CHR 0x96, CHR 0x88] @
    [CHR 0xEC, CHR 0x8A, CHR 0xB5, CHR 0xEB, CHR 0x8B, CHR 0x88, CHR 0xEB, CHR 0x8B, CHR 0xA4] @
    ''.''"

definition context_prefix :: string where
  \<comment> \<open>Korean for: original user request:\<close>
  "context_prefix =
    [CHR 0xEC, CHR 0x9B, CHR 0x90, CHR 0xEB, CHR 0x9E, CHR 0x98] @ '' '' @
    [CHR 0xEC, CHR 0x82, CHR 0xAC, CHR 0xEC, CHR 0x9A, CHR 0xA9, CHR 0xEC, CHR 0x9E, CHR 0x90] @
    '' '' @ [CHR 0xEC, CHR 0x9A, CHR 0x94, CHR 0xEC, CHR 0xB2, CHR 0xAD] @ '': ''"

definition current_task_prefix :: string where
  \<comment> \<open>Korean for: current task:\<close>
  "current_task_prefix =
    [CHR 0xED, CHR 0x98, CHR 0x84, CHR 0xEC, CHR 0x9E, CHR 0xAC] @ '' '' @
    [CHR 0xEC, CHR 0x9E, CHR 0x91, CHR 0xEC, CHR 0x97, CHR 0x85] @ '': ''"

definition previous_results_header :: string where
  \<comment> \<open>Korean for: results of the previous steps:\<close>
  "previous_results_header =
    [CHR 0x0A, CHR 0x0A, CHR 0xEC, CHR 0x9D, CHR 0xB4, CHR 0xEC, CHR 0xA0, CHR 0x84] @ '' '' @
    [CHR 0xEB, CHR 0x8B, CHR 0xA8, CHR 0xEA, CHR 0xB3, CHR 0x84] @ '' '' @
    [CHR 0xEA, CHR 0xB2, CHR 0xB0, CHR 0xEA, CHR 0xB3, CHR 0xBC] @ '':'' @ [CHR 0x0A]"

definition result_label_suffix :: string where
  \<comment> \<open>Korean for: result, closing the label of one entry\<close>
  "result_label_suffix =
    '' '' @ [CHR 0xEA, CHR 0xB2, CHR 0xB0, CHR 0xEA, CHR 0xB3, CHR 0xBC] @ '' ---'' @ [CHR 0x0A]"

definition synthesis_instruction :: string where
  \<comment> \<open>Korean for: merge the results of the experts into the final answer:\<close>
  "synthesis_instruction =
    [CHR 0xEA, CHR 0xB0, CHR 0x81] @ '' '' @
    [CHR 0xEC, CHR 0xA0, CHR 0x84, CHR 0xEB, CHR 0xAC, CHR 0xB8, CHR 0xEA, CHR 0xB0, CHR 0x80] @
    [CHR 0xEC, CHR 0x9D, CHR 0x98] @ '' '' @
    [CHR 0xEA, CHR 0xB2, CHR 0xB0, CHR 0xEA, CHR 0xB3, CHR 0xBC, CHR 0xEB, CHR 0xA5, CHR 0xBC] @
    '' '' @
    [CHR 0xED, CHR 0x86, CHR 0xB5, CHR 0xED, CHR 0x95, CHR 0xA9, CHR 0xED, CHR 0x95, CHR 0x98] @
    [CHR 0xEC, CHR 0x97, CHR 0xAC] @ '' '' @
    [CHR 0xEC, CHR 0xB5, CHR 0x9C, CHR 0xEC, CHR 0xA2, CHR 0x85] @ '' '' @
    [CHR 0xEC, CHR 0x9D, CHR 0x91, CHR 0xEB, CHR 0x8B, CHR 0xB5, CHR 0xEC, CHR 0x9D, CHR 0x84] @
    '' '' @
    [CHR 0xEB, CHR 0xA7, CHR 0x8C, CHR 0xEB, CHR 0x93, CHR 0xA4, CHR 0xEC, CHR 0x96, CHR 0xB4] @
    [CHR 0xEC, CHR 0xA3, CHR 0xBC, CHR 0xEC, CHR 0x84, CHR 0xB8, CHR 0xEC, CHR 0x9A, CHR 0x94] @
    '':'' @ [CHR 0x0A, CHR 0x0A]"

definition EDITOR_SYSTEM_INSTRUCTION :: string where
  \<comment> \<open>the role instruction of the synthesis call (an editor merging the experts' results)\<close>
  "EDITOR_SYSTEM_INSTRUCTION =
    [CHR 0xEC, CHR 0x97, CHR 0xAC, CHR 0xEB, CHR 0x9F, CHR 0xAC] @ '' '' @
    [CHR 0xEC, CHR 0xA0, CHR 0x84, CHR 0xEB, CHR 0xAC, CHR 0xB8, CHR 0xEA, CHR 0xB0, CHR 0x80] @
    [CHR 0xEC, CHR 0x9D, CHR 0x98] @ '' '' @
    [CHR 0xEA, CHR 0xB2, CHR 0xB0, CHR 0xEA, CHR 0xB3, CHR 0xBC, CHR 0xEB, CHR 0xA5, CHR 0xBC] @
    '' '' @
    [CHR 0xED, CHR 0x86, CHR 0xB5, CHR 0xED, CHR 0x95, CHR 0xA9, CHR 0xED, CHR 0x95, CHR 0x98] @
    [CHR 0xEB, CHR 0x8A, CHR 0x94] @ '' '' @
    [CHR 0xED, CHR 0x8E, CHR 0xB8, CHR 0xEC, CHR 0xA7, CHR 0x91, CHR 0xEC, CHR 0x9E, CHR 0x90] @
    [CHR 0xEC, CHR 0x9E, CHR 0x85, CHR 0xEB, CHR 0x8B, CHR 0x88, CHR 0xEB, CHR 0x8B, CHR 0xA4] @
    ''. '' @
    [CHR 0xEB, CHR 0xA6, CHR 0xAC, CHR 0xEB, CHR 0xB7, CHR 0xB0, CHR 0xEC, CHR 0x96, CHR 0xB4] @
    [CHR 0xEC, CHR 0x9D, CHR 0x98] @ '' '' @
    [CHR 0xED, CHR 0x94, CHR 0xBC, CHR 0xEB, CHR 0x93, CHR 0x9C, CHR 0xEB, CHR 0xB0, CHR 0xB1] @
    [CHR 0xEC, CHR 0x9D, CHR 0xB4] @ '' '' @
    [CHR 0xEC, CHR 0x9E, CHR 0x88, CHR 0xEB, CHR 0x8B, CHR 0xA4, CHR 0xEB, CHR 0xA9, CHR 0xB4] @
    '' '' @ [CHR 0xEC, CHR 0x9D, CHR 0xB4, CHR 0xEB, CHR 0xA5, CHR 0xBC] @ '' '' @
    [CHR 0xEB, CHR 0xB0, CHR 0x98, CHR 0xEC, CHR 0x98, CHR 0x81, CHR 0xED, CHR 0x95, CHR 0x98] @
    [CHR 0xEC, CHR 0x97, CHR 0xAC] @ '' '' @
    [CHR 0xEC, CHR 0xB5, CHR 0x9C, CHR 0xEC, CHR 0xA2, CHR 0x85] @ '' '' @
    [CHR 0xEC, CHR 0x9D, CHR 0x91, CHR 0xEB, CHR 0x8B, CHR 0xB5, CHR 0xEC, CHR 0x9D, CHR 0x84] @
    '' '' @
    [CHR 0xEB, CHR 0xA7, CHR 0x8C, CHR 0xEB, CHR 0x93, CHR 0x9C, CHR 0xEC, CHR 0x84, CHR 0xB8] @
    [CHR 0xEC, CHR 0x9A, CHR 0x94] @ ''.''"

definition ORCHESTRATOR_SYSTEM_PROMPT :: string where
  \<comment> \<open>the role instruction of the planning call, as UTF-8 bytes\<close>
  "ORCHESTRATOR_SYSTEM_PROMPT =
    [CHR 0xEB, CHR 0x8B, CHR 0xB9, CHR 0xEC, CHR 0x8B, CHR 0xA0, CHR 0xEC, CHR 0x9D, CHR 0x80] @
    '' '' @
    [CHR 0xEB, CHR 0xA9, CHR 0x80, CHR 0xED, CHR 0x8B, CHR 0xB0, CHR 0xEC, CHR 0x97, CHR 0x90] @
    [CHR 0xEC, CHR 0x9D, CHR 0xB4, CHR 0xEC, CHR 0xA0, CHR 0x84, CHR 0xED, CHR 0x8A, CHR 0xB8] @
    '' '' @
    [CHR 0xEC, CHR 0x8B, CHR 0x9C, CHR 0xEC, CHR 0x8A, CHR 0xA4, CHR 0xED, CHR 0x85, CHR 0x9C] @
    [CHR 0xEC, CHR 0x9D, CHR 0x98] @ '' '' @
    [CHR 0xEC, CHR 0x98, CHR 0xA4, CHR 0xEC, CHR 0xBC, CHR 0x80, CHR 0xEC, CHR 0x8A, CHR 0xA4] @
    [CHR 0xED, CHR 0x8A, CHR 0xB8, CHR 0xEB, CHR 0xA0, CHR 0x88, CHR 0xEC, CHR 0x9D, CHR 0xB4] @
    [CHR 0xED, CHR 0x84, CHR 0xB0, CHR 0xEC, CHR 0x9E, CHR 0x85, CHR 0xEB, CHR 0x8B, CHR 0x88] @
    [CHR 0xEB, CHR 0x8B, CHR 0xA4] @ ''.'' @
    [CHR 0x0A, CHR 0xEC, CHR 0x82, CHR 0xAC, CHR 0xEC, CHR 0x9A, CHR 0xA9, CHR 0xEC, CHR 0x9E] @
    [CHR 0x90, CHR 0xEC, CHR 0x9D, CHR 0x98] @ '' '' @
    [CHR 0xEC, CHR 0x9A, CHR 0x94, CHR 0xEC, CHR 0xB2, CHR 0xAD, CHR 0xEC, CHR 0x9D, CHR 0x84] @
    '' '' @
    [CHR 0xEB, CHR 0xB6, CHR 0x84, CHR 0xEC, CHR 0x84, CHR 0x9D, CHR 0xED, CHR 0x95, CHR 0x98] @
    [CHR 0xEC, CHR 0x97, CHR 0xAC] @ '' '' @
    [CHR 0xEC, CHR 0xA0, CHR 0x84, CHR 0xEB, CHR 0xAC, CHR 0xB8] @ '' '' @
    [CHR 0xEC, CHR 0x97, CHR 0x90, CHR 0xEC, CHR 0x9D, CHR 0xB4, CHR 0xEC, CHR 0xA0, CHR 0x84] @
    [CHR 0xED, CHR 0x8A, CHR 0xB8, CHR 0xEC, CHR 0x97, CHR 0x90, CHR 0xEA, CHR 0xB2, CHR 0x8C] @
    '' '' @
    [CHR 0xEC, CHR 0x9C, CHR 0x84, CHR 0xEC, CHR 0x9E, CHR 0x84, CHR 0xED, CHR 0x95, CHR 0xA0] @
    '' '' @ [CHR 0xEC, CHR 0x8B, CHR 0xA4, CHR 0xED, CHR 0x96, CHR 0x89] @ '' '' @
    [CHR 0xEA, CHR 0xB3, CHR 0x84, CHR 0xED, CHR 0x9A, CHR 0x8D, CHR 0xEC, CHR 0x9D, CHR 0x84] @
    '' '' @
    [CHR 0xEC, CHR 0x88, CHR 0x98, CHR 0xEB, CHR 0xA6, CHR 0xBD, CHR 0xED, CHR 0x95, CHR 0xA9] @
    [CHR 0xEB, CHR 0x8B, CHR 0x88, CHR 0xEB, CHR 0x8B, CHR 0xA4] @ ''.'' @
    [CHR 0x0A, CHR 0x0A, CHR 0xEC, CHR 0x82, CHR 0xAC, CHR 0xEC, CHR 0x9A, CHR 0xA9] @ '' '' @
    [CHR 0xEA, CHR 0xB0, CHR 0x80, CHR 0xEB, CHR 0x8A, CHR 0xA5, CHR 0xED, CHR 0x95, CHR 0x9C] @
    '' '' @
    [CHR 0xEC, CHR 0x97, CHR 0x90, CHR 0xEC, CHR 0x9D, CHR 0xB4, CHR 0xEC, CHR 0xA0, CHR 0x84] @
    [CHR 0xED, CHR 0x8A, CHR 0xB8] @ '':'' @ [CHR 0x0A] @ ''- analyst: '' @
    [CHR 0xEB, CHR 0x8D, CHR 0xB0, CHR 0xEC, CHR 0x9D, CHR 0xB4, CHR 0xED, CHR 0x84, CHR 0xB0] @
    '' '' @ [CHR 0xEC, CHR 0x88, CHR 0x98, CHR 0xEC, CHR 0xA7, CHR 0x91] @ '' '' @
    [CHR 0xEC, CHR 0xA0, CHR 0x84, CHR 0xEB, CHR 0xAC, CHR 0xB8, CHR 0xEA, CHR 0xB0, CHR 0x80] @
    ''. MCP '' @
    [CHR 0xEB, CHR 0x8F, CHR 0x84, CHR 0xEA, CHR 0xB5, CHR 0xAC, CHR 0xEB, CHR 0xA5, CHR 0xBC] @
    '' '' @
    [CHR 0xEC, CHR 0x82, CHR 0xAC, CHR 0xEC, CHR 0x9A, CHR 0xA9, CHR 0xED, CHR 0x95, CHR 0x98] @
    [CHR 0xEC, CHR 0x97, CHR 0xAC] @ '' '' @
    [CHR 0xEC, CHR 0xBB, CHR 0xA4, CHR 0xEB, CHR 0xB0, CHR 0x8B] @ '', '' @
    [CHR 0xED, CHR 0x99, CHR 0x9C, CHR 0xEB, CHR 0x8F, CHR 0x99] @ '', '' @
    [CHR 0xEC, CHR 0x9D, CHR 0xB8, CHR 0xEC, CHR 0x82, CHR 0xAC, CHR 0xEC, CHR 0x9D, CHR 0xB4] @
    [CHR 0xED, CHR 0x8A, CHR 0xB8] @ '' '' @
    [CHR 0xEB, CHR 0x93, CHR 0xB1, CHR 0xEC, CHR 0x9D, CHR 0x98] @ '' '' @
    [CHR 0xEB, CHR 0x8D, CHR 0xB0, CHR 0xEC, CHR 0x9D, CHR 0xB4, CHR 0xED, CHR 0x84, CHR 0xB0] @
    [CHR 0xEB, CHR 0xA5, CHR 0xBC] @ '' '' @
    [CHR 0xEC, CHR 0x88, CHR 0x98, CHR 0xEC, CHR 0xA7, CHR 0x91, CHR 0xED, CHR 0x95, CHR 0xA9] @
    [CHR 0xEB, CHR 0x8B, CHR 0x88, CHR 0xEB, CHR 0x8B, CHR 0xA4] @ ''.'' @ [CHR 0x0A] @
    ''- writer: '' @ [CHR 0xEB, CHR 0xAC, CHR 0xB8, CHR 0xEC, CHR 0x84, CHR 0x9C] @ '' '' @
    [CHR 0xEC, CHR 0x9E, CHR 0x91, CHR 0xEC, CHR 0x84, CHR 0xB1] @ '' '' @
    [CHR 0xEC, CHR 0xA0, CHR 0x84, CHR 0xEB, CHR 0xAC, CHR 0xB8, CHR 0xEA, CHR 0xB0, CHR 0x80] @
    ''. '' @
    [CHR 0xEC, CHR 0x88, CHR 0x98, CHR 0xEC, CHR 0xA7, CHR 0x91, CHR 0xEB, CHR 0x90, CHR 0x9C] @
    '' '' @
    [CHR 0xEB, CHR 0x8D, CHR 0xB0, CHR 0xEC, CHR 0x9D, CHR 0xB4, CHR 0xED, CHR 0x84, CHR 0xB0] @
    [CHR 0xEB, CHR 0xA5, CHR 0xBC] @ '' '' @
    [CHR 0xEB, CHR 0xB0, CHR 0x94, CHR 0xED, CHR 0x83, CHR 0x95, CHR 0xEC, CHR 0x9C, CHR 0xBC] @
    [CHR 0xEB, CHR 0xA1, CHR 0x9C] @ '' '' @
    [CHR 0xEB, CHR 0xB3, CHR 0xB4, CHR 0xEA, CHR 0xB3, CHR 0xA0, CHR 0xEC, CHR 0x84, CHR 0x9C] @
    '', '' @ [CHR 0xEC, CHR 0x9A, CHR 0x94, CHR 0xEC, CHR 0x95, CHR 0xBD] @ '', '' @
    [CHR 0xEC, CHR 0x9D, CHR 0xB4, CHR 0xEB, CHR 0xA0, CHR 0xA5, CHR 0xEC, CHR 0x84, CHR 0x9C] @
    '' '' @ [CHR 0xED, CHR 0x95, CHR 0xAD, CHR 0xEB, CHR 0xAA, CHR 0xA9] @ '' '' @
    [CHR 0xEB, CHR 0x93, CHR 0xB1, CHR 0xEC, CHR 0x9D, CHR 0x84] @ '' '' @
    [CHR 0xEC, CHR 0x9E, CHR 0x91, CHR 0xEC, CHR 0x84, CHR 0xB1, CHR 0xED, CHR 0x95, CHR 0xA9] @
    [CHR 0xEB, CHR 0x8B, CHR 0x88, CHR 0xEB, CHR 0x8B, CHR 0xA4] @ ''.'' @ [CHR 0x0A] @
    ''- reviewer: '' @ [CHR 0xEA, CHR 0xB2, CHR 0x80, CHR 0xED, CHR 0x86, CHR 0xA0] @ '' '' @
    [CHR 0xEC, CHR 0xA0, CHR 0x84, CHR 0xEB, CHR 0xAC, CHR 0xB8, CHR 0xEA, CHR 0xB0, CHR 0x80] @
    ''. '' @
    [CHR 0xEC, CHR 0x9E, CHR 0x91, CHR 0xEC, CHR 0x84, CHR 0xB1, CHR 0xEB, CHR 0x90, CHR 0x9C] @
    '' '' @
    [CHR 0xEA, CHR 0xB2, CHR 0xB0, CHR 0xEA, CHR 0xB3, CHR 0xBC, CHR 0xEB, CHR 0xAC, CHR 0xBC] @
    [CHR 0xEC, CHR 0x9D, CHR 0x98] @ '' '' @
    [CHR 0xED, CHR 0x92, CHR 0x88, CHR 0xEC, CHR 0xA7, CHR 0x88, CHR 0xEC, CHR 0x9D, CHR 0x84] @
    '' '' @
    [CHR 0xED, CHR 0x8F, CHR 0x89, CHR 0xEA, CHR 0xB0, CHR 0x80, CHR 0xED, CHR 0x95, CHR 0x98] @
    [CHR 0xEA, CHR 0xB3, CHR 0xA0] @ '' '' @
    [CHR 0xEA, CHR 0xB0, CHR 0x9C, CHR 0xEC, CHR 0x84, CHR 0xA0, CHR 0xEC, CHR 0xA0, CHR 0x90] @
    [CHR 0xEC, CHR 0x9D, CHR 0x84] @ '' '' @
    [CHR 0xEC, CHR 0xA0, CHR 0x9C, CHR 0xEC, CHR 0x95, CHR 0x88, CHR 0xED, CHR 0x95, CHR 0xA9] @
    [CHR 0xEB, CHR 0x8B, CHR 0x88, CHR 0xEB, CHR 0x8B, CHR 0xA4] @ ''.'' @
    [CHR 0x0A, CHR 0x0A, CHR 0xEB, CHR 0xB0, CHR 0x98, CHR 0xEB, CHR 0x93, CHR 0x9C, CHR 0xEC] @
    [CHR 0x8B, CHR 0x9C] @ '' '' @ [CHR 0xEB, CHR 0x8B, CHR 0xA4, CHR 0xEC, CHR 0x9D, CHR 0x8C] @
    '' JSON '' @
    [CHR 0xED, CHR 0x98, CHR 0x95, CHR 0xEC, CHR 0x8B, CHR 0x9D, CHR 0xEC, CHR 0x9C, CHR 0xBC] @
    [CHR 0xEB, CHR 0xA1, CHR 0x9C, CHR 0xEB, CHR 0xA7, CHR 0x8C] @ '' '' @
    [CHR 0xEC, CHR 0x9D, CHR 0x91, CHR 0xEB, CHR 0x8B, CHR 0xB5, CHR 0xED, CHR 0x95, CHR 0x98] @
    [CHR 0xEC, CHR 0x84, CHR 0xB8, CHR 0xEC, CHR 0x9A, CHR 0x94] @ '':'' @
    [CHR 0x0A, CHR 0x0A, CHR 0xEB, CHR 0x8B, CHR 0xA8, CHR 0xEC, CHR 0x88, CHR 0x9C] @ '' '' @
    [CHR 0xEC, CHR 0x9D, CHR 0xB8, CHR 0xEC, CHR 0x82, CHR 0xAC] @ ''/'' @
    [CHR 0xEC, CHR 0xA7, CHR 0x88, CHR 0xEB, CHR 0xAC, CHR 0xB8] @ '' ('' @
    [CHR 0xEC, CHR 0x97, CHR 0x90, CHR 0xEC, CHR 0x9D, CHR 0xB4, CHR 0xEC, CHR 0xA0, CHR 0x84] @
    [CHR 0xED, CHR 0x8A, CHR 0xB8] @ '' '' @
    [CHR 0xEB, CHR 0xB6, CHR 0x88, CHR 0xED, CHR 0x95, CHR 0x84, CHR 0xEC, CHR 0x9A, CHR 0x94] @
    ''):'' @ [CHR 0x0A] @ ''{'' @ [CHR 0x22] @ ''needs_specialists'' @ [CHR 0x22] @
    '': false, '' @ [CHR 0x22] @ ''direct_response'' @ [CHR 0x22] @ '': '' @
    [CHR 0x22, CHR 0xEC, CHR 0x9D, CHR 0x91, CHR 0xEB, CHR 0x8B, CHR 0xB5] @ '' '' @
    [CHR 0xEB, CHR 0x82, CHR 0xB4, CHR 0xEC, CHR 0x9A, CHR 0xA9, CHR 0x22] @ ''}'' @
    [CHR 0x0A, CHR 0x0A, CHR 0xEB, CHR 0xB3, CHR 0xB5, CHR 0xED, CHR 0x95, CHR 0xA9] @ '' '' @
    [CHR 0xEC, CHR 0x9E, CHR 0x91, CHR 0xEC, CHR 0x97, CHR 0x85] @ '' ('' @
    [CHR 0xEC, CHR 0x97, CHR 0x90, CHR 0xEC, CHR 0x9D, CHR 0xB4, CHR 0xEC, CHR 0xA0, CHR 0x84] @
    [CHR 0xED, CHR 0x8A, CHR 0xB8] @ '' '' @
    [CHR 0xED, CHR 0x95, CHR 0x84, CHR 0xEC, CHR 0x9A, CHR 0x94] @ ''):'' @ [CHR 0x0A] @ ''{'' @
    [CHR 0x22] @ ''needs_specialists'' @ [CHR 0x22] @ '': true, '' @ [CHR 0x22] @ ''plan'' @
    [CHR 0x22] @ '': [{'' @ [CHR 0x22] @ ''agent'' @ [CHR 0x22] @ '': '' @ [CHR 0x22] @
    ''analyst'' @ [CHR 0x22] @ '', '' @ [CHR 0x22] @ ''task'' @ [CHR 0x22] @ '': '' @
    [CHR 0x22, CHR 0xEA, CHR 0xB5, CHR 0xAC, CHR 0xEC, CHR 0xB2, CHR 0xB4, CHR 0xEC, CHR 0xA0] @
    [CHR 0x81] @ '' '' @ [CHR 0xEC, CHR 0x9E, CHR 0x91, CHR 0xEC, CHR 0x97, CHR 0x85] @ '' '' @
    [CHR 0xEC, CHR 0x84, CHR 0xA4, CHR 0xEB, CHR 0xAA, CHR 0x85, CHR 0x22] @ ''}, {'' @
    [CHR 0x22] @ ''agent'' @ [CHR 0x22] @ '': '' @ [CHR 0x22] @ ''writer'' @ [CHR 0x22] @
    '', '' @ [CHR 0x22] @ ''task'' @ [CHR 0x22] @ '': '' @
    [CHR 0x22, CHR 0xEA, CHR 0xB5, CHR 0xAC, CHR 0xEC, CHR 0xB2, CHR 0xB4, CHR 0xEC, CHR 0xA0] @
    [CHR 0x81] @ '' '' @ [CHR 0xEC, CHR 0x9E, CHR 0x91, CHR 0xEC, CHR 0x97, CHR 0x85] @ '' '' @
    [CHR 0xEC, CHR 0x84, CHR 0xA4, CHR 0xEB, CHR 0xAA, CHR 0x85, CHR 0x22] @ ''}]}'' @
    [CHR 0x0A, CHR 0x0A, CHR 0xEA, CHR 0xB7, CHR 0x9C, CHR 0xEC, CHR 0xB9, CHR 0x99] @ '':'' @
    [CHR 0x0A] @ ''- '' @
    [CHR 0xEB, CHR 0x8D, CHR 0xB0, CHR 0xEC, CHR 0x9D, CHR 0xB4, CHR 0xED, CHR 0x84, CHR 0xB0] @
    '' '' @
    [CHR 0xEC, CHR 0x88, CHR 0x98, CHR 0xEC, CHR 0xA7, CHR 0x91, CHR 0xEC, CHR 0x9D, CHR 0xB4] @
    '' '' @
    [CHR 0xED, CHR 0x95, CHR 0x84, CHR 0xEC, CHR 0x9A, CHR 0x94, CHR 0xED, CHR 0x95, CHR 0x98] @
    [CHR 0xEB, CHR 0xA9, CHR 0xB4] @ '' '' @
    [CHR 0xEB, CHR 0xB0, CHR 0x98, CHR 0xEB, CHR 0x93, CHR 0x9C, CHR 0xEC, CHR 0x8B, CHR 0x9C] @
    '' analyst'' @ [CHR 0xEB, CHR 0xA5, CHR 0xBC] @ '' '' @
    [CHR 0xEB, CHR 0xA8, CHR 0xBC, CHR 0xEC, CHR 0xA0, CHR 0x80] @ '' '' @
    [CHR 0xEB, CHR 0xB0, CHR 0xB0, CHR 0xEC, CHR 0xB9, CHR 0x98, CHR 0x0A] @ ''- '' @
    [CHR 0xEB, CHR 0xAC, CHR 0xB8, CHR 0xEC, CHR 0x84, CHR 0x9C] @ ''/'' @
    [CHR 0xEB, CHR 0xB3, CHR 0xB4, CHR 0xEA, CHR 0xB3, CHR 0xA0, CHR 0xEC, CHR 0x84, CHR 0x9C] @
    '' '' @
    [CHR 0xEC, CHR 0x9E, CHR 0x91, CHR 0xEC, CHR 0x84, CHR 0xB1, CHR 0xEC, CHR 0x9D, CHR 0xB4] @
    '' '' @
    [CHR 0xED, CHR 0x95, CHR 0x84, CHR 0xEC, CHR 0x9A, CHR 0x94, CHR 0xED, CHR 0x95, CHR 0x98] @
    [CHR 0xEB, CHR 0xA9, CHR 0xB4] @ '' writer '' @
    [CHR 0xEB, CHR 0xB0, CHR 0xB0, CHR 0xEC, CHR 0xB9, CHR 0x98, CHR 0x0A] @ ''- '' @
    [CHR 0xED, CHR 0x92, CHR 0x88, CHR 0xEC, CHR 0xA7, CHR 0x88] @ '' '' @
    [CHR 0xEA, CHR 0xB2, CHR 0x80, CHR 0xEC, CHR 0xA6, CHR 0x9D, CHR 0xEC, CHR 0x9D, CHR 0xB4] @
    '' '' @
    [CHR 0xED, CHR 0x95, CHR 0x84, CHR 0xEC, CHR 0x9A, CHR 0x94, CHR 0xED, CHR 0x95, CHR 0x98] @
    [CHR 0xEB, CHR 0xA9, CHR 0xB4] @ '' reviewer'' @ [CHR 0xEB, CHR 0xA5, CHR 0xBC] @ '' '' @
    [CHR 0xEB, CHR 0xA7, CHR 0x88, CHR 0xEC, CHR 0xA7, CHR 0x80, CHR 0xEB, CHR 0xA7, CHR 0x89] @
    [CHR 0xEC, CHR 0x97, CHR 0x90] @ '' '' @
    [CHR 0xEB, CHR 0xB0, CHR 0xB0, CHR 0xEC, CHR 0xB9, CHR 0x98, CHR 0x0A] @ ''- '' @
    [CHR 0xEB, CHR 0x8B, CHR 0xA8, CHR 0xEC, CHR 0x88, CHR 0x9C] @ '' '' @
    [CHR 0xEC, CHR 0x9D, CHR 0xB8, CHR 0xEC, CHR 0x82, CHR 0xAC, CHR 0xEB, CHR 0x82, CHR 0x98] @
    '' '' @
    [CHR 0xEA, CHR 0xB0, CHR 0x84, CHR 0xEB, CHR 0x8B, CHR 0xA8, CHR 0xED, CHR 0x95, CHR 0x9C] @
    '' '' @
    [CHR 0xEC, CHR 0xA7, CHR 0x88, CHR 0xEB, CHR 0xAC, CHR 0xB8, CHR 0xEC, CHR 0x9D, CHR 0x80] @
    '' '' @ [CHR 0xEC, CHR 0xA7, CHR 0x81, CHR 0xEC, CHR 0xA0, CHR 0x91] @ '' '' @
    [CHR 0xEC, CHR 0x9D, CHR 0x91, CHR 0xEB, CHR 0x8B, CHR 0xB5] @
    '' (needs_specialists: false)'' @ [CHR 0x0A] @ ''- '' @
    [CHR 0xEB, CHR 0xAA, CHR 0xA8, CHR 0xEB, CHR 0x93, CHR 0xA0] @ '' '' @
    [CHR 0xEC, CHR 0x97, CHR 0x90, CHR 0xEC, CHR 0x9D, CHR 0xB4, CHR 0xEC, CHR 0xA0, CHR 0x84] @
    [CHR 0xED, CHR 0x8A, CHR 0xB8, CHR 0xEB, CHR 0xA5, CHR 0xBC] @ '' '' @
    [CHR 0xEB, CHR 0xA7, CHR 0xA4, CHR 0xEB, CHR 0xB2, CHR 0x88] @ '' '' @
    [CHR 0xEC, CHR 0x82, CHR 0xAC, CHR 0xEC, CHR 0x9A, CHR 0xA9, CHR 0xED, CHR 0x95, CHR 0xA0] @
    '' '' @ [CHR 0xED, CHR 0x95, CHR 0x84, CHR 0xEC, CHR 0x9A, CHR 0x94] @ '' '' @
    [CHR 0xEC, CHR 0x97, CHR 0x86, CHR 0xEC, CHR 0x9D, CHR 0x8C] @ '' ('' @
    [CHR 0xED, CHR 0x95, CHR 0x84, CHR 0xEC, CHR 0x9A, CHR 0x94, CHR 0xED, CHR 0x95, CHR 0x9C] @
    '' '' @ [CHR 0xEA, CHR 0xB2, CHR 0x83, CHR 0xEB, CHR 0xA7, CHR 0x8C] @ '' '' @
    [CHR 0xEC, CHR 0x84, CHR 0xA0, CHR 0xED, CHR 0x83, CHR 0x9D] @ '')'' @ [CHR 0x0A]"


definition MODEL :: string where
  "MODEL = ''gemini-2.5-flash''"

definition newline :: string where
  "newline = [CHR 0x0A]"

fun str_join :: "string \<Rightarrow> string list \<Rightarrow> string" where
  "str_join sep [] = []"
| "str_join sep [x] = x"
| "str_join sep (x # y # ys) = x @ sep @ str_join sep (y # ys)"

section \<open>The tool-calling loop\<close>

record gemini_mcp_agent =
  sessions :: "string list"
  tools_map :: "string \<Rightarrow> string option"
  gemini_tools :: "tool list"

text \<open>\<open>SpecialistAgent\<close> has the three fields of \<open>GeminiMCPAgent\<close> and two of its own.\<close>

record specialist_agent = gemini_mcp_agent +
  name :: string
  system_prompt :: string

definition from_text :: "string \<Rightarrow> part" where
  "from_text t = \<lparr>text = Some t, function_call = None, function_response = None\<rparr>"

definition from_function_response :: "string option \<Rightarrow> string \<Rightarrow> part" where
  "from_function_response n result_text =
     \<lparr>text = None, function_call = None,
      function_response = Some \<lparr>fr_name = n, fr_response = [(''result'', result_text)]\<rparr>\<rparr>"

definition user_message :: "string \<Rightarrow> content" where
  "user_message t = \<lparr>role = ''user'', parts = Some [from_text t]\<rparr>"

definition format_name :: "string option \<Rightarrow> string" where
  \<comment> \<open>\<open>f"{fc.name}"\<close>\<close>
  "format_name n = (case n of None \<Rightarrow> ''None'' | Some s \<Rightarrow> s)"

definition unknown_tool_text :: "string option \<Rightarrow> string" where
  "unknown_tool_text n = unknown_tool_prefix @ format_name n @ [CHR 0x27]"

definition block_text :: "block \<Rightarrow> string" where
  "block_text b = (case b of TextContent t \<Rightarrow> t | OtherContent s \<Rightarrow> s)"

text \<open>One pass of the inner \<open>for part in function_calls\<close> loop (the same text in
  \<open>query\<close> and in \<open>run\<close>): the \<open>dict(fc.args)\<close> of the log line, which raises when the call
  carries no arguments, \<open>tools_map.get\<close> (the table has string keys, so a missing name finds
  nothing), the falsy test on the server name, \<open>sessions[server_name]\<close>, \<open>call_tool\<close>, and
  the packaging of the result text.\<close>

definition call_function ::
  "env \<Rightarrow> 'a gemini_mcp_agent_scheme \<Rightarrow> function_call \<Rightarrow> trace \<Rightarrow> (error + part) \<times> trace" where
  "call_function E A fc tr =
     (case fc_args fc of
        None \<Rightarrow> (Inl TypeError, tr)
      | Some args \<Rightarrow>
          (case fc_name fc of
             None \<Rightarrow> (Inr (from_function_response None (unknown_tool_text None)), tr)
           | Some n \<Rightarrow>
               (case tools_map A n of
                  None \<Rightarrow>
                    (Inr (from_function_response (Some n) (unknown_tool_text (Some n))), tr)
                | Some server_name \<Rightarrow>
                    if server_name = [] then
                      (Inr (from_function_response (Some n) (unknown_tool_text (Some n))), tr)
                    else if server_name \<notin> set (sessions A) then (Inl KeyError, tr)
                    else
                      let tr' = tr\<lparr>tool_calls := tool_calls tr @ [(server_name, n, args)]\<rparr>
                      in (case call_tool E (length (tool_calls tr)) of
                            Inl e \<Rightarrow> (Inl e, tr')
                          | Inr result \<Rightarrow>
                              (Inr (from_function_response (Some n)
                                      (str_join newline (map block_text result))), tr')))))"

fun call_functions ::
  "env \<Rightarrow> 'a gemini_mcp_agent_scheme \<Rightarrow> function_call list \<Rightarrow> trace \<Rightarrow> (error + part list) \<times> trace" where
  "call_functions E A [] tr = (Inr [], tr)"
| "call_functions E A (fc # fcs) tr =
     (case call_function E A fc tr of
        (Inl e, tr1) \<Rightarrow> (Inl e, tr1)
      | (Inr r, tr1) \<Rightarrow>
          (case call_functions E A fcs tr1 of
             (Inl e, tr2) \<Rightarrow> (Inl e, tr2)
           | (Inr rs, tr2) \<Rightarrow> (Inr (r # rs), tr2)))"

definition reply_parts :: "response \<Rightarrow> error + content \<times> part list" where
  \<comment> \<open>\<open>response.candidates[0].content.parts\<close>, read as a list: subscripting or iterating
     \<open>None\<close> is a \<open>TypeError\<close>, an empty list has no first item, \<open>None\<close> has no attribute\<close>
  "reply_parts r =
     (case candidates r of
        None \<Rightarrow> Inl TypeError
      | Some [] \<Rightarrow> Inl IndexError
      | Some (candidate # _) \<Rightarrow>
          (case content candidate of
             None \<Rightarrow> Inl AttributeError
           | Some c \<Rightarrow> (case parts c of None \<Rightarrow> Inl TypeError | Some ps \<Rightarrow> Inr (c, ps))))"

definition function_calls_of :: "part list \<Rightarrow> function_call list" where
  \<comment> \<open>\<open>[p for p in parts if p.function_call]\<close>, each read through \<open>part.function_call\<close>\<close>
  "function_calls_of ps = List.map_filter function_call ps"

definition final_text :: "part list \<Rightarrow> string" where
  \<comment> \<open>\<open>texts = [p.text for p in parts if hasattr(p, "text") and p.text]\<close> and its join\<close>
  "final_text ps =
     (let texts = filter (\<lambda>t. t \<noteq> []) (List.map_filter text ps)
      in if texts \<noteq> [] then str_join newline texts else EMPTY_RESPONSE)"

definition query_request :: "'a gemini_mcp_agent_scheme \<Rightarrow> content list \<Rightarrow> request" where
  "query_request A messages =
     \<lparr>model = MODEL, contents = messages, system_instruction = None,
      tools = (if gemini_tools A = [] then None else Some (gemini_tools A)),
      automatic_function_calling_disable = True, response_mime_type = None\<rparr>"

fun query_loop ::
  "env \<Rightarrow> 'a gemini_mcp_agent_scheme \<Rightarrow> nat \<Rightarrow> content list \<Rightarrow> trace \<Rightarrow> (error + string) \<times> trace" where
  "query_loop E A 0 messages tr = (Inr MAX_ITERATIONS_WARNING, tr)"
| "query_loop E A (Suc n) messages tr =
     (case generate E (query_request A messages) tr of
        (Inl e, tr1) \<Rightarrow> (Inl e, tr1)
      | (Inr response, tr1) \<Rightarrow>
          (case reply_parts response of
             Inl e \<Rightarrow> (Inl e, tr1)
           | Inr (candidate_content, ps) \<Rightarrow>
               if function_calls_of ps = [] then (Inr (final_text ps), tr1)
               else
                 (case call_functions E A (function_calls_of ps) tr1 of
                    (Inl e, tr2) \<Rightarrow> (Inl e, tr2)
                  | (Inr tool_results, tr2) \<Rightarrow>
                      query_loop E A n
                        (messages @ [candidate_content,
                                     \<lparr>role = ''user'', parts = Some tool_results\<rparr>]) tr2)))"

definition query ::
  "env \<Rightarrow> 'a gemini_mcp_agent_scheme \<Rightarrow> string \<Rightarrow> trace \<Rightarrow> (error + string) \<times> trace" where
  "query E A user_input tr = query_loop E A 10 [user_message user_input] tr"

definition run_request :: "specialist_agent \<Rightarrow> content list \<Rightarrow> request" where
  "run_request S messages =
     \<lparr>model = MODEL, contents = messages, system_instruction = Some (system_prompt S),
      tools = (if gemini_tools S = [] then None else Some (gemini_tools S)),
      automatic_function_calling_disable = True, response_mime_type = None\<rparr>"

fun run_loop ::
  "env \<Rightarrow> specialist_agent \<Rightarrow> nat \<Rightarrow> content list \<Rightarrow> trace \<Rightarrow> (error + string) \<times> trace" where
  "run_loop E S 0 messages tr = (Inr MAX_ITERATIONS_WARNING, tr)"
| "run_loop E S (Suc n) messages tr =
     (case generate E (run_request S messages) tr of
        (Inl e, tr1) \<Rightarrow> (Inl e, tr1)
      | (Inr response, tr1) \<Rightarrow>
          (case reply_parts response of
             Inl e \<Rightarrow> (Inl e, tr1)
           | Inr (candidate_content, ps) \<Rightarrow>
               if function_calls_of ps = [] then (Inr (final_text ps), tr1)
               else
                 (case call_functions E S (function_calls_of ps) tr1 of
                    (Inl e, tr2) \<Rightarrow> (Inl e, tr2)
                  | (Inr tool_results, tr2) \<Rightarrow>
                      run_loop E S n
                        (messages @ [candidate_content,
                                     \<lparr>role = ''user'', parts = Some tool_results\<rparr>]) tr2)))"

definition run ::
  "env \<Rightarrow> specialist_agent \<Rightarrow> string \<Rightarrow> trace \<Rightarrow> (error + string) \<times> trace" where
  "run E S task tr = run_loop E S 10 [user_message task] tr"

section \<open>The orchestrator\<close>

subsection \<open>Python operations on decoded JSON\<close>

definition truthy :: "json \<Rightarrow> bool" where
  "truthy v =
     (case v of JNull \<Rightarrow> False | JBool b \<Rightarrow> b | JNum n \<Rightarrow> n \<noteq> 0 | JStr s \<Rightarrow> s \<noteq> []
      | JArr xs \<Rightarrow> xs \<noteq> [] | JObj d \<Rightarrow> d \<noteq> [])"

definition dict_get :: "(string \<times> 'v) list \<Rightarrow> string \<Rightarrow> 'v \<Rightarrow> 'v" where
  \<comment> \<open>\<open>d.get(k, default)\<close>\<close>
  "dict_get d k dflt = (case map_of d k of None \<Rightarrow> dflt | Some v \<Rightarrow> v)"

fun dict_set :: "(string \<times> 'v) list \<Rightarrow> string \<Rightarrow> 'v \<Rightarrow> (string \<times> 'v) list" where
  \<comment> \<open>\<open>d[k] = v\<close>: a key already present keeps its place, a new key goes last\<close>
  "dict_set [] k v = [(k, v)]"
| "dict_set ((k', v') # d) k v = (if k' = k then (k, v) # d else (k', v') # dict_set d k v)"

definition subscript :: "json \<Rightarrow> string \<Rightarrow> error + json" where
  \<comment> \<open>\<open>v[k]\<close> for a string \<open>k\<close>: only a \<open>dict\<close> can be indexed by a string\<close>
  "subscript v k =
     (case v of
        JObj d \<Rightarrow> (case map_of d k of None \<Rightarrow> Inl KeyError | Some x \<Rightarrow> Inr x)
      | _ \<Rightarrow> Inl TypeError)"

definition py_iter :: "json \<Rightarrow> error + json list" where
  \<comment> \<open>\<open>for s in v\<close>: a list gives its items, a \<open>str\<close> its characters (one-character
     strings; every one of them is a \<open>str\<close>, which is all the code can see of it), a
     \<open>dict\<close> its keys; nothing else is iterable\<close>
  "py_iter v =
     (case v of
        JArr xs \<Rightarrow> Inr xs
      | JStr s \<Rightarrow> Inr (map (\<lambda>c. JStr [c]) s)
      | JObj d \<Rightarrow> Inr (map (\<lambda>kv. JStr (fst kv)) d)
      | _ \<Rightarrow> Inl TypeError)"

definition format_value :: "env \<Rightarrow> json \<Rightarrow> string" where
  \<comment> \<open>\<open>f"{v}"\<close>: a \<open>str\<close> is inserted as it is\<close>
  "format_value E v = (case v of JStr s \<Rightarrow> s | _ \<Rightarrow> py_str E v)"

subsection \<open>Planning\<close>

definition plan_request :: "string \<Rightarrow> request" where
  "plan_request user_input =
     \<lparr>model = MODEL, contents = [user_message user_input],
      system_instruction = Some ORCHESTRATOR_SYSTEM_PROMPT, tools = None,
      automatic_function_calling_disable = False,
      response_mime_type = Some ''application/json''\<rparr>"

definition first_part_text :: "response \<Rightarrow> error + string option" where
  \<comment> \<open>\<open>response.candidates[0].content.parts[0].text\<close>\<close>
  "first_part_text r =
     (case reply_parts r of
        Inl e \<Rightarrow> Inl e
      | Inr (c, []) \<Rightarrow> Inl IndexError
      | Inr (c, p # _) \<Rightarrow> Inr (text p))"

definition create_plan :: "env \<Rightarrow> string \<Rightarrow> trace \<Rightarrow> (error + json) \<times> trace" where
  \<comment> \<open>\<open>Orchestrator._create_plan\<close>; \<open>json.loads(None)\<close> is a \<open>TypeError\<close>\<close>
  "create_plan E user_input tr =
     (case generate E (plan_request user_input) tr of
        (Inl e, tr1) \<Rightarrow> (Inl e, tr1)
      | (Inr response, tr1) \<Rightarrow>
          (case first_part_text response of
             Inl e \<Rightarrow> (Inl e, tr1)
           | Inr None \<Rightarrow> (Inl TypeError, tr1)
           | Inr (Some t) \<Rightarrow> (json_loads E t, tr1)))"

subsection \<open>Delegation\<close>

definition step_label :: "json \<Rightarrow> error + unit" where
  \<comment> \<open>\<open>s["agent"].capitalize()\<close> of the plan summary: only a \<open>str\<close> has the method; the
     text itself goes to the console\<close>
  "step_label s =
     (case subscript s ''agent'' of
        Inl e \<Rightarrow> Inl e
      | Inr (JStr a) \<Rightarrow> Inr ()
      | Inr _ \<Rightarrow> Inl AttributeError)"

fun step_summary :: "json list \<Rightarrow> error + unit" where
  "step_summary [] = Inr ()"
| "step_summary (s # ss) = (case step_label s of Inl e \<Rightarrow> Inl e | Inr _ \<Rightarrow> step_summary ss)"

definition render_result :: "string \<times> string \<Rightarrow> string" where
  \<comment> \<open>\<open>f"--- {name} ... ---\n{result}\n\n"\<close>\<close>
  "render_result nr = ''--- '' @ fst nr @ result_label_suffix @ snd nr @ newline @ newline"

definition full_task_of :: "env \<Rightarrow> string \<Rightarrow> json \<Rightarrow> (string \<times> string) list \<Rightarrow> string" where
  "full_task_of E user_input task results =
     (context_prefix @ user_input @ newline @ newline) @ current_task_prefix @ format_value E task
     @ (if results \<noteq> [] then previous_results_header @ concat (map render_result results)
        else [])"

text \<open>The loop \<open>for step in steps\<close>. \<open>specialists.get\<close> raises on an unhashable key (a list
  or a dict) and finds nothing under a key that is not a string.\<close>

fun run_steps ::
  "env \<Rightarrow> (string \<Rightarrow> specialist_agent option) \<Rightarrow> string \<Rightarrow> json list \<Rightarrow>
   (string \<times> string) list \<Rightarrow> trace \<Rightarrow> (error + (string \<times> string) list) \<times> trace" where
  "run_steps E specialists user_input [] results tr = (Inr results, tr)"
| "run_steps E specialists user_input (step # steps) results tr =
     (case subscript step ''agent'' of
        Inl e \<Rightarrow> (Inl e, tr)
      | Inr agent_name \<Rightarrow>
     (case subscript step ''task'' of
        Inl e \<Rightarrow> (Inl e, tr)
      | Inr task \<Rightarrow>
     (case agent_name of
        JStr a \<Rightarrow>
          (case specialists a of
             None \<Rightarrow> run_steps E specialists user_input steps results tr
           | Some specialist \<Rightarrow>
               (case run E specialist (full_task_of E user_input task results) tr of
                  (Inl e, tr1) \<Rightarrow>
                    (Inl e, tr1\<lparr>runs := runs tr1
                                   @ [(a, full_task_of E user_input task results, Inl e)]\<rparr>)
                | (Inr result, tr1) \<Rightarrow>
                    run_steps E specialists user_input steps (dict_set results a result)
                      (tr1\<lparr>runs := runs tr1
                                @ [(a, full_task_of E user_input task results, Inr result)]\<rparr>)))
      | JArr _ \<Rightarrow> (Inl TypeError, tr)
      | JObj _ \<Rightarrow> (Inl TypeError, tr)
      | _ \<Rightarrow> run_steps E specialists user_input steps results tr)))"

subsection \<open>Synthesis\<close>

definition synthesis_prompt :: "string \<Rightarrow> (string \<times> string) list \<Rightarrow> string" where
  "synthesis_prompt user_input results =
     (context_prefix @ user_input @ newline @ newline @ synthesis_instruction)
     @ concat (map render_result results)"

definition synthesis_request :: "string \<Rightarrow> (string \<times> string) list \<Rightarrow> request" where
  "synthesis_request user_input results =
     \<lparr>model = MODEL, contents = [user_message (synthesis_prompt user_input results)],
      system_instruction = Some EDITOR_SYSTEM_INSTRUCTION, tools = None,
      automatic_function_calling_disable = False, response_mime_type = None\<rparr>"

definition opt_str :: "string option \<Rightarrow> json" where
  \<comment> \<open>a Python value that is a \<open>str\<close> or \<open>None\<close>\<close>
  "opt_str t = (case t of None \<Rightarrow> JNull | Some s \<Rightarrow> JStr s)"

definition synthesize ::
  "env \<Rightarrow> string \<Rightarrow> (string \<times> string) list \<Rightarrow> trace \<Rightarrow> (error + json) \<times> trace" where
  \<comment> \<open>step 5 of \<open>process\<close>: \<open>list(results.values())[0]\<close>, or the synthesis call\<close>
  "synthesize E user_input results tr =
     (if length results = 1 then (Inr (JStr (snd (hd results))), tr)
      else
        (case generate E (synthesis_request user_input results) tr of
           (Inl e, tr1) \<Rightarrow> (Inl e, tr1)
         | (Inr response, tr1) \<Rightarrow>
             (case first_part_text response of
                Inl e \<Rightarrow> (Inl e, tr1)
              | Inr t \<Rightarrow> (Inr (opt_str t), tr1))))"

record orchestrator =
  specialists :: "string \<Rightarrow> specialist_agent option"

text \<open>\<open>Orchestrator.process\<close>, in two parts: the planning call, and everything after
  it (\<open>execute_plan\<close>: the direct answer, or delegation and synthesis). Its value is
  whatever Python object the code returns: a string, or the \<open>direct_response\<close> of the plan as
  decoded, or \<open>None\<close>. Only a \<open>dict\<close> has the method \<open>get\<close>.\<close>

definition execute_plan ::
  "env \<Rightarrow> orchestrator \<Rightarrow> string \<Rightarrow> json \<Rightarrow> trace \<Rightarrow> (error + json) \<times> trace" where
  "execute_plan E orch user_input plan tr1 =
     (case plan of
        JObj d \<Rightarrow>
          if \<not> truthy (dict_get d ''needs_specialists'' (JBool False)) then
            (Inr (dict_get d ''direct_response'' (JStr EMPTY_RESPONSE)), tr1)
          else
            (case py_iter (dict_get d ''plan'' (JArr [])) of
               Inl e \<Rightarrow> (Inl e, tr1)
             | Inr steps \<Rightarrow>
                 (case step_summary steps of
                    Inl e \<Rightarrow> (Inl e, tr1)
                  | Inr _ \<Rightarrow>
                      (case run_steps E (specialists orch) user_input steps [] tr1 of
                         (Inl e, tr2) \<Rightarrow> (Inl e, tr2)
                       | (Inr results, tr2) \<Rightarrow> synthesize E user_input results tr2)))
      | _ \<Rightarrow> (Inl AttributeError, tr1))"

definition process :: "env \<Rightarrow> orchestrator \<Rightarrow> string \<Rightarrow> trace \<Rightarrow> (error + json) \<times> trace" where
  "process E orch user_input tr =
     (case create_plan E user_input tr of
        (Inl e, tr1) \<Rightarrow> (Inl e, tr1)
      | (Inr plan, tr1) \<Rightarrow> execute_plan E orch user_input plan tr1)"

section \<open>Notions used in the statements\<close>

text \<open>A model response that contains at least one tool-call request, and one in which
  every tool-call request carries arguments.\<close>

definition requests_tool :: "error + response \<Rightarrow> bool" where
  "requests_tool outcome =
     (case outcome of
        Inr r \<Rightarrow> (case reply_parts r of Inr (c, ps) \<Rightarrow> function_calls_of ps \<noteq> [] | Inl e \<Rightarrow> False)
      | Inl e \<Rightarrow> False)"

definition calls_carry_args :: "error + response \<Rightarrow> bool" where
  "calls_carry_args outcome =
     (case outcome of
        Inr r \<Rightarrow>
          (case reply_parts r of
             Inr (c, ps) \<Rightarrow> list_all (\<lambda>fc. fc_args fc \<noteq> None) (function_calls_of ps)
           | Inl e \<Rightarrow> True)
      | Inl e \<Rightarrow> True)"

text \<open>A specialist seen as a plain agent: the same sessions, routing table and tools.\<close>

definition as_agent :: "specialist_agent \<Rightarrow> gemini_mcp_agent" where
  "as_agent S = \<lparr>sessions = sessions S, tools_map = tools_map S, gemini_tools = gemini_tools S\<rparr>"

text \<open>One pass of the loop body, which \<open>query\<close> and \<open>run\<close> share word for word apart from
  the request they send: the outcome is an exception, the final text, or the messages of
  the next pass.\<close>

datatype step = Return string | Continue "content list"

definition iteration ::
  "env \<Rightarrow> 'a gemini_mcp_agent_scheme \<Rightarrow> request \<Rightarrow> content list \<Rightarrow> trace \<Rightarrow> (error + step) \<times> trace" where
  "iteration E A req messages tr =
     (case generate_content E (length (llm_calls tr)) of
        Inl e \<Rightarrow> (Inl e, tr\<lparr>llm_calls := llm_calls tr @ [req]\<rparr>)
      | Inr response \<Rightarrow>
          (case reply_parts response of
             Inl e \<Rightarrow> (Inl e, tr\<lparr>llm_calls := llm_calls tr @ [req]\<rparr>)
           | Inr (candidate_content, ps) \<Rightarrow>
               if function_calls_of ps = [] then
                 (Inr (Return (final_text ps)), tr\<lparr>llm_calls := llm_calls tr @ [req]\<rparr>)
               else
                 (case call_functions E A (function_calls_of ps)
                         (tr\<lparr>llm_calls := llm_calls tr @ [req]\<rparr>) of
                    (Inl e, tr2) \<Rightarrow> (Inl e, tr2)
                  | (Inr tool_results, tr2) \<Rightarrow>
                      (Inr (Continue (messages @ [candidate_content,
                                                  \<lparr>role = ''user'', parts = Some tool_results\<rparr>])),
                       tr2))))"

definition with_system_instruction :: "string \<Rightarrow> request \<Rightarrow> request" where
  "with_system_instruction p r = r\<lparr>system_instruction := Some p\<rparr>"

text \<open>Python's \<open>sep.join\<close>, said without recursion on pairs: every item but the last is
  followed by the separator.\<close>

definition joined :: "string \<Rightarrow> string list \<Rightarrow> string" where
  "joined sep xs = (if xs = [] then [] else concat (map (\<lambda>x. x @ sep) (butlast xs)) @ last xs)"

text \<open>Concrete worlds and agents on which the theorems below are run. A model reply is a
  response with one candidate holding the given parts.\<close>

definition model_reply :: "part list \<Rightarrow> error + response" where
  "model_reply ps =
     Inr \<lparr>candidates = Some [\<lparr>content = Some \<lparr>role = ''model'', parts = Some ps\<rparr>\<rparr>]\<rparr>"

definition text_only_env :: env where
  "text_only_env =
     \<lparr>generate_content = (\<lambda>n. model_reply [from_text ''a'', from_text [], from_text ''b'']),
      call_tool = (\<lambda>n. Inr []), json_loads = (\<lambda>s. Inl JSONDecodeError), py_str = (\<lambda>v. [])\<rparr>"

definition no_parts_env :: env where
  "no_parts_env =
     \<lparr>generate_content =
        (\<lambda>n. Inr \<lparr>candidates = Some [\<lparr>content = Some \<lparr>role = ''model'', parts = None\<rparr>\<rparr>]\<rparr>),
      call_tool = (\<lambda>n. Inr []), json_loads = (\<lambda>s. Inl JSONDecodeError), py_str = (\<lambda>v. [])\<rparr>"

definition plain_specialist :: specialist_agent where
  "plain_specialist =
     \<lparr>sessions = [], tools_map = Map.empty, gemini_tools = [], name = ''Writer'',
      system_prompt = ''write''\<rparr>"

definition call_part :: "string \<Rightarrow> part" where
  "call_part n =
     \<lparr>text = None, function_call = Some \<lparr>fc_name = Some n, fc_args = Some []\<rparr>,
      function_response = None\<rparr>"

definition bare_call_part :: "string \<Rightarrow> part" where
  \<comment> \<open>a tool-call request without arguments\<close>
  "bare_call_part n =
     \<lparr>text = None, function_call = Some \<lparr>fc_name = Some n, fc_args = None\<rparr>,
      function_response = None\<rparr>"

definition tool_specialist :: specialist_agent where
  "tool_specialist =
     \<lparr>sessions = [''git''], tools_map = [''get_commits'' \<mapsto> ''git''], gemini_tools = [],
      name = ''Analyst'', system_prompt = ''analyse''\<rparr>"

definition detached_specialist :: specialist_agent where
  \<comment> \<open>the routing table names a server that has no session\<close>
  "detached_specialist =
     \<lparr>sessions = [], tools_map = [''get_commits'' \<mapsto> ''git''], gemini_tools = [],
      name = ''Analyst'', system_prompt = ''analyse''\<rparr>"

definition failing_tool_env :: env where
  "failing_tool_env =
     \<lparr>generate_content = (\<lambda>n. model_reply [call_part ''get_commits'']),
      call_tool = (\<lambda>n. Inl ToolInvocationError),
      json_loads = (\<lambda>s. Inl JSONDecodeError), py_str = (\<lambda>v. [])\<rparr>"

definition working_tool_env :: env where
  "working_tool_env =
     \<lparr>generate_content = (\<lambda>n. model_reply [call_part ''get_commits'']),
      call_tool = (\<lambda>n. Inr [TextContent ''3 commits'']),
      json_loads = (\<lambda>s. Inl JSONDecodeError), py_str = (\<lambda>v. [])\<rparr>"

definition bare_call_env :: "string \<Rightarrow> env" where
  \<comment> \<open>every response requests the given tool without arguments; the tools work\<close>
  "bare_call_env n =
     \<lparr>generate_content = (\<lambda>k. model_reply [bare_call_part n]),
      call_tool = (\<lambda>k. Inr [TextContent ''3 commits'']),
      json_loads = (\<lambda>s. Inl JSONDecodeError), py_str = (\<lambda>v. [])\<rparr>"

definition second_call_fails_env :: env where
  "second_call_fails_env =
     \<lparr>generate_content = (\<lambda>n. model_reply [call_part ''get_commits'']),
      call_tool = (\<lambda>n. if n = 0 then Inr [TextContent ''3 commits''] else Inl ToolInvocationError),
      json_loads = (\<lambda>s. Inl JSONDecodeError), py_str = (\<lambda>v. [])\<rparr>"

definition unknown_call_env :: env where
  "unknown_call_env =
     \<lparr>generate_content =
        (\<lambda>n. if n = 0 then model_reply [call_part ''rm''] else model_reply [from_text ''done'']),
      call_tool = (\<lambda>n. Inl ToolInvocationError),
      json_loads = (\<lambda>s. Inl JSONDecodeError), py_str = (\<lambda>v. [])\<rparr>"

definition mixed_calls_env :: env where
  \<comment> \<open>an unknown tool and, in the same response, a known tool whose invocation raises\<close>
  "mixed_calls_env =
     \<lparr>generate_content = (\<lambda>n. model_reply [call_part ''rm'', call_part ''get_commits'']),
      call_tool = (\<lambda>n. Inl ToolInvocationError),
      json_loads = (\<lambda>s. Inl JSONDecodeError), py_str = (\<lambda>v. [])\<rparr>"

text \<open>The two plan shapes the planning prompt asks for, as the specification words them:
  \<open>{needs_specialists: false, direct_response: string}\<close> or
  \<open>{needs_specialists: true, plan: [{agent, task}, ...]}\<close>.\<close>

definition is_plan_step :: "json \<Rightarrow> bool" where
  "is_plan_step s =
     (case s of
        JObj d \<Rightarrow>
          (case (map_of d ''agent'', map_of d ''task'') of
             (Some (JStr a), Some (JStr t)) \<Rightarrow> True
           | _ \<Rightarrow> False)
      | _ \<Rightarrow> False)"

definition recognized_shape :: "json \<Rightarrow> bool" where
  "recognized_shape v =
     (case v of
        JObj d \<Rightarrow>
          (case map_of d ''needs_specialists'' of
             Some (JBool False) \<Rightarrow>
               (case map_of d ''direct_response'' of Some (JStr r) \<Rightarrow> True | _ \<Rightarrow> False)
           | Some (JBool True) \<Rightarrow>
               (case map_of d ''plan'' of Some (JArr steps) \<Rightarrow> list_all is_plan_step steps
                | _ \<Rightarrow> False)
           | _ \<Rightarrow> False)
      | _ \<Rightarrow> False)"

text \<open>A step that is an object with a string under \<open>agent\<close>.\<close>

definition names_agent :: "json \<Rightarrow> bool" where
  "names_agent s =
     (case s of
        JObj d \<Rightarrow> (case map_of d ''agent'' of Some (JStr a) \<Rightarrow> True | _ \<Rightarrow> False)
      | _ \<Rightarrow> False)"

text \<open>A plan step (an agent name and a task) whose agent is not a registered specialist.\<close>

definition unknown_step :: "(string \<Rightarrow> specialist_agent option) \<Rightarrow> json \<Rightarrow> bool" where
  "unknown_step specs s =
     (case (subscript s ''agent'', subscript s ''task'') of
        (Inr (JStr a), Inr task) \<Rightarrow> specs a = None
      | _ \<Rightarrow> False)"

text \<open>A stand-in for \<open>json.loads\<close> that decodes the listed documents and rejects every other
  text.\<close>

definition table_loads :: "(string \<times> json) list \<Rightarrow> string \<Rightarrow> error + json" where
  "table_loads tbl s = (case map_of tbl s of Some v \<Rightarrow> Inr v | None \<Rightarrow> Inl JSONDecodeError)"

text \<open>A world whose model answers with the given texts in turn, each as the one text part
  of a reply, and whose calls fail once the texts are used up; its JSON parser knows the
  given documents.\<close>

definition scripted_env :: "string list \<Rightarrow> (string \<times> json) list \<Rightarrow> env" where
  "scripted_env answers documents =
     \<lparr>generate_content =
        (\<lambda>n. if n < length answers then model_reply [from_text (answers ! n)]
              else Inl LLMCallError),
      call_tool = (\<lambda>n. Inl ToolInvocationError),
      json_loads = table_loads documents,
      py_str = (\<lambda>v. ''?'')\<rparr>"

definition team :: orchestrator where
  "team = \<lparr>specialists =
      [''analyst'' \<mapsto> tool_specialist,
       ''writer'' \<mapsto> plain_specialist,
       ''reviewer'' \<mapsto> plain_specialist\<lparr>name := ''Reviewer'', system_prompt := ''review''\<rparr>]\<rparr>"

definition plan_step :: "string \<Rightarrow> string \<Rightarrow> json" where
  "plan_step a t = JObj [(''agent'', JStr a), (''task'', JStr t)]"

definition specialists_plan :: "json list \<Rightarrow> json" where
  "specialists_plan steps = JObj [(''needs_specialists'', JBool True), (''plan'', JArr steps)]"

definition ghost_plan_text :: string where
  \<open>ghost_plan_text =
     ''{"needs_specialists": true, "plan": [{"agent": "ghost", "task": "haunt"}]}''\<close>

definition ghost_env :: env where
  "ghost_env =
     scripted_env [ghost_plan_text, ''FINAL'']
       [(ghost_plan_text, specialists_plan [plan_step ''ghost'' ''haunt''])]"

text \<open>The steps of a plan that reach a specialist, as pairs of agent name and task: the
  steps with a task whose agent is the name of a registered specialist.\<close>

definition executed :: "(string \<Rightarrow> specialist_agent option) \<Rightarrow> json list \<Rightarrow> (string \<times> json) list" where
  "executed specs steps =
     List.map_filter
       (\<lambda>s. case (subscript s ''agent'', subscript s ''task'') of
              (Inr (JStr a), Inr task) \<Rightarrow> (if specs a = None then None else Some (a, task))
            | _ \<Rightarrow> None)
       steps"

text \<open>Left-to-right information flow, for the specialist invocations \<open>rs\<close> of the steps
  \<open>exec\<close>: each invocation is for the next step's agent, its task string is built from the
  user request, that step's task and \<open>earlier\<close>, the labelled results of the invocations
  before it in the order they were produced; an invocation that raised is the last one.\<close>

fun flow_ok ::
  "env \<Rightarrow> string \<Rightarrow> (string \<times> string) list \<Rightarrow> (string \<times> json) list \<Rightarrow>
   (string \<times> string \<times> (error + string)) list \<Rightarrow> bool" where
  "flow_ok E ui earlier exec [] = True"
| "flow_ok E ui earlier [] (r # rs) = False"
| "flow_ok E ui earlier ((a, task) # exec) ((a', t', out) # rs) =
     (a' = a \<and> t' = full_task_of E ui task earlier \<and>
      (case out of
         Inl e \<Rightarrow> rs = []
       | Inr result \<Rightarrow> flow_ok E ui (earlier @ [(a, result)]) exec rs))"

text \<open>The labelled results of the specialist invocations that returned, in order.\<close>

definition collected :: "(string \<times> string \<times> (error + string)) list \<Rightarrow> (string \<times> string) list" where
  "collected rs =
     List.map_filter (\<lambda>r. case snd (snd r) of Inr result \<Rightarrow> Some (fst r, result) | Inl e \<Rightarrow> None) rs"

definition two_step_plan_text :: string where
  \<open>two_step_plan_text =
     ''{"needs_specialists": true, "plan": [{"agent": "analyst", "task": "collect X"}, '' @
     ''{"agent": "writer", "task": "draft Y"}]}''\<close>

definition two_step_env :: env where
  "two_step_env =
     scripted_env [two_step_plan_text, ''DATA'', ''DOC'', ''FINAL'']
       [(two_step_plan_text,
         specialists_plan [plan_step ''analyst'' ''collect X'', plan_step ''writer'' ''draft Y''])]"

text \<open>The same plan in a world whose model fails after the first specialist's answer.\<close>

definition cut_short_env :: env where
  "cut_short_env =
     scripted_env [two_step_plan_text, ''DATA'']
       [(two_step_plan_text,
         specialists_plan [plan_step ''analyst'' ''collect X'', plan_step ''writer'' ''draft Y''])]"

definition repeat_plan_text :: string where
  \<open>repeat_plan_text =
     ''{"needs_specialists": true, "plan": [{"agent": "analyst", "task": "collect"}, '' @
     ''{"agent": "writer", "task": "draft"}, {"agent": "analyst", "task": "check"}]}''\<close>

definition repeat_env :: env where
  "repeat_env =
     scripted_env [repeat_plan_text, ''r1'', ''r2'', ''r3'', ''FINAL'']
       [(repeat_plan_text,
         specialists_plan [plan_step ''analyst'' ''collect'', plan_step ''writer'' ''draft'',
                           plan_step ''analyst'' ''check''])]"

definition revisit_plan_text :: string where
  \<open>revisit_plan_text =
     ''{"needs_specialists": true, "plan": [{"agent": "analyst", "task": "collect"}, '' @
     ''{"agent": "writer", "task": "draft"}, {"agent": "analyst", "task": "check"}, '' @
     ''{"agent": "reviewer", "task": "review"}]}''\<close>

definition revisit_env :: env where
  "revisit_env =
     scripted_env [revisit_plan_text, ''r1'', ''r2'', ''r3'', ''r4'', ''FINAL'']
       [(revisit_plan_text,
         specialists_plan [plan_step ''analyst'' ''collect'', plan_step ''writer'' ''draft'',
                           plan_step ''analyst'' ''check'', plan_step ''reviewer'' ''review''])]"

section \<open>Properties of the tool-calling loop\<close>

subsection \<open>The loop body\<close>

lemma query_loop_Suc:
  "query_loop E A (Suc n) messages tr =
     (case iteration E A (query_request A messages) messages tr of
        (Inl e, t) \<Rightarrow> (Inl e, t)
      | (Inr (Return s), t) \<Rightarrow> (Inr s, t)
      | (Inr (Continue m), t) \<Rightarrow> query_loop E A n m t)"
  by (simp add: iteration_def generate_def split: sum.splits list.splits prod.splits)

lemma run_loop_Suc:
  "run_loop E S (Suc n) messages tr =
     (case iteration E S (run_request S messages) messages tr of
        (Inl e, t) \<Rightarrow> (Inl e, t)
      | (Inr (Return s), t) \<Rightarrow> (Inr s, t)
      | (Inr (Continue m), t) \<Rightarrow> run_loop E S n m t)"
  by (simp add: iteration_def generate_def split: sum.splits list.splits prod.splits)

declare query_loop.simps(2) [simp del] run_loop.simps(2) [simp del]

lemma call_function_llm_calls:
  "llm_calls (snd (call_function E A fc tr)) = llm_calls tr"
  by (simp add: call_function_def Let_def split: option.splits sum.splits)

lemma call_functions_llm_calls:
  "llm_calls (snd (call_functions E A fcs tr)) = llm_calls tr"
proof (induction fcs arbitrary: tr)
  case Nil
  then show ?case by simp
next
  case (Cons fc fcs)
  obtain r tr1 where p1: "call_function E A fc tr = (r, tr1)" by force
  obtain r2 tr2 where p2: "call_functions E A fcs tr1 = (r2, tr2)" by force
  have l1: "llm_calls tr1 = llm_calls tr"
    using call_function_llm_calls [of E A fc tr] p1 by simp
  have "llm_calls tr2 = llm_calls tr1" using Cons.IH [of tr1] p2 by simp
  with p1 p2 l1 show ?case by (simp split: sum.splits)
qed

lemma iteration_llm_calls:
  "llm_calls (snd (iteration E A req messages tr)) = llm_calls tr @ [req]"
proof -
  have "llm_calls (snd (call_functions E A fcs (tr\<lparr>llm_calls := llm_calls tr @ [req]\<rparr>)))
          = llm_calls tr @ [req]" for fcs
    by (simp add: call_functions_llm_calls)
  then show ?thesis
    by (auto simp: iteration_def split: sum.splits list.splits prod.splits) (metis snd_conv)+
qed

lemma query_loop_bound:
  "length (llm_calls (snd (query_loop E A n messages tr))) \<le> length (llm_calls tr) + n"
proof (induction n arbitrary: messages tr)
  case 0
  then show ?case by simp
next
  case (Suc n)
  obtain r t where it: "iteration E A (query_request A messages) messages tr = (r, t)" by force
  have l: "length (llm_calls t) = length (llm_calls tr) + 1"
    using iteration_llm_calls [of E A "query_request A messages" messages tr] it by simp
  show ?case
  proof (cases r)
    case (Inl e)
    with it l show ?thesis by (simp add: query_loop_Suc)
  next
    case (Inr st)
    show ?thesis
    proof (cases st)
      case (Return s)
      with it l Inr show ?thesis by (simp add: query_loop_Suc)
    next
      case (Continue m)
      with it l Inr Suc.IH [of m t] show ?thesis by (simp add: query_loop_Suc)
    qed
  qed
qed

subsection \<open>\<open>run\<close> follows \<open>query\<close>\<close>

lemma query_loop_extends:
  "\<exists>new. llm_calls (snd (query_loop E A n messages tr)) = llm_calls tr @ new"
proof (induction n arbitrary: messages tr)
  case 0
  then show ?case by simp
next
  case (Suc n)
  obtain r t where it: "iteration E A (query_request A messages) messages tr = (r, t)" by force
  have l: "llm_calls t = llm_calls tr @ [query_request A messages]"
    using iteration_llm_calls [of E A "query_request A messages" messages tr] it by simp
  show ?case
  proof (cases r)
    case (Inl e)
    with it l show ?thesis by (simp add: query_loop_Suc)
  next
    case (Inr st)
    show ?thesis
    proof (cases st)
      case (Return s)
      with it l Inr show ?thesis by (simp add: query_loop_Suc)
    next
      case (Continue m)
      with it l Inr Suc.IH [of m t] show ?thesis by (auto simp add: query_loop_Suc)
    qed
  qed
qed

lemma call_function_frame:
  assumes "sessions A = sessions B" and "tools_map A = tools_map B"
  shows "call_function E A fc (t\<lparr>llm_calls := l\<rparr>) =
     (case call_function E B fc t of (r, t') \<Rightarrow> (r, t'\<lparr>llm_calls := l\<rparr>))"
  using assms by (simp add: call_function_def Let_def split: option.splits sum.splits)

lemma call_functions_frame:
  assumes "sessions A = sessions B" and "tools_map A = tools_map B"
  shows "call_functions E A fcs (t\<lparr>llm_calls := l\<rparr>) =
     (case call_functions E B fcs t of (r, t') \<Rightarrow> (r, t'\<lparr>llm_calls := l\<rparr>))"
proof (induction fcs arbitrary: t)
  case Nil
  then show ?case by simp
next
  case (Cons fc fcs)
  obtain r t1 where p1: "call_function E B fc t = (r, t1)" by force
  obtain r2 t2 where p2: "call_functions E B fcs t1 = (r2, t2)" by force
  show ?case using p1 p2 Cons.IH [of t1]
    by (simp add: call_function_frame [OF assms] split: sum.splits)
qed

lemma as_agent_simps [simp]:
  "sessions (as_agent S) = sessions S" "tools_map (as_agent S) = tools_map S"
  "gemini_tools (as_agent S) = gemini_tools S"
  by (simp_all add: as_agent_def)

lemma run_request_query_request:
  "run_request S m = with_system_instruction (system_prompt S) (query_request (as_agent S) m)"
  by (simp add: run_request_def query_request_def with_system_instruction_def as_agent_def)

lemma iteration_frame:
  assumes "length l = length (llm_calls t)"
  shows "iteration E S (run_request S m) m (t\<lparr>llm_calls := l\<rparr>) =
     (case iteration E (as_agent S) (query_request (as_agent S) m) m t of
        (r, t') \<Rightarrow> (r, t'\<lparr>llm_calls := l @ [run_request S m]\<rparr>))"
proof -
  have cf: "call_functions E S fcs (t\<lparr>llm_calls := l @ [run_request S m]\<rparr>) =
     (case call_functions E (as_agent S) fcs (t\<lparr>llm_calls := llm_calls t @ [query_request (as_agent S) m]\<rparr>)
       of (r, t') \<Rightarrow> (r, t'\<lparr>llm_calls := l @ [run_request S m]\<rparr>))" for fcs
    using call_functions_frame [where A = S and B = "as_agent S" and t = "t\<lparr>llm_calls := llm_calls t @ [query_request (as_agent S) m]\<rparr>"
                                        and l = "l @ [run_request S m]" and E = E and fcs = fcs]
    by simp
  show ?thesis using assms
    by (simp add: iteration_def cf split: sum.splits list.splits prod.splits)
qed


lemma run_loop_sim:
  assumes "length l = length (llm_calls t)"
  shows "run_loop E S n m (t\<lparr>llm_calls := l\<rparr>) =
     (case query_loop E (as_agent S) n m t of
        (r, t') \<Rightarrow>
          (r, t'\<lparr>llm_calls := l @ map (with_system_instruction (system_prompt S))
                                       (drop (length l) (llm_calls t'))\<rparr>))"
  using assms
proof (induction n arbitrary: m t l)
  case 0
  then show ?case by simp
next
  case (Suc n)
  let ?q = "query_request (as_agent S) m"
  obtain r t1 where it: "iteration E (as_agent S) ?q m t = (r, t1)" by force
  have l1: "llm_calls t1 = llm_calls t @ [?q]"
    using iteration_llm_calls [of E "as_agent S" ?q m t] it by simp
  have its: "iteration E S (run_request S m) m (t\<lparr>llm_calls := l\<rparr>)
               = (r, t1\<lparr>llm_calls := l @ [run_request S m]\<rparr>)"
    using iteration_frame [OF Suc.prems, of E S m] it by simp
  have d1: "drop (length l) (llm_calls t1) = [?q]"
    using l1 Suc.prems by simp
  show ?case
  proof (cases r)
    case (Inl e)
    with it its d1 show ?thesis
      by (simp add: query_loop_Suc run_loop_Suc run_request_query_request)
  next
    case (Inr st)
    show ?thesis
    proof (cases st)
      case (Return s)
      with it its d1 Inr show ?thesis
        by (simp add: query_loop_Suc run_loop_Suc run_request_query_request)
    next
      case (Continue m')
      obtain r2 t2 where q2: "query_loop E (as_agent S) n m' t1 = (r2, t2)" by force
      obtain new where ext: "llm_calls t2 = llm_calls t1 @ new"
        using query_loop_extends [of E "as_agent S" n m' t1] q2 by auto
      have len: "length (l @ [run_request S m]) = length (llm_calls t1)"
        using l1 Suc.prems by simp
      have ih: "run_loop E S n m' (t1\<lparr>llm_calls := l @ [run_request S m]\<rparr>) =
                  (r2, t2\<lparr>llm_calls := (l @ [run_request S m]) @ map (with_system_instruction (system_prompt S))
                                       (drop (length (l @ [run_request S m])) (llm_calls t2))\<rparr>)"
        using Suc.IH [OF len, of m'] q2 by simp
      have dr: "drop (length l) (llm_calls t2) = ?q # new"
               "drop (length (l @ [run_request S m])) (llm_calls t2) = new"
        using ext l1 Suc.prems by simp_all
      show ?thesis
        using it its Inr Continue q2 ih dr
        by (simp add: query_loop_Suc run_loop_Suc run_request_query_request)
    qed
  qed
qed

lemma run_loop_query_loop:
  "run_loop E S n m tr =
     (case query_loop E (as_agent S) n m tr of
        (r, t') \<Rightarrow>
          (r, t'\<lparr>llm_calls := llm_calls tr @ map (with_system_instruction (system_prompt S))
                                       (drop (length (llm_calls tr)) (llm_calls t'))\<rparr>))"
  using run_loop_sim [where l = "llm_calls tr" and t = tr and E = E and S = S and n = n and m = m]
  by simp

lemma run_loop_fst: "fst (run_loop E S n m tr) = fst (query_loop E (as_agent S) n m tr)"
  by (simp add: run_loop_query_loop split: prod.splits)

lemma run_loop_tool_calls:
  "tool_calls (snd (run_loop E S n m tr)) = tool_calls (snd (query_loop E (as_agent S) n m tr))"
  by (simp add: run_loop_query_loop split: prod.splits)

lemma run_loop_llm_calls:
  "llm_calls (snd (run_loop E S n m tr)) =
     llm_calls tr @ map (with_system_instruction (system_prompt S))
        (drop (length (llm_calls tr)) (llm_calls (snd (query_loop E (as_agent S) n m tr))))"
  by (simp add: run_loop_query_loop split: prod.splits)

lemma run_loop_length:
  "length (llm_calls (snd (run_loop E S n m tr))) =
   length (llm_calls (snd (query_loop E (as_agent S) n m tr)))"
proof -
  obtain new where "llm_calls (snd (query_loop E (as_agent S) n m tr)) = llm_calls tr @ new"
    using query_loop_extends by blast
  then show ?thesis by (simp add: run_loop_llm_calls)
qed

text \<open>
  Claim C9. For every task, every sequence of model responses and every sequence of tool
  results, \<open>SpecialistAgent.run\<close> returns the same outcome as \<open>GeminiMCPAgent.query\<close> of an
  agent with the same sessions, routing table and tools: the same final text or the same
  exception, after the same tool invocations, and after the same model requests except that
  each request of \<open>run\<close> also carries the specialist's \<open>system_prompt\<close> as system instruction.
\<close>

theorem run_same_as_query:
  "fst (run E S task tr) = fst (query E (as_agent S) task tr)
   \<and> tool_calls (snd (run E S task tr)) = tool_calls (snd (query E (as_agent S) task tr))
   \<and> runs (snd (run E S task tr)) = runs (snd (query E (as_agent S) task tr))
   \<and> llm_calls (snd (run E S task tr)) =
       llm_calls tr @ map (with_system_instruction (system_prompt S))
         (drop (length (llm_calls tr)) (llm_calls (snd (query E (as_agent S) task tr))))"
  by (simp add: run_def query_def run_loop_query_loop split: prod.splits)

subsection \<open>The final answer\<close>

lemma no_calls:
  "list_all (\<lambda>p. function_call p = None) ps \<Longrightarrow> function_calls_of ps = []"
  by (induction ps) (auto simp: function_calls_of_def List.map_filter_def)

lemma reply_parts_eq:
  "candidates r = Some (candidate # rest) \<Longrightarrow> content candidate = Some c \<Longrightarrow> parts c = Some ps
   \<Longrightarrow> reply_parts r = Inr (c, ps)"
  by (simp add: reply_parts_def)

lemma iteration_final:
  assumes "generate_content E (length (llm_calls tr)) = Inr r"
      and "reply_parts r = Inr (c, ps)"
      and "list_all (\<lambda>p. function_call p = None) ps"
  shows "iteration E A req m tr =
           (Inr (Return (final_text ps)), tr\<lparr>llm_calls := llm_calls tr @ [req]\<rparr>)"
  using assms by (simp add: iteration_def no_calls)

lemma str_join_joined: "str_join sep xs = joined sep xs"
  by (induction sep xs rule: str_join.induct) (simp_all add: joined_def)

lemma non_empty_texts:
  "filter (\<lambda>t. t \<noteq> []) (List.map_filter text ps)
     = [the (text p). p \<leftarrow> ps, text p \<noteq> None \<and> text p \<noteq> Some []]"
proof (induction ps)
  case Nil
  then show ?case by (simp add: List.map_filter_def)
next
  case (Cons a ps)
  then show ?case by (cases "text a") (auto simp: List.map_filter_def)
qed

text \<open>
  Claim C7, as amended. When the response of a pass of the loop has a first candidate whose
  content holds a list of parts, none of them a tool-call part, the loop (in \<open>query\<close> and in
  \<open>run\<close> alike) returns at once, after that one model call: its value is the texts of the
  parts that have a non-empty text, joined by single newlines (a part with an empty text
  is left out), or the fixed placeholder for an empty response when no part has a
  non-empty text.
\<close>

theorem final_answer_without_tool_calls:
  assumes "generate_content E (length (llm_calls tr)) = Inr r"
      and "candidates r = Some (candidate # rest)"
      and "content candidate = Some c"
      and "parts c = Some ps"
      and "list_all (\<lambda>p. function_call p = None) ps"
  shows "fst (query_loop E (as_agent S) (Suc n) messages tr) =
           Inr (let texts = [the (text p). p \<leftarrow> ps, text p \<noteq> None \<and> text p \<noteq> Some []]
                in if texts = []
                   then ''('' @ [CHR 0xEB, CHR 0xB9, CHR 0x88] @ '' '' @
                        [CHR 0xEC, CHR 0x9D, CHR 0x91, CHR 0xEB, CHR 0x8B, CHR 0xB5] @ '')''
                   else concat (map (\<lambda>t. t @ [CHR 0x0A]) (butlast texts)) @ last texts)
       \<and> fst (run_loop E S (Suc n) messages tr) = fst (query_loop E (as_agent S) (Suc n) messages tr)
       \<and> snd (query_loop E (as_agent S) (Suc n) messages tr) =
           tr\<lparr>llm_calls := llm_calls tr @ [query_request (as_agent S) messages]\<rparr>
       \<and> snd (run_loop E S (Suc n) messages tr) =
           tr\<lparr>llm_calls := llm_calls tr @ [run_request S messages]\<rparr>"
proof -
  have rp: "reply_parts r = Inr (c, ps)"
    using assms(2-4) by (rule reply_parts_eq)
  have ft: "final_text ps =
      (let texts = [the (text p). p \<leftarrow> ps, text p \<noteq> None \<and> text p \<noteq> Some []]
       in if texts = []
          then ''('' @ [CHR 0xEB, CHR 0xB9, CHR 0x88] @ '' '' @
               [CHR 0xEC, CHR 0x9D, CHR 0x91, CHR 0xEB, CHR 0x8B, CHR 0xB5] @ '')''
          else concat (map (\<lambda>t. t @ [CHR 0x0A]) (butlast texts)) @ last texts)"
    unfolding final_text_def non_empty_texts str_join_joined
    by (simp add: Let_def joined_def newline_def EMPTY_RESPONSE_def)
  show ?thesis
    by (simp add: query_loop_Suc run_loop_Suc iteration_final [OF assms(1) rp assms(5)] ft)
qed

theorem final_answer_without_tool_calls_witness:
  "fst (query text_only_env (as_agent plain_specialist) ''hi'' empty_trace)
     = Inr (''a'' @ [CHR 0x0A] @ ''b'')
   \<and> fst (run text_only_env plain_specialist ''hi'' empty_trace) = Inr (''a'' @ [CHR 0x0A] @ ''b'')"
  using final_answer_without_tool_calls [of text_only_env empty_trace
      "\<lparr>candidates = Some [\<lparr>content = Some \<lparr>role = ''model'',
           parts = Some [from_text ''a'', from_text [], from_text ''b'']\<rparr>\<rparr>]\<rparr>"
      "\<lparr>content = Some \<lparr>role = ''model'',
           parts = Some [from_text ''a'', from_text [], from_text ''b'']\<rparr>\<rparr>" "[]"
      "\<lparr>role = ''model'', parts = Some [from_text ''a'', from_text [], from_text ''b'']\<rparr>"
      "[from_text ''a'', from_text [], from_text ''b'']"
      plain_specialist 9 "[user_message ''hi'']"]
  by (simp add: query_def run_def text_only_env_def model_reply_def empty_trace_def from_text_def
      numeral_eq_Suc)

lemmas eval_loop =
  query_def run_def query_loop_Suc run_loop_Suc iteration_def reply_parts_def call_function_def
  function_calls_of_def List.map_filter_def call_part_def bare_call_part_def model_reply_def
  from_function_response_def requests_tool_def empty_trace_def numeral_eq_Suc Let_def

text \<open>
  Claim C7 as stated fails twice. The response with the text parts \<open>a\<close>, the empty text and
  \<open>b\<close> has no tool-call part; all its text parts joined by newlines have two newlines in the
  middle, while \<open>query\<close> and \<open>run\<close> return \<open>a\<close>, one newline, \<open>b\<close>. And a response whose content
  has no parts at all (\<open>None\<close>) has no tool-call part and no text part, yet the loop raises
  on it and does not return the placeholder.
\<close>

theorem final_answer_counterexample:
  "joined [CHR 0x0A] (List.map_filter text [from_text ''a'', from_text [], from_text ''b''])
     = ''a'' @ [CHR 0x0A, CHR 0x0A] @ ''b''
   \<and> fst (query text_only_env (as_agent plain_specialist) ''hi'' empty_trace)
       = Inr (''a'' @ [CHR 0x0A] @ ''b'')
   \<and> fst (run text_only_env plain_specialist ''hi'' empty_trace) = Inr (''a'' @ [CHR 0x0A] @ ''b'')
   \<and> fst (query no_parts_env (as_agent plain_specialist) ''hi'' empty_trace) = Inl TypeError
   \<and> fst (run no_parts_env plain_specialist ''hi'' empty_trace) = Inl TypeError"
  by (simp add: eval_loop text_only_env_def no_parts_env_def final_text_def from_text_def
      joined_def newline_def)

subsection \<open>Termination and the iteration cap\<close>

lemma call_function_ok:
  assumes "\<forall>k. \<exists>r. call_tool E k = Inr r"
      and "\<forall>t s. tools_map A t = Some s \<longrightarrow> s = [] \<or> s \<in> set (sessions A)"
      and "fc_args fc \<noteq> None"
  shows "\<exists>r t. call_function E A fc tr = (Inr r, t)"
proof -
  obtain args where a: "fc_args fc = Some args" using assms(3) by blast
  show ?thesis
  proof (cases "fc_name fc")
    case None
    with a show ?thesis by (simp add: call_function_def)
  next
    case (Some n)
    show ?thesis
    proof (cases "tools_map A n")
      case None
      with a Some show ?thesis by (simp add: call_function_def)
    next
      case (Some s)
      obtain r where "call_tool E (length (tool_calls tr)) = Inr r" using assms(1) by blast
      moreover have "s = [] \<or> s \<in> set (sessions A)" using assms(2) Some by blast
      ultimately show ?thesis using a \<open>fc_name fc = Some n\<close> Some
        by (auto simp: call_function_def Let_def)
    qed
  qed
qed

lemma call_functions_ok:
  assumes "\<forall>k. \<exists>r. call_tool E k = Inr r"
      and "\<forall>t s. tools_map A t = Some s \<longrightarrow> s = [] \<or> s \<in> set (sessions A)"
  shows "list_all (\<lambda>fc. fc_args fc \<noteq> None) fcs \<Longrightarrow> \<exists>rs t. call_functions E A fcs tr = (Inr rs, t)"
proof (induction fcs arbitrary: tr)
  case Nil
  then show ?case by simp
next
  case (Cons fc fcs)
  have "fc_args fc \<noteq> None" using Cons.prems by simp
  then obtain r t1 where p1: "call_function E A fc tr = (Inr r, t1)"
    using call_function_ok [OF assms] by blast
  have "list_all (\<lambda>fc. fc_args fc \<noteq> None) fcs" using Cons.prems by simp
  from Cons.IH [OF this, of t1]
  obtain rs t2 where p2: "call_functions E A fcs t1 = (Inr rs, t2)" by blast
  show ?case using p1 p2 by simp
qed

lemma iteration_continues:
  assumes "requests_tool (generate_content E (length (llm_calls tr)))"
      and "calls_carry_args (generate_content E (length (llm_calls tr)))"
      and "\<forall>k. \<exists>r. call_tool E k = Inr r"
      and "\<forall>t s. tools_map A t = Some s \<longrightarrow> s = [] \<or> s \<in> set (sessions A)"
  shows "\<exists>m t. iteration E A req messages tr = (Inr (Continue m), t)"
proof -
  obtain r c ps where g: "generate_content E (length (llm_calls tr)) = Inr r"
    and rp: "reply_parts r = Inr (c, ps)"
    and f: "function_calls_of ps \<noteq> []"
    using assms(1) by (auto simp: requests_tool_def split: sum.splits)
  have "list_all (\<lambda>fc. fc_args fc \<noteq> None) (function_calls_of ps)"
    using assms(2) g rp by (simp add: calls_carry_args_def)
  then obtain rs t where "call_functions E A (function_calls_of ps)
                        (tr\<lparr>llm_calls := llm_calls tr @ [req]\<rparr>) = (Inr rs, t)"
    using call_functions_ok [OF assms(3,4)] by blast
  with g rp f show ?thesis by (simp add: iteration_def)
qed

lemma query_loop_warning:
  assumes "\<forall>k<n. requests_tool (generate_content E (length (llm_calls tr) + k))
                 \<and> calls_carry_args (generate_content E (length (llm_calls tr) + k))"
      and "\<forall>k. \<exists>r. call_tool E k = Inr r"
      and "\<forall>t s. tools_map A t = Some s \<longrightarrow> s = [] \<or> s \<in> set (sessions A)"
  shows "fst (query_loop E A n messages tr) = Inr MAX_ITERATIONS_WARNING
         \<and> length (llm_calls (snd (query_loop E A n messages tr))) = length (llm_calls tr) + n"
  using assms(1)
proof (induction n arbitrary: messages tr)
  case 0
  then show ?case by simp
next
  case (Suc n)
  have "requests_tool (generate_content E (length (llm_calls tr)))"
       "calls_carry_args (generate_content E (length (llm_calls tr)))"
    using Suc.prems by force+
  then obtain m t where it: "iteration E A (query_request A messages) messages tr = (Inr (Continue m), t)"
    using iteration_continues [OF _ _ assms(2,3)] by blast
  have l: "llm_calls t = llm_calls tr @ [query_request A messages]"
    using iteration_llm_calls [of E A "query_request A messages" messages tr] it by simp
  have "\<forall>k<n. requests_tool (generate_content E (length (llm_calls t) + k))
              \<and> calls_carry_args (generate_content E (length (llm_calls t) + k))"
  proof (intro allI impI)
    fix k assume "k < n"
    then have "requests_tool (generate_content E (length (llm_calls tr) + Suc k))
               \<and> calls_carry_args (generate_content E (length (llm_calls tr) + Suc k))"
      using Suc.prems by blast
    then show "requests_tool (generate_content E (length (llm_calls t) + k))
               \<and> calls_carry_args (generate_content E (length (llm_calls t) + k))"
      using l by simp
  qed
  from Suc.IH [OF this, of m] it l show ?case by (simp add: query_loop_Suc)
qed

text \<open>
  Claim C1, as amended. \<open>query\<close> and \<open>run\<close> are total functions, and for every sequence of
  model responses they make at most 10 model calls. If each of the 10 responses contains at
  least one tool-call request and the handling of the requested calls raises nothing (every
  call carries arguments, no \<open>call_tool\<close> fails and every routed server name has a session),
  they make exactly 10 model calls and return the fixed warning string, which is the last
  equation below.
\<close>

theorem loop_bounded_and_warning:
  "length (llm_calls (snd (query E (as_agent S) user_input tr))) \<le> length (llm_calls tr) + 10
   \<and> length (llm_calls (snd (run E S user_input tr))) \<le> length (llm_calls tr) + 10
   \<and> ((\<forall>k<10. requests_tool (generate_content E (length (llm_calls tr) + k))
                \<and> calls_carry_args (generate_content E (length (llm_calls tr) + k)))
        \<and> (\<forall>k. \<exists>r. call_tool E k = Inr r)
        \<and> (\<forall>t s. tools_map S t = Some s \<longrightarrow> s = [] \<or> s \<in> set (sessions S))
       \<longrightarrow> fst (query E (as_agent S) user_input tr) = Inr MAX_ITERATIONS_WARNING
         \<and> fst (run E S user_input tr) = Inr MAX_ITERATIONS_WARNING
         \<and> length (llm_calls (snd (query E (as_agent S) user_input tr))) = length (llm_calls tr) + 10
         \<and> length (llm_calls (snd (run E S user_input tr))) = length (llm_calls tr) + 10)
   \<and> MAX_ITERATIONS_WARNING =
       ''['' @ [CHR 0xEA, CHR 0xB2, CHR 0xBD, CHR 0xEA, CHR 0xB3, CHR 0xA0] @ ''] '' @
       [CHR 0xEC, CHR 0xB5, CHR 0x9C, CHR 0xEB, CHR 0x8C, CHR 0x80] @ '' '' @
       [CHR 0xEB, CHR 0xB0, CHR 0x98, CHR 0xEB, CHR 0xB3, CHR 0xB5] @ '' '' @
       [CHR 0xED, CHR 0x9A, CHR 0x9F, CHR 0xEC, CHR 0x88, CHR 0x98] @ ''(10)'' @
       [CHR 0xEC, CHR 0x97, CHR 0x90] @ '' '' @
       [CHR 0xEB, CHR 0x8F, CHR 0x84, CHR 0xEB, CHR 0x8B, CHR 0xAC, CHR 0xED, CHR 0x96, CHR 0x88] @
       [CHR 0xEC, CHR 0x8A, CHR 0xB5, CHR 0xEB, CHR 0x8B, CHR 0x88, CHR 0xEB, CHR 0x8B, CHR 0xA4] @
       ''.''"
proof -
  have b: "length (llm_calls (snd (query E (as_agent S) user_input tr))) \<le> length (llm_calls tr) + 10"
    unfolding query_def by (rule query_loop_bound)
  have r: "length (llm_calls (snd (run E S user_input tr)))
             = length (llm_calls (snd (query E (as_agent S) user_input tr)))"
    unfolding query_def run_def by (rule run_loop_length)
  have f: "fst (run E S user_input tr) = fst (query E (as_agent S) user_input tr)"
    unfolding query_def run_def by (rule run_loop_fst)
  have w: "fst (query E (as_agent S) user_input tr) = Inr MAX_ITERATIONS_WARNING
         \<and> length (llm_calls (snd (query E (as_agent S) user_input tr))) = length (llm_calls tr) + 10"
    if "\<forall>k<10. requests_tool (generate_content E (length (llm_calls tr) + k))
                \<and> calls_carry_args (generate_content E (length (llm_calls tr) + k))"
       "\<forall>k. \<exists>r. call_tool E k = Inr r"
       "\<forall>t s. tools_map S t = Some s \<longrightarrow> s = [] \<or> s \<in> set (sessions S)"
    unfolding query_def using query_loop_warning [of 10 E tr "as_agent S"] that by simp
  have lit: "MAX_ITERATIONS_WARNING =
       ''['' @ [CHR 0xEA, CHR 0xB2, CHR 0xBD, CHR 0xEA, CHR 0xB3, CHR 0xA0] @ ''] '' @
       [CHR 0xEC, CHR 0xB5, CHR 0x9C, CHR 0xEB, CHR 0x8C, CHR 0x80] @ '' '' @
       [CHR 0xEB, CHR 0xB0, CHR 0x98, CHR 0xEB, CHR 0xB3, CHR 0xB5] @ '' '' @
       [CHR 0xED, CHR 0x9A, CHR 0x9F, CHR 0xEC, CHR 0x88, CHR 0x98] @ ''(10)'' @
       [CHR 0xEC, CHR 0x97, CHR 0x90] @ '' '' @
       [CHR 0xEB, CHR 0x8F, CHR 0x84, CHR 0xEB, CHR 0x8B, CHR 0xAC, CHR 0xED, CHR 0x96, CHR 0x88] @
       [CHR 0xEC, CHR 0x8A, CHR 0xB5, CHR 0xEB, CHR 0x8B, CHR 0x88, CHR 0xEB, CHR 0x8B, CHR 0xA4] @
       ''.''"
    by (simp add: MAX_ITERATIONS_WARNING_def)
  show ?thesis using b r f w lit by presburger
qed

theorem loop_bounded_and_warning_witness:
  "list_all (\<lambda>k. requests_tool (generate_content working_tool_env k)
                \<and> calls_carry_args (generate_content working_tool_env k))
     [0, 1, 2, 3, 4, 5, 6, 7, 8, 9]
   \<and> fst (query working_tool_env (as_agent tool_specialist) ''q'' empty_trace)
        = Inr MAX_ITERATIONS_WARNING
   \<and> fst (run working_tool_env tool_specialist ''q'' empty_trace) = Inr MAX_ITERATIONS_WARNING
   \<and> length (llm_calls (snd (run working_tool_env tool_specialist ''q'' empty_trace))) = 10"
proof -
  have h1: "\<forall>k<10. requests_tool (generate_content working_tool_env (length (llm_calls empty_trace) + k))
                  \<and> calls_carry_args (generate_content working_tool_env (length (llm_calls empty_trace) + k))"
    by (simp add: working_tool_env_def requests_tool_def calls_carry_args_def reply_parts_def
        model_reply_def function_calls_of_def List.map_filter_def call_part_def)
  have h2: "\<forall>k. \<exists>r. call_tool working_tool_env k = Inr r"
    by (simp add: working_tool_env_def)
  have h3: "\<forall>t s. tools_map tool_specialist t = Some s \<longrightarrow> s = [] \<or> s \<in> set (sessions tool_specialist)"
    by (simp add: tool_specialist_def)
  show ?thesis
    using loop_bounded_and_warning [of working_tool_env tool_specialist "''q''" empty_trace] h1 h2 h3
    by (simp add: empty_trace_def working_tool_env_def requests_tool_def calls_carry_args_def
        reply_parts_def model_reply_def function_calls_of_def List.map_filter_def call_part_def)
qed

text \<open>
  Claim C1 as stated fails, in each of the three ways the handling of a requested call can
  raise. In all three runs each of the ten responses requests the tool \<open>get_commits\<close>. In
  the first its invocation raises; in the second the request carries no arguments, and the
  \<open>dict(fc.args)\<close> of the log line raises; in the third the routing table names a server that
  has no session. \<open>query\<close> and \<open>run\<close> end with that exception and not with the warning string.
\<close>

theorem raising_tool_counterexample:
  "list_all (\<lambda>k. requests_tool (generate_content failing_tool_env k)) [0, 1, 2, 3, 4, 5, 6, 7, 8, 9]
   \<and> fst (query failing_tool_env (as_agent tool_specialist) ''q'' empty_trace)
        = Inl ToolInvocationError
   \<and> fst (run failing_tool_env tool_specialist ''q'' empty_trace) = Inl ToolInvocationError
   \<and> list_all (\<lambda>k. requests_tool (generate_content (bare_call_env ''get_commits'') k))
        [0, 1, 2, 3, 4, 5, 6, 7, 8, 9]
   \<and> fst (query (bare_call_env ''get_commits'') (as_agent tool_specialist) ''q'' empty_trace)
        = Inl TypeError
   \<and> fst (run (bare_call_env ''get_commits'') tool_specialist ''q'' empty_trace) = Inl TypeError
   \<and> list_all (\<lambda>k. requests_tool (generate_content working_tool_env k)) [0, 1, 2, 3, 4, 5, 6, 7, 8, 9]
   \<and> fst (query working_tool_env (as_agent detached_specialist) ''q'' empty_trace) = Inl KeyError
   \<and> fst (run working_tool_env detached_specialist ''q'' empty_trace) = Inl KeyError"
  by (simp add: eval_loop failing_tool_env_def bare_call_env_def working_tool_env_def
      tool_specialist_def detached_specialist_def)

subsection \<open>Tool invocations that raise, and unknown tools\<close>

lemma call_functions_append:
  "call_functions E A (pre @ post) tr =
     (case call_functions E A pre tr of
        (Inl e, t1) \<Rightarrow> (Inl e, t1)
      | (Inr rs, t1) \<Rightarrow>
          (case call_functions E A post t1 of
             (Inl e, t2) \<Rightarrow> (Inl e, t2)
           | (Inr rs', t2) \<Rightarrow> (Inr (rs @ rs'), t2)))"
proof (induction pre arbitrary: tr)
  case Nil
  then show ?case by (simp split: prod.splits sum.splits)
next
  case (Cons fc pre)
  obtain r t1 where p1: "call_function E A fc tr = (r, t1)" by force
  show ?case using p1 Cons.IH [of t1] by (simp split: prod.splits sum.splits)
qed

lemma iteration_as_agent:
  assumes "sessions A = sessions S" and "tools_map A = tools_map S"
  shows "iteration E A req messages tr =
     (case generate_content E (length (llm_calls tr)) of
        Inl e \<Rightarrow> (Inl e, tr\<lparr>llm_calls := llm_calls tr @ [req]\<rparr>)
      | Inr response \<Rightarrow>
          (case reply_parts response of
             Inl e \<Rightarrow> (Inl e, tr\<lparr>llm_calls := llm_calls tr @ [req]\<rparr>)
           | Inr (candidate_content, ps) \<Rightarrow>
               if function_calls_of ps = [] then
                 (Inr (Return (final_text ps)), tr\<lparr>llm_calls := llm_calls tr @ [req]\<rparr>)
               else
                 (case call_functions E (as_agent S) (function_calls_of ps) tr of
                    (Inl e, tr2) \<Rightarrow> (Inl e, tr2\<lparr>llm_calls := llm_calls tr @ [req]\<rparr>)
                  | (Inr tool_results, tr2) \<Rightarrow>
                      (Inr (Continue (messages @ [candidate_content,
                                                  \<lparr>role = ''user'', parts = Some tool_results\<rparr>])),
                       tr2\<lparr>llm_calls := llm_calls tr @ [req]\<rparr>))))"
proof -
  have "call_functions E A fcs (tr\<lparr>llm_calls := llm_calls tr @ [req]\<rparr>) =
        (case call_functions E (as_agent S) fcs tr of
           (r, t') \<Rightarrow> (r, t'\<lparr>llm_calls := llm_calls tr @ [req]\<rparr>))" for fcs
    by (rule call_functions_frame) (simp_all add: assms)
  then show ?thesis
    by (simp add: iteration_def split: sum.splits prod.splits)
qed

text \<open>
  Claim C3, as amended. An exception raised by \<open>call_tool\<close> is not caught inside the loop.
  If, in some pass, the tool calls before a call \<open>fc\<close> have returned and the invocation of
  \<open>fc\<close> on its server raises \<open>e\<close>, then \<open>query\<close> and \<open>run\<close> end with \<open>e\<close>: the invocation of \<open>fc\<close>
  is the last remote call, no tool-result turn is built and no further model call is made.
\<close>

theorem tool_error_propagates:
  assumes gen: "generate_content E (length (llm_calls tr)) = Inr r"
      and reply: "candidates r = Some (candidate # rest)" "content candidate = Some c"
                 "parts c = Some ps"
      and fcs: "function_calls_of ps = pre @ fc # post"
      and pre_ok: "call_functions E (as_agent S) pre tr = (Inr rs, tr2)"
      and call: "fc_name fc = Some n" "fc_args fc = Some args"
      and routed: "tools_map S n = Some server" "server \<noteq> []"
                  "server \<in> set (sessions S)"
      and raises: "call_tool E (length (tool_calls tr2)) = Inl e"
  shows "query_loop E (as_agent S) (Suc k) messages tr =
           (Inl e, tr2\<lparr>llm_calls := llm_calls tr @ [query_request (as_agent S) messages],
                        tool_calls := tool_calls tr2 @ [(server, n, args)]\<rparr>)
       \<and> run_loop E S (Suc k) messages tr =
           (Inl e, tr2\<lparr>llm_calls := llm_calls tr @ [run_request S messages],
                        tool_calls := tool_calls tr2 @ [(server, n, args)]\<rparr>)"
proof -
  have rp: "reply_parts r = Inr (c, ps)" using reply by (rule reply_parts_eq)
  have one: "call_function E (as_agent S) fc tr2 =
               (Inl e, tr2\<lparr>tool_calls := tool_calls tr2 @ [(server, n, args)]\<rparr>)"
    using call routed raises by (simp add: call_function_def Let_def)
  have all: "call_functions E (as_agent S) (pre @ fc # post) tr =
               (Inl e, tr2\<lparr>tool_calls := tool_calls tr2 @ [(server, n, args)]\<rparr>)"
    using pre_ok one by (simp add: call_functions_append)
  have "iteration E A req messages tr =
          (Inl e, tr2\<lparr>llm_calls := llm_calls tr @ [req],
                       tool_calls := tool_calls tr2 @ [(server, n, args)]\<rparr>)"
    if "sessions A = sessions S" "tools_map A = tools_map S"
    for A :: "'a gemini_mcp_agent_scheme" and req
    using gen rp fcs all by (simp add: iteration_as_agent [OF that])
  from this [of "as_agent S"] this [of S]
  show ?thesis by (simp add: query_loop_Suc run_loop_Suc)
qed

theorem tool_error_propagates_witness:
  "fst (query_loop failing_tool_env (as_agent tool_specialist) (Suc 9) [user_message ''q''] empty_trace)
     = Inl ToolInvocationError
   \<and> fst (run_loop failing_tool_env tool_specialist (Suc 9) [user_message ''q''] empty_trace)
     = Inl ToolInvocationError
   \<and> tool_calls (snd (run_loop failing_tool_env tool_specialist (Suc 9) [user_message ''q''] empty_trace))
     = [(''git'', ''get_commits'', [])]"
  using tool_error_propagates [of failing_tool_env empty_trace
      "\<lparr>candidates = Some [\<lparr>content = Some \<lparr>role = ''model'',
           parts = Some [call_part ''get_commits'']\<rparr>\<rparr>]\<rparr>"
      "\<lparr>content = Some \<lparr>role = ''model'', parts = Some [call_part ''get_commits'']\<rparr>\<rparr>" "[]"
      "\<lparr>role = ''model'', parts = Some [call_part ''get_commits'']\<rparr>"
      "[call_part ''get_commits'']" "[]"
      "\<lparr>fc_name = Some ''get_commits'', fc_args = Some []\<rparr>" "[]" tool_specialist "[]" empty_trace
      "''get_commits''" "[]" "''git''" ToolInvocationError 9 "[user_message ''q'']"]
  by (simp add: failing_tool_env_def model_reply_def tool_specialist_def function_calls_of_def
      List.map_filter_def call_part_def empty_trace_def)

text \<open>
  Claim C3 as stated fails: the second tool invocation of this run raises, and the
  exception leaves \<open>query\<close> and \<open>run\<close> after two model calls and two tool invocations.
\<close>

theorem tool_error_counterexample:
  "call_tool second_call_fails_env 1 = Inl ToolInvocationError
   \<and> fst (query second_call_fails_env (as_agent tool_specialist) ''q'' empty_trace)
        = Inl ToolInvocationError
   \<and> fst (run second_call_fails_env tool_specialist ''q'' empty_trace) = Inl ToolInvocationError
   \<and> length (llm_calls (snd (run second_call_fails_env tool_specialist ''q'' empty_trace))) = 2
   \<and> length (tool_calls (snd (run second_call_fails_env tool_specialist ''q'' empty_trace))) = 2"
  by (simp add: eval_loop second_call_fails_env_def tool_specialist_def)

text \<open>
  Claim C2, as amended. A requested tool whose name is not in the routing table, when the
  request carries arguments, raises nothing and invokes nothing: its tool result is the
  text made of the Korean for "error: unknown tool" (the last equation below), the name in
  single quotes. When the other calls of the same response return as well, the pass ends
  with one tool-result turn holding that reply at the call's position, and the loop goes on
  to its next pass.
\<close>

theorem unknown_tool_reply:
  assumes gen: "generate_content E (length (llm_calls tr)) = Inr r"
      and reply: "candidates r = Some (candidate # rest)" "content candidate = Some c"
                 "parts c = Some ps"
      and fcs: "function_calls_of ps = pre @ fc # post"
      and args: "fc_args fc = Some args"
      and unknown: "(case fc_name fc of None \<Rightarrow> None | Some n \<Rightarrow> tools_map S n) = None"
      and pre_ok: "call_functions E (as_agent S) pre tr = (Inr rs, tr1)"
      and post_ok: "call_functions E (as_agent S) post tr1 = (Inr rs', tr2)"
  shows "call_function E S fc t =
           (Inr \<lparr>text = None, function_call = None,
                 function_response = Some
                   \<lparr>fr_name = fc_name fc,
                    fr_response =
                      [(''result'',
                        unknown_tool_prefix
                        @ (case fc_name fc of None \<Rightarrow> ''None'' | Some n \<Rightarrow> n) @ [CHR 0x27])]\<rparr>\<rparr>,
            t)
       \<and> query_loop E (as_agent S) (Suc k) messages tr =
           query_loop E (as_agent S) k
             (messages @ [c,
                \<lparr>role = ''user'',
                 parts = Some (rs @
                   \<lparr>text = None, function_call = None,
                    function_response = Some
                      \<lparr>fr_name = fc_name fc,
                       fr_response =
                         [(''result'',
                           unknown_tool_prefix
                           @ (case fc_name fc of None \<Rightarrow> ''None'' | Some n \<Rightarrow> n)
                           @ [CHR 0x27])]\<rparr>\<rparr> # rs')\<rparr>])
             (tr2\<lparr>llm_calls := llm_calls tr @ [query_request (as_agent S) messages]\<rparr>)
       \<and> run_loop E S (Suc k) messages tr =
           run_loop E S k
             (messages @ [c,
                \<lparr>role = ''user'',
                 parts = Some (rs @
                   \<lparr>text = None, function_call = None,
                    function_response = Some
                      \<lparr>fr_name = fc_name fc,
                       fr_response =
                         [(''result'',
                           unknown_tool_prefix
                           @ (case fc_name fc of None \<Rightarrow> ''None'' | Some n \<Rightarrow> n)
                           @ [CHR 0x27])]\<rparr>\<rparr> # rs')\<rparr>])
             (tr2\<lparr>llm_calls := llm_calls tr @ [run_request S messages]\<rparr>)
       \<and> unknown_tool_prefix =
           [CHR 0xEC, CHR 0x98, CHR 0xA4, CHR 0xEB, CHR 0xA5, CHR 0x98] @ '': '' @
           [CHR 0xEC, CHR 0x95, CHR 0x8C] @ '' '' @ [CHR 0xEC, CHR 0x88, CHR 0x98] @ '' '' @
           [CHR 0xEC, CHR 0x97, CHR 0x86, CHR 0xEB, CHR 0x8A, CHR 0x94] @ '' '' @
           [CHR 0xEB, CHR 0x8F, CHR 0x84, CHR 0xEA, CHR 0xB5, CHR 0xAC] @ '' '' @ [CHR 0x27]"
proof -
  let ?reply = "\<lparr>text = None, function_call = None,
                 function_response = Some
                   \<lparr>fr_name = fc_name fc,
                    fr_response =
                      [(''result'',
                        unknown_tool_prefix
                        @ (case fc_name fc of None \<Rightarrow> ''None'' | Some n \<Rightarrow> n) @ [CHR 0x27])]\<rparr>\<rparr>"
  have rp: "reply_parts r = Inr (c, ps)" using reply by (rule reply_parts_eq)
  have one: "call_function E A fc t' = (Inr ?reply, t')"
    if "tools_map A = tools_map S" for A :: "'a gemini_mcp_agent_scheme" and t'
  proof (cases "fc_name fc")
    case None
    with args show ?thesis
      by (simp add: call_function_def unknown_tool_text_def format_name_def
          from_function_response_def)
  next
    case (Some n)
    then have "tools_map A n = None" using unknown that by simp
    with args Some show ?thesis
      by (simp add: call_function_def unknown_tool_text_def format_name_def
          from_function_response_def)
  qed
  have all: "call_functions E (as_agent S) (pre @ fc # post) tr = (Inr (rs @ ?reply # rs'), tr2)"
    using pre_ok post_ok one [of "as_agent S" tr1] by (simp add: call_functions_append)
  have "iteration E A req messages tr =
          (Inr (Continue (messages @ [c, \<lparr>role = ''user'', parts = Some (rs @ ?reply # rs')\<rparr>])),
           tr2\<lparr>llm_calls := llm_calls tr @ [req]\<rparr>)"
    if "sessions A = sessions S" "tools_map A = tools_map S"
    for A :: "'a gemini_mcp_agent_scheme" and req
    using gen rp fcs all by (simp add: iteration_as_agent [OF that])
  from this [of "as_agent S"] this [of S] one [of S t]
  show ?thesis by (simp add: query_loop_Suc run_loop_Suc unknown_tool_prefix_def)
qed

theorem unknown_tool_reply_witness:
  "tools_map tool_specialist ''rm'' = None
   \<and> run unknown_call_env tool_specialist ''q'' empty_trace =
       (Inr ''done'',
        \<lparr>llm_calls =
           [run_request tool_specialist [user_message ''q''],
            run_request tool_specialist
              [user_message ''q'', \<lparr>role = ''model'', parts = Some [call_part ''rm'']\<rparr>,
               \<lparr>role = ''user'',
                parts = Some
                  [\<lparr>text = None, function_call = None,
                    function_response = Some
                      \<lparr>fr_name = Some ''rm'',
                       fr_response = [(''result'', unknown_tool_prefix @ ''rm'' @ [CHR 0x27])]\<rparr>\<rparr>]\<rparr>]],
         tool_calls = [], runs = []\<rparr>)"
proof -
  have u: "tools_map tool_specialist ''rm'' = None" by (simp add: tool_specialist_def)
  have "run_loop unknown_call_env tool_specialist (Suc 9) [user_message ''q''] empty_trace =
        run_loop unknown_call_env tool_specialist 9
          ([user_message ''q''] @ [\<lparr>role = ''model'', parts = Some [call_part ''rm'']\<rparr>,
             \<lparr>role = ''user'',
              parts = Some ([] @
                \<lparr>text = None, function_call = None,
                 function_response = Some
                   \<lparr>fr_name = fc_name \<lparr>fc_name = Some ''rm'', fc_args = Some []\<rparr>,
                    fr_response =
                      [(''result'',
                        unknown_tool_prefix
                        @ (case fc_name \<lparr>fc_name = Some ''rm'', fc_args = Some []\<rparr> of
                             None \<Rightarrow> ''None'' | Some n \<Rightarrow> n)
                        @ [CHR 0x27])]\<rparr>\<rparr> # [])\<rparr>])
          (empty_trace\<lparr>llm_calls := llm_calls empty_trace
                                        @ [run_request tool_specialist [user_message ''q'']]\<rparr>)"
    using unknown_tool_reply [of unknown_call_env empty_trace
        "\<lparr>candidates = Some [\<lparr>content = Some \<lparr>role = ''model'',
             parts = Some [call_part ''rm'']\<rparr>\<rparr>]\<rparr>"
        "\<lparr>content = Some \<lparr>role = ''model'', parts = Some [call_part ''rm'']\<rparr>\<rparr>" "[]"
        "\<lparr>role = ''model'', parts = Some [call_part ''rm'']\<rparr>" "[call_part ''rm'']" "[]"
        "\<lparr>fc_name = Some ''rm'', fc_args = Some []\<rparr>" "[]" "[]" tool_specialist "[]" empty_trace
        "[]" empty_trace empty_trace 9 "[user_message ''q'']"] u
    by (simp add: unknown_call_env_def model_reply_def function_calls_of_def List.map_filter_def
        call_part_def empty_trace_def)
  then show ?thesis using u
    by (simp add: run_def numeral_eq_Suc run_loop_Suc iteration_def reply_parts_def
        unknown_call_env_def model_reply_def empty_trace_def function_calls_of_def
        List.map_filter_def from_text_def final_text_def)
qed

text \<open>
  Claim C2 as stated fails in three ways. The text the code builds for the unknown tool
  \<open>rm\<close> is not \<open>error: unknown tool 'rm'\<close>. When the request for the unknown tool carries no
  arguments, the \<open>dict(fc.args)\<close> of the log line raises before the routing table is read, and
  the run is aborted. And when the same response also requests a known tool whose
  invocation raises, the run is aborted as well and there is no next pass.
\<close>

theorem unknown_tool_text_counterexample:
  "tools_map tool_specialist ''rm'' = None
   \<and> fst (call_function working_tool_env tool_specialist
             \<lparr>fc_name = Some ''rm'', fc_args = Some []\<rparr> empty_trace)
       \<noteq> Inr \<lparr>text = None, function_call = None,
               function_response = Some
                 \<lparr>fr_name = Some ''rm'',
                  fr_response =
                    [(''result'', ''error: unknown tool '' @ [CHR 0x27] @ ''rm'' @ [CHR 0x27])]\<rparr>\<rparr>
   \<and> fst (query (bare_call_env ''rm'') (as_agent tool_specialist) ''q'' empty_trace) = Inl TypeError
   \<and> fst (run (bare_call_env ''rm'') tool_specialist ''q'' empty_trace) = Inl TypeError
   \<and> length (llm_calls (snd (run (bare_call_env ''rm'') tool_specialist ''q'' empty_trace))) = 1
   \<and> fst (query mixed_calls_env (as_agent tool_specialist) ''q'' empty_trace)
       = Inl ToolInvocationError
   \<and> fst (run mixed_calls_env tool_specialist ''q'' empty_trace) = Inl ToolInvocationError
   \<and> length (llm_calls (snd (run mixed_calls_env tool_specialist ''q'' empty_trace))) = 1"
  by (simp add: eval_loop tool_specialist_def bare_call_env_def mixed_calls_env_def
      unknown_tool_text_def format_name_def unknown_tool_prefix_def)

section \<open>Properties of the orchestrator\<close>

subsection \<open>Planning\<close>

lemma create_plan_eq:
  assumes "generate_content E (length (llm_calls tr)) = Inr r"
      and "candidates r = Some (candidate # rest)" and "content candidate = Some c"
      and "parts c = Some (p # ps)" and "text p = Some body"
  shows "create_plan E user_input tr =
           (json_loads E body, tr\<lparr>llm_calls := llm_calls tr @ [plan_request user_input]\<rparr>)"
  using assms by (simp add: create_plan_def generate_def first_part_text_def reply_parts_def)

lemma step_summary_append:
  "step_summary (pre @ post) =
     (case step_summary pre of Inl e \<Rightarrow> Inl e | Inr _ \<Rightarrow> step_summary post)"
  by (induction pre) (simp_all split: sum.splits)

lemma step_label_names_agent: "names_agent s \<Longrightarrow> step_label s = Inr ()"
  by (auto simp: names_agent_def step_label_def subscript_def split: json.splits option.splits)

lemma step_label_not_names_agent:
  "\<not> names_agent s \<Longrightarrow>
   step_label s =
     Inl (case s of
            JObj f \<Rightarrow> (case map_of f ''agent'' of None \<Rightarrow> KeyError | Some a \<Rightarrow> AttributeError)
          | _ \<Rightarrow> TypeError)"
  by (auto simp: names_agent_def step_label_def subscript_def split: json.splits option.splits)

lemma step_summary_names_agent: "list_all names_agent steps \<Longrightarrow> step_summary steps = Inr ()"
  by (induction steps) (simp_all add: step_label_names_agent)

lemma run_steps_append:
  "run_steps E specs ui (pre @ post) results tr =
     (case run_steps E specs ui pre results tr of
        (Inl e, t) \<Rightarrow> (Inl e, t)
      | (Inr results', t) \<Rightarrow> run_steps E specs ui post results' t)"
proof (induction pre arbitrary: results tr)
  case Nil
  then show ?case by simp
next
  case (Cons s pre)
  show ?case
    by (simp add: Cons.IH split: sum.splits json.splits option.splits prod.splits)
qed

text \<open>
  Claim C6, as amended. When the body of the planning response is not valid JSON
  (\<open>json.loads\<close> raises), \<open>process\<close> fails with that error after the single planning call:
  nothing is retried and nothing is put in its place. A body that is valid JSON fails in
  the same way, with the planning call as the only remote call, when it is not an object,
  and when \<open>needs_specialists\<close> is truthy and \<open>plan\<close> is null, a boolean or a number, or
  some item that iterating over \<open>plan\<close> yields (an element of a list, a character of a string,
  a key of an object) is not an object with a string agent. A step without a task fails the
  request with \<open>KeyError\<close> once the steps before it have run. But two mismatches are not
  rejected, they are defaulted: an object whose \<open>needs_specialists\<close> is absent or falsy makes
  \<open>process\<close> return its \<open>direct_response\<close> as decoded, and the fixed placeholder for an empty
  response when that key is absent too; and an object with a truthy \<open>needs_specialists\<close> and
  no \<open>plan\<close> is carried out as the plan with an empty list of steps.
\<close>

theorem plan_parse_failure:
  assumes "generate_content E (length (llm_calls tr)) = Inr r"
      and "candidates r = Some (candidate # rest)" and "content candidate = Some c"
      and "parts c = Some (p # ps)" and "text p = Some body"
  shows "(\<forall>e. json_loads E body = Inl e \<longrightarrow>
            process E orch user_input tr = (Inl e, tr\<lparr>llm_calls := llm_calls tr @ [plan_request user_input]\<rparr>))
       \<and> (\<forall>v. json_loads E body = Inr v \<and> (\<forall>d. v \<noteq> JObj d) \<longrightarrow>
            process E orch user_input tr = (Inl AttributeError, tr\<lparr>llm_calls := llm_calls tr @ [plan_request user_input]\<rparr>))
       \<and> (\<forall>d nv pv. json_loads E body = Inr (JObj d)
                \<and> map_of d ''needs_specialists'' = Some nv \<and> nv \<notin> set [JNull, JBool False, JNum 0, JStr [], JArr [], JObj []]
                \<and> map_of d ''plan'' = Some pv
                \<and> (pv = JNull \<or> (\<exists>b. pv = JBool b) \<or> (\<exists>i. pv = JNum i)) \<longrightarrow>
            process E orch user_input tr = (Inl TypeError, tr\<lparr>llm_calls := llm_calls tr @ [plan_request user_input]\<rparr>))
       \<and> (\<forall>d nv pv pre s post. json_loads E body = Inr (JObj d)
                \<and> map_of d ''needs_specialists'' = Some nv \<and> nv \<notin> set [JNull, JBool False, JNum 0, JStr [], JArr [], JObj []]
                \<and> map_of d ''plan'' = Some pv
                \<and> (case pv of
                      JArr xs \<Rightarrow> xs
                    | JStr cs \<Rightarrow> map (\<lambda>ch. JStr [ch]) cs
                    | JObj kvs \<Rightarrow> map (\<lambda>kv. JStr (fst kv)) kvs
                    | _ \<Rightarrow> []) = pre @ s # post
                \<and> list_all names_agent pre \<and> \<not> names_agent s \<longrightarrow>
            process E orch user_input tr =
              (Inl (case s of
                      JObj f \<Rightarrow>
                        (case map_of f ''agent'' of None \<Rightarrow> KeyError | Some a \<Rightarrow> AttributeError)
                    | _ \<Rightarrow> TypeError),
               tr\<lparr>llm_calls := llm_calls tr @ [plan_request user_input]\<rparr>))
       \<and> (\<forall>d nv pre f post results tr2. json_loads E body = Inr (JObj d)
                \<and> map_of d ''needs_specialists'' = Some nv \<and> nv \<notin> set [JNull, JBool False, JNum 0, JStr [], JArr [], JObj []]
                \<and> map_of d ''plan'' = Some (JArr (pre @ JObj f # post))
                \<and> list_all names_agent (pre @ JObj f # post)
                \<and> map_of f ''task'' = None
                \<and> run_steps E (specialists orch) user_input pre []
                     (tr\<lparr>llm_calls := llm_calls tr @ [plan_request user_input]\<rparr>)
                   = (Inr results, tr2) \<longrightarrow>
            process E orch user_input tr = (Inl KeyError, tr2))
       \<and> (\<forall>d. json_loads E body = Inr (JObj d)
                \<and> map_of d ''needs_specialists'' \<in>
                      set [None, Some JNull, Some (JBool False), Some (JNum 0), Some (JStr []),
                           Some (JArr []), Some (JObj [])] \<longrightarrow>
            process E orch user_input tr =
              (Inr (case map_of d ''direct_response'' of
                      None \<Rightarrow>
                        JStr (''('' @ [CHR 0xEB, CHR 0xB9, CHR 0x88] @ '' '' @
                        [CHR 0xEC, CHR 0x9D, CHR 0x91, CHR 0xEB, CHR 0x8B, CHR 0xB5] @ '')'')
                    | Some v \<Rightarrow> v),
               tr\<lparr>llm_calls := llm_calls tr @ [plan_request user_input]\<rparr>))
       \<and> (\<forall>d nv. json_loads E body = Inr (JObj d)
                \<and> map_of d ''needs_specialists'' = Some nv \<and> nv \<notin> set [JNull, JBool False, JNum 0, JStr [], JArr [], JObj []]
                \<and> map_of d ''plan'' = None \<longrightarrow>
            process E orch user_input tr =
              execute_plan E orch user_input
                (JObj [(''needs_specialists'', JBool True), (''plan'', JArr [])])
                (tr\<lparr>llm_calls := llm_calls tr @ [plan_request user_input]\<rparr>))"
proof (intro conjI allI impI)
  fix e assume "json_loads E body = Inl e"
  then show "process E orch user_input tr = (Inl e, tr\<lparr>llm_calls := llm_calls tr @ [plan_request user_input]\<rparr>)"
    by (simp add: process_def create_plan_eq [OF assms])
next
  fix v assume "json_loads E body = Inr v \<and> (\<forall>d. v \<noteq> JObj d)"
  then show "process E orch user_input tr = (Inl AttributeError, tr\<lparr>llm_calls := llm_calls tr @ [plan_request user_input]\<rparr>)"
    by (cases v) (simp_all add: process_def create_plan_eq [OF assms] execute_plan_def)
next
  fix d nv pv
  assume a: "json_loads E body = Inr (JObj d)
                \<and> map_of d ''needs_specialists'' = Some nv \<and> nv \<notin> set [JNull, JBool False, JNum 0, JStr [], JArr [], JObj []]
                \<and> map_of d ''plan'' = Some pv
                \<and> (pv = JNull \<or> (\<exists>b. pv = JBool b) \<or> (\<exists>i. pv = JNum i))"
  have needs: "truthy (dict_get d ''needs_specialists'' (JBool False))"
    using a by (cases nv) (auto simp: dict_get_def truthy_def)
  have "py_iter pv = Inl TypeError" using a by (auto simp: py_iter_def)
  with a needs show "process E orch user_input tr = (Inl TypeError, tr\<lparr>llm_calls := llm_calls tr @ [plan_request user_input]\<rparr>)"
    by (simp add: process_def create_plan_eq [OF assms] execute_plan_def dict_get_def)
next
  fix d nv pv pre s post
  assume a: "json_loads E body = Inr (JObj d)
                \<and> map_of d ''needs_specialists'' = Some nv \<and> nv \<notin> set [JNull, JBool False, JNum 0, JStr [], JArr [], JObj []]
                \<and> map_of d ''plan'' = Some pv
                \<and> (case pv of
                      JArr xs \<Rightarrow> xs
                    | JStr cs \<Rightarrow> map (\<lambda>ch. JStr [ch]) cs
                    | JObj kvs \<Rightarrow> map (\<lambda>kv. JStr (fst kv)) kvs
                    | _ \<Rightarrow> []) = pre @ s # post
                \<and> list_all names_agent pre \<and> \<not> names_agent s"
  have needs: "truthy (dict_get d ''needs_specialists'' (JBool False))"
    using a by (cases nv) (auto simp: dict_get_def truthy_def)
  have it: "py_iter pv = Inr (pre @ s # post)"
    using a by (cases pv) (auto simp: py_iter_def)
  have "step_summary (pre @ s # post) =
      Inl (case s of
                      JObj f \<Rightarrow>
                        (case map_of f ''agent'' of None \<Rightarrow> KeyError | Some a \<Rightarrow> AttributeError)
                    | _ \<Rightarrow> TypeError)"
    using a by (simp add: step_summary_append step_summary_names_agent step_label_not_names_agent)
  with a needs it show "process E orch user_input tr =
      (Inl (case s of
                      JObj f \<Rightarrow>
                        (case map_of f ''agent'' of None \<Rightarrow> KeyError | Some a \<Rightarrow> AttributeError)
                    | _ \<Rightarrow> TypeError),
       tr\<lparr>llm_calls := llm_calls tr @ [plan_request user_input]\<rparr>)"
    by (simp add: process_def create_plan_eq [OF assms] execute_plan_def dict_get_def)
next
  fix d nv pre f post results tr2
  assume a: "json_loads E body = Inr (JObj d)
                \<and> map_of d ''needs_specialists'' = Some nv \<and> nv \<notin> set [JNull, JBool False, JNum 0, JStr [], JArr [], JObj []]
                \<and> map_of d ''plan'' = Some (JArr (pre @ JObj f # post))
                \<and> list_all names_agent (pre @ JObj f # post)
                \<and> map_of f ''task'' = None
                \<and> run_steps E (specialists orch) user_input pre []
                     (tr\<lparr>llm_calls := llm_calls tr @ [plan_request user_input]\<rparr>)
                   = (Inr results, tr2)"
  have needs: "truthy (dict_get d ''needs_specialists'' (JBool False))"
    using a by (cases nv) (auto simp: dict_get_def truthy_def)
  have s: "step_summary (pre @ JObj f # post) = Inr ()"
    using a by (simp add: step_summary_names_agent)
  have "names_agent (JObj f)" using a by simp
  then obtain ag where "map_of f ''agent'' = Some (JStr ag)"
    by (auto simp: names_agent_def split: option.splits json.splits)
  then have "run_steps E (specialists orch) user_input (JObj f # post) results tr2
               = (Inl KeyError, tr2)"
    using a by (simp add: subscript_def)
  then have "run_steps E (specialists orch) user_input (pre @ JObj f # post) []
               (tr\<lparr>llm_calls := llm_calls tr @ [plan_request user_input]\<rparr>) = (Inl KeyError, tr2)"
    using a by (simp add: run_steps_append)
  with a needs s show "process E orch user_input tr = (Inl KeyError, tr2)"
    by (simp add: process_def create_plan_eq [OF assms] execute_plan_def dict_get_def py_iter_def)
next
  fix d
  assume a: "json_loads E body = Inr (JObj d)
                \<and> map_of d ''needs_specialists'' \<in>
                      set [None, Some JNull, Some (JBool False), Some (JNum 0), Some (JStr []),
                           Some (JArr []), Some (JObj [])]"
  then have "\<not> truthy (dict_get d ''needs_specialists'' (JBool False))"
    by (auto simp: dict_get_def truthy_def)
  with a show "process E orch user_input tr =
      (Inr (case map_of d ''direct_response'' of
                      None \<Rightarrow>
                        JStr (''('' @ [CHR 0xEB, CHR 0xB9, CHR 0x88] @ '' '' @
                        [CHR 0xEC, CHR 0x9D, CHR 0x91, CHR 0xEB, CHR 0x8B, CHR 0xB5] @ '')'')
                    | Some v \<Rightarrow> v),
               tr\<lparr>llm_calls := llm_calls tr @ [plan_request user_input]\<rparr>)"
    by (simp add: process_def create_plan_eq [OF assms] execute_plan_def dict_get_def
        EMPTY_RESPONSE_def split: option.splits)
next
  fix d nv
  assume a: "json_loads E body = Inr (JObj d)
                \<and> map_of d ''needs_specialists'' = Some nv \<and> nv \<notin> set [JNull, JBool False, JNum 0, JStr [], JArr [], JObj []]
                \<and> map_of d ''plan'' = None"
  have needs: "truthy (dict_get d ''needs_specialists'' (JBool False))"
    using a by (cases nv) (auto simp: dict_get_def truthy_def)
  from a needs show "process E orch user_input tr =
      execute_plan E orch user_input
                (JObj [(''needs_specialists'', JBool True), (''plan'', JArr [])])
                (tr\<lparr>llm_calls := llm_calls tr @ [plan_request user_input]\<rparr>)"
    by (simp add: process_def create_plan_eq [OF assms] execute_plan_def dict_get_def truthy_def)
qed

lemmas eval_process =
  process_def create_plan_def execute_plan_def generate_def first_part_text_def reply_parts_def
  scripted_env_def model_reply_def table_loads_def from_text_def empty_trace_def
  dict_get_def truthy_def

lemma scripted_first_reply:
  "generate_content (scripted_env (body # others) documents) (length (llm_calls empty_trace))
     = Inr \<lparr>candidates = Some
              [\<lparr>content = Some \<lparr>role = ''model'',
                  parts = Some [\<lparr>text = Some body, function_call = None,
                                 function_response = None\<rparr>]\<rparr>\<rparr>]\<rparr>"
  by (simp add: scripted_env_def model_reply_def from_text_def empty_trace_def)

theorem plan_parse_failure_witness:
  \<open>process (scripted_env [''Sure! Here is the plan''] []) team ''hello'' empty_trace =
     (Inl JSONDecodeError, \<lparr>llm_calls = [plan_request ''hello''], tool_calls = [], runs = []\<rparr>)
   \<and> process (scripted_env [''["analyst"]''] [(''["analyst"]'', JArr [JStr ''analyst''])])
        team ''hello'' empty_trace =
     (Inl AttributeError, \<lparr>llm_calls = [plan_request ''hello''], tool_calls = [], runs = []\<rparr>)
   \<and> process (scripted_env [''{"needs_specialists": true, "plan": 5}'']
                [(''{"needs_specialists": true, "plan": 5}'',
                  JObj [(''needs_specialists'', JBool True), (''plan'', JNum 5)])])
        team ''hello'' empty_trace =
     (Inl TypeError, \<lparr>llm_calls = [plan_request ''hello''], tool_calls = [], runs = []\<rparr>)
   \<and> process (scripted_env [''{"needs_specialists": true, "plan": [{"task": "draft"}]}'']
                [(''{"needs_specialists": true, "plan": [{"task": "draft"}]}'',
                  JObj [(''needs_specialists'', JBool True),
                        (''plan'', JArr [JObj [(''task'', JStr ''draft'')]])])])
        team ''hello'' empty_trace =
     (Inl KeyError, \<lparr>llm_calls = [plan_request ''hello''], tool_calls = [], runs = []\<rparr>)
   \<and> process (scripted_env [''{"needs_specialists": true, "plan": [{"agent": "writer"}]}'']
                [(''{"needs_specialists": true, "plan": [{"agent": "writer"}]}'',
                  JObj [(''needs_specialists'', JBool True),
                        (''plan'', JArr [JObj [(''agent'', JStr ''writer'')]])])])
        team ''hello'' empty_trace =
     (Inl KeyError, \<lparr>llm_calls = [plan_request ''hello''], tool_calls = [], runs = []\<rparr>)
   \<and> process (scripted_env [''{"needs_specialists": false, "direct_response": "hi"}'']
                [(''{"needs_specialists": false, "direct_response": "hi"}'',
                  JObj [(''needs_specialists'', JBool False), (''direct_response'', JStr ''hi'')])])
        team ''hello'' empty_trace =
     (Inr (JStr ''hi''), \<lparr>llm_calls = [plan_request ''hello''], tool_calls = [], runs = []\<rparr>)
   \<and> process (scripted_env [''{"needs_specialists": true}'', ''FINAL'']
                [(''{"needs_specialists": true}'', JObj [(''needs_specialists'', JBool True)])])
        team ''hello'' empty_trace =
     (Inr (JStr ''FINAL''),
      \<lparr>llm_calls = [plan_request ''hello'', synthesis_request ''hello'' []], tool_calls = [],
        runs = []\<rparr>)\<close>
proof -
  have s1: "\<And>x xs. candidates \<lparr>candidates = Some (x # xs)\<rparr> = Some (x # xs)" by simp
  have s2: "\<And>x. content \<lparr>content = Some x\<rparr> = Some x" by simp
  have s3: "\<And>r x xs. parts \<lparr>role = r, parts = Some (x # xs)\<rparr> = Some (x # xs)" by simp
  have s4: "\<And>b x y. text \<lparr>text = Some b, function_call = x, function_response = y\<rparr> = Some b"
    by simp
  have a: "process (scripted_env [''Sure! Here is the plan''] []) team ''hello'' empty_trace =
     (Inl JSONDecodeError, \<lparr>llm_calls = [plan_request ''hello''], tool_calls = [], runs = []\<rparr>)"
    using plan_parse_failure [OF scripted_first_reply [where others = "[]" and body = "''Sure! Here is the plan''" and documents = "[]"] s1 s2 s3 s4, where orch = team and user_input = "''hello''", THEN conjunct1]
    by (simp add: scripted_env_def table_loads_def empty_trace_def)
  have b: \<open>process (scripted_env [''["analyst"]''] [(''["analyst"]'', JArr [JStr ''analyst''])])
        team ''hello'' empty_trace =
     (Inl AttributeError, \<lparr>llm_calls = [plan_request ''hello''], tool_calls = [], runs = []\<rparr>)\<close>
    using plan_parse_failure [OF scripted_first_reply [where others = "[]" and body = \<open>''["analyst"]''\<close> and documents = \<open>[(''["analyst"]'', JArr [JStr ''analyst''])]\<close>] s1 s2 s3 s4, where orch = team and user_input = "''hello''",
              THEN conjunct2, THEN conjunct1]
    by (simp add: scripted_env_def table_loads_def empty_trace_def)
  have c: \<open>process (scripted_env [''{"needs_specialists": true, "plan": 5}'']
                [(''{"needs_specialists": true, "plan": 5}'',
                  JObj [(''needs_specialists'', JBool True), (''plan'', JNum 5)])])
        team ''hello'' empty_trace =
     (Inl TypeError, \<lparr>llm_calls = [plan_request ''hello''], tool_calls = [], runs = []\<rparr>)\<close>
    using plan_parse_failure [OF scripted_first_reply [where others = "[]" and body = \<open>''{"needs_specialists": true, "plan": 5}''\<close> and documents = \<open>[(''{"needs_specialists": true, "plan": 5}'',
                  JObj [(''needs_specialists'', JBool True), (''plan'', JNum 5)])]\<close>] s1 s2 s3 s4, where orch = team and user_input = "''hello''",
              THEN conjunct2, THEN conjunct2, THEN conjunct1]
    by (simp add: scripted_env_def table_loads_def empty_trace_def)
  have d: \<open>process (scripted_env [''{"needs_specialists": true, "plan": [{"task": "draft"}]}'']
                [(''{"needs_specialists": true, "plan": [{"task": "draft"}]}'',
                  JObj [(''needs_specialists'', JBool True),
                        (''plan'', JArr [JObj [(''task'', JStr ''draft'')]])])])
        team ''hello'' empty_trace =
     (Inl KeyError, \<lparr>llm_calls = [plan_request ''hello''], tool_calls = [], runs = []\<rparr>)\<close>
    using plan_parse_failure [OF scripted_first_reply [where others = "[]" and body = \<open>''{"needs_specialists": true, "plan": [{"task": "draft"}]}''\<close> and documents = \<open>[(''{"needs_specialists": true, "plan": [{"task": "draft"}]}'',
                  JObj [(''needs_specialists'', JBool True),
                        (''plan'', JArr [JObj [(''task'', JStr ''draft'')]])])]\<close>] s1 s2 s3 s4, where orch = team and user_input = "''hello''",
              THEN conjunct2, THEN conjunct2, THEN conjunct2, THEN conjunct1, rule_format,
              of "[(''needs_specialists'', JBool True),
                   (''plan'', JArr [JObj [(''task'', JStr ''draft'')]])]"
                 "JBool True" "JArr [JObj [(''task'', JStr ''draft'')]]"
                 "[]" "JObj [(''task'', JStr ''draft'')]" "[]"]
    by (simp add: scripted_env_def table_loads_def empty_trace_def names_agent_def)
  have e: \<open>process (scripted_env [''{"needs_specialists": true, "plan": [{"agent": "writer"}]}'']
                [(''{"needs_specialists": true, "plan": [{"agent": "writer"}]}'',
                  JObj [(''needs_specialists'', JBool True),
                        (''plan'', JArr [JObj [(''agent'', JStr ''writer'')]])])])
        team ''hello'' empty_trace =
     (Inl KeyError, \<lparr>llm_calls = [plan_request ''hello''], tool_calls = [], runs = []\<rparr>)\<close>
    using plan_parse_failure [OF scripted_first_reply [where others = "[]" and body = \<open>''{"needs_specialists": true, "plan": [{"agent": "writer"}]}''\<close> and documents = \<open>[(''{"needs_specialists": true, "plan": [{"agent": "writer"}]}'',
                  JObj [(''needs_specialists'', JBool True),
                        (''plan'', JArr [JObj [(''agent'', JStr ''writer'')]])])]\<close>] s1 s2 s3 s4, where orch = team and user_input = "''hello''",
              THEN conjunct2, THEN conjunct2, THEN conjunct2, THEN conjunct2, THEN conjunct1,
              rule_format,
              of "[(''needs_specialists'', JBool True),
                   (''plan'', JArr [JObj [(''agent'', JStr ''writer'')]])]"
                 "JBool True" "[]" "[(''agent'', JStr ''writer'')]" "[]" "[]"
                 "\<lparr>llm_calls = [plan_request ''hello''], tool_calls = [], runs = []\<rparr>"]
    by (simp add: scripted_env_def table_loads_def empty_trace_def names_agent_def)
  have f: \<open>process (scripted_env [''{"needs_specialists": false, "direct_response": "hi"}'']
                [(''{"needs_specialists": false, "direct_response": "hi"}'',
                  JObj [(''needs_specialists'', JBool False), (''direct_response'', JStr ''hi'')])])
        team ''hello'' empty_trace =
     (Inr (JStr ''hi''), \<lparr>llm_calls = [plan_request ''hello''], tool_calls = [], runs = []\<rparr>)\<close>
    using plan_parse_failure [OF scripted_first_reply [where others = "[]" and body = \<open>''{"needs_specialists": false, "direct_response": "hi"}''\<close> and documents = \<open>[(''{"needs_specialists": false, "direct_response": "hi"}'',
                  JObj [(''needs_specialists'', JBool False), (''direct_response'', JStr ''hi'')])]\<close>] s1 s2 s3 s4, where orch = team and user_input = "''hello''",
              THEN conjunct2, THEN conjunct2, THEN conjunct2, THEN conjunct2, THEN conjunct2,
              THEN conjunct1]
    by (simp add: scripted_env_def table_loads_def empty_trace_def)
  have g: \<open>process (scripted_env [''{"needs_specialists": true}'', ''FINAL'']
                [(''{"needs_specialists": true}'', JObj [(''needs_specialists'', JBool True)])])
        team ''hello'' empty_trace =
     (Inr (JStr ''FINAL''),
      \<lparr>llm_calls = [plan_request ''hello'', synthesis_request ''hello'' []], tool_calls = [],
        runs = []\<rparr>)\<close>
    using plan_parse_failure [OF scripted_first_reply [where others = "[''FINAL'']" and body = \<open>''{"needs_specialists": true}''\<close> and documents = \<open>[(''{"needs_specialists": true}'', JObj [(''needs_specialists'', JBool True)])]\<close>] s1 s2 s3 s4, where orch = team and user_input = "''hello''",
              THEN conjunct2, THEN conjunct2, THEN conjunct2, THEN conjunct2, THEN conjunct2,
              THEN conjunct2]
    by (simp add: eval_process py_iter_def synthesize_def opt_str_def)
  show ?thesis using a b c d e f g by simp
qed

text \<open>
  Claim C6 as stated fails: the bodies \<open>{}\<close>, \<open>{"needs_specialists": false}\<close> and
  \<open>{"needs_specialists": true}\<close> are valid JSON of neither recognised shape, and \<open>process\<close> does
  not fail on them. On the first two it returns the placeholder for an empty response, a
  default; on the third it goes on with an empty list of steps, a default as well, and
  returns the answer of the synthesis call.
\<close>

theorem plan_shape_counterexample:
  \<open>\<not> recognized_shape (JObj [])
   \<and> process (scripted_env [''{}''] [(''{}'', JObj [])]) team ''hello'' empty_trace =
       (Inr (JStr (''('' @ [CHR 0xEB, CHR 0xB9, CHR 0x88] @ '' '' @
                        [CHR 0xEC, CHR 0x9D, CHR 0x91, CHR 0xEB, CHR 0x8B, CHR 0xB5] @ '')'')),
        \<lparr>llm_calls = [plan_request ''hello''], tool_calls = [], runs = []\<rparr>)
   \<and> \<not> recognized_shape (JObj [(''needs_specialists'', JBool False)])
   \<and> process (scripted_env [''{"needs_specialists": false}'']
                [(''{"needs_specialists": false}'', JObj [(''needs_specialists'', JBool False)])])
        team ''hello'' empty_trace =
       (Inr (JStr (''('' @ [CHR 0xEB, CHR 0xB9, CHR 0x88] @ '' '' @
                        [CHR 0xEC, CHR 0x9D, CHR 0x91, CHR 0xEB, CHR 0x8B, CHR 0xB5] @ '')'')),
        \<lparr>llm_calls = [plan_request ''hello''], tool_calls = [], runs = []\<rparr>)
   \<and> \<not> recognized_shape (JObj [(''needs_specialists'', JBool True)])
   \<and> process (scripted_env [''{"needs_specialists": true}'', ''FINAL'']
                [(''{"needs_specialists": true}'', JObj [(''needs_specialists'', JBool True)])])
        team ''hello'' empty_trace =
       (Inr (JStr ''FINAL''),
        \<lparr>llm_calls = [plan_request ''hello'', synthesis_request ''hello'' []], tool_calls = [],
          runs = []\<rparr>)\<close>
  by (simp add: eval_process recognized_shape_def EMPTY_RESPONSE_def py_iter_def synthesize_def
      opt_str_def)

subsection \<open>Delegation to specialists\<close>

lemma step_label_str:
  "subscript step ''agent'' = Inr (JStr a) \<Longrightarrow> step_label step = Inr ()"
  by (simp add: step_label_def)

lemma run_steps_skip_one:
  assumes "subscript step ''agent'' = Inr (JStr a)" and "subscript step ''task'' = Inr task"
      and "specs a = None"
  shows "run_steps E specs ui (step # post) results tr = run_steps E specs ui post results tr"
  using assms by simp

lemma run_steps_skip:
  assumes "subscript step ''agent'' = Inr (JStr a)" and "subscript step ''task'' = Inr task"
      and "specs a = None"
  shows "run_steps E specs ui (pre @ step # post) results tr =
         run_steps E specs ui (pre @ post) results tr"
proof (induction pre arbitrary: results tr)
  case Nil
  show ?case using run_steps_skip_one [where specs = specs, OF assms] by simp
next
  case (Cons s pre)
  show ?case
    by (simp add: Cons.IH split: sum.splits json.splits option.splits prod.splits)
qed

text \<open>
  Claim C8. A plan step that names an agent outside the specialist set (and, being a plan
  step, has a task) is skipped without raising: the plan with that step behaves exactly
  as the plan without it, in the delegation loop and in what \<open>process\<close> does after planning.
  The results handed to the synthesis, the value returned and every remote call are the same.
\<close>

theorem unknown_specialist_skipped:
  assumes "subscript step ''agent'' = Inr (JStr a)" and "subscript step ''task'' = Inr task"
      and "specialists orch a = None"
  shows "run_steps E (specialists orch) user_input (pre @ step # post) results tr =
           run_steps E (specialists orch) user_input (pre @ post) results tr
       \<and> execute_plan E orch user_input
             (JObj [(''needs_specialists'', JBool True), (''plan'', JArr (pre @ step # post))]) tr =
           execute_plan E orch user_input
             (JObj [(''needs_specialists'', JBool True), (''plan'', JArr (pre @ post))]) tr"
proof -
  have s: "step_summary (pre @ step # post) = step_summary (pre @ post)"
    using step_label_str [OF assms(1)] by (simp add: step_summary_append split: sum.splits)
  show ?thesis
    by (simp add: execute_plan_def dict_get_def truthy_def py_iter_def s
        run_steps_skip [where specs = "specialists orch", OF assms] split: sum.splits)
qed

lemmas eval_orchestrator =
  execute_plan_def dict_get_def truthy_def py_iter_def step_label_def subscript_def
  synthesize_def run_def run_loop_Suc iteration_def numeral_eq_Suc function_calls_of_def
  List.map_filter_def final_text_def from_text_def scripted_env_def model_reply_def
  reply_parts_def team_def plain_specialist_def tool_specialist_def empty_trace_def
  plan_step_def specialists_plan_def run_request_def

theorem unknown_specialist_skipped_witness:
  "execute_plan (scripted_env [''DOC''] []) team ''q''
     (specialists_plan [plan_step ''ghost'' ''haunt'', plan_step ''writer'' ''draft'']) empty_trace =
   (Inr (JStr ''DOC''),
    \<lparr>llm_calls =
       [run_request plain_specialist
          [user_message (full_task_of (scripted_env [''DOC''] []) ''q'' (JStr ''draft'') [])]],
     tool_calls = [],
     runs = [(''writer'', full_task_of (scripted_env [''DOC''] []) ''q'' (JStr ''draft'') [],
              Inr ''DOC'')]\<rparr>)"
proof -
  have "execute_plan (scripted_env [''DOC''] []) team ''q''
          (JObj [(''needs_specialists'', JBool True),
                 (''plan'', JArr ([] @ plan_step ''ghost'' ''haunt'' # [plan_step ''writer'' ''draft'']))])
          empty_trace =
        execute_plan (scripted_env [''DOC''] []) team ''q''
          (JObj [(''needs_specialists'', JBool True),
                 (''plan'', JArr ([] @ [plan_step ''writer'' ''draft'']))]) empty_trace"
    using unknown_specialist_skipped [of "plan_step ''ghost'' ''haunt''" "''ghost''" "JStr ''haunt''"
        team "scripted_env [''DOC''] []" "''q''" "[]" "[plan_step ''writer'' ''draft'']" "[]"
        empty_trace]
    by (simp add: plan_step_def subscript_def team_def)
  then show ?thesis
    by (simp add: eval_orchestrator)
qed

subsection \<open>Synthesis\<close>

lemma run_steps_all_unknown:
  "list_all (unknown_step specs) steps \<Longrightarrow>
   run_steps E specs ui steps results tr = (Inr results, tr)"
proof (induction steps)
  case Nil
  then show ?case by simp
next
  case (Cons s steps)
  then show ?case
    by (auto simp: unknown_step_def split: sum.splits json.splits)
qed

lemma step_summary_all_unknown:
  "list_all (unknown_step specs) steps \<Longrightarrow> step_summary steps = Inr ()"
proof (induction steps)
  case Nil
  then show ?case by simp
next
  case (Cons s steps)
  then show ?case
    by (auto simp: unknown_step_def step_label_def split: sum.splits json.splits)
qed

lemma render_result_fun:
  "render_result = (\<lambda>nr. ''--- '' @ fst nr @ result_label_suffix @ snd nr @ newline @ newline)"
  by (rule ext) (simp add: render_result_def)

text \<open>The synthesis request written out: the model, one user turn whose only part is the
  prompt as text, the editor's instruction, no tools and no response type.\<close>

lemma synthesis_request_eq:
  "synthesis_request ui results =
     \<lparr>model = ''gemini-2.5-flash'',
      contents =
        [\<lparr>role = ''user'',
          parts = Some
            [\<lparr>text = Some
                ([CHR 0xEC, CHR 0x9B, CHR 0x90, CHR 0xEB, CHR 0x9E, CHR 0x98] @ '' '' @
                 [CHR 0xEC, CHR 0x82, CHR 0xAC, CHR 0xEC, CHR 0x9A, CHR 0xA9, CHR 0xEC, CHR 0x9E, CHR 0x90] @
                 '' '' @ [CHR 0xEC, CHR 0x9A, CHR 0x94, CHR 0xEC, CHR 0xB2, CHR 0xAD] @ '': ''
                 @ ui @ [CHR 0x0A, CHR 0x0A] @
                 [CHR 0xEA, CHR 0xB0, CHR 0x81] @ '' '' @
                 [CHR 0xEC, CHR 0xA0, CHR 0x84, CHR 0xEB, CHR 0xAC, CHR 0xB8, CHR 0xEA, CHR 0xB0, CHR 0x80] @
                 [CHR 0xEC, CHR 0x9D, CHR 0x98] @ '' '' @
                 [CHR 0xEA, CHR 0xB2, CHR 0xB0, CHR 0xEA, CHR 0xB3, CHR 0xBC, CHR 0xEB, CHR 0xA5, CHR 0xBC] @
                 '' '' @
                 [CHR 0xED, CHR 0x86, CHR 0xB5, CHR 0xED, CHR 0x95, CHR 0xA9, CHR 0xED, CHR 0x95, CHR 0x98] @
                 [CHR 0xEC, CHR 0x97, CHR 0xAC] @ '' '' @
                 [CHR 0xEC, CHR 0xB5, CHR 0x9C, CHR 0xEC, CHR 0xA2, CHR 0x85] @ '' '' @
                 [CHR 0xEC, CHR 0x9D, CHR 0x91, CHR 0xEB, CHR 0x8B, CHR 0xB5, CHR 0xEC, CHR 0x9D, CHR 0x84] @
                 '' '' @
                 [CHR 0xEB, CHR 0xA7, CHR 0x8C, CHR 0xEB, CHR 0x93, CHR 0xA4, CHR 0xEC, CHR 0x96, CHR 0xB4] @
                 [CHR 0xEC, CHR 0xA3, CHR 0xBC, CHR 0xEC, CHR 0x84, CHR 0xB8, CHR 0xEC, CHR 0x9A, CHR 0x94] @
                 '':'' @ [CHR 0x0A, CHR 0x0A]
                 @ concat (map (\<lambda>nr. ''--- '' @ fst nr @
                                  '' '' @
                                  [CHR 0xEA, CHR 0xB2, CHR 0xB0, CHR 0xEA, CHR 0xB3, CHR 0xBC] @
                                  '' ---'' @ [CHR 0x0A]
                                  @ snd nr @ [CHR 0x0A, CHR 0x0A]) results)),
              function_call = None, function_response = None\<rparr>]\<rparr>],
      system_instruction = Some
        ([CHR 0xEC, CHR 0x97, CHR 0xAC, CHR 0xEB, CHR 0x9F, CHR 0xAC] @ '' '' @
         [CHR 0xEC, CHR 0xA0, CHR 0x84, CHR 0xEB, CHR 0xAC, CHR 0xB8, CHR 0xEA, CHR 0xB0, CHR 0x80] @
         [CHR 0xEC, CHR 0x9D, CHR 0x98] @ '' '' @
         [CHR 0xEA, CHR 0xB2, CHR 0xB0, CHR 0xEA, CHR 0xB3, CHR 0xBC, CHR 0xEB, CHR 0xA5, CHR 0xBC] @
         '' '' @
         [CHR 0xED, CHR 0x86, CHR 0xB5, CHR 0xED, CHR 0x95, CHR 0xA9, CHR 0xED, CHR 0x95, CHR 0x98] @
         [CHR 0xEB, CHR 0x8A, CHR 0x94] @ '' '' @
         [CHR 0xED, CHR 0x8E, CHR 0xB8, CHR 0xEC, CHR 0xA7, CHR 0x91, CHR 0xEC, CHR 0x9E, CHR 0x90] @
         [CHR 0xEC, CHR 0x9E, CHR 0x85, CHR 0xEB, CHR 0x8B, CHR 0x88, CHR 0xEB, CHR 0x8B, CHR 0xA4] @
         ''. '' @
         [CHR 0xEB, CHR 0xA6, CHR 0xAC, CHR 0xEB, CHR 0xB7, CHR 0xB0, CHR 0xEC, CHR 0x96, CHR 0xB4] @
         [CHR 0xEC, CHR 0x9D, CHR 0x98] @ '' '' @
         [CHR 0xED, CHR 0x94, CHR 0xBC, CHR 0xEB, CHR 0x93, CHR 0x9C, CHR 0xEB, CHR 0xB0, CHR 0xB1] @
         [CHR 0xEC, CHR 0x9D, CHR 0xB4] @ '' '' @
         [CHR 0xEC, CHR 0x9E, CHR 0x88, CHR 0xEB, CHR 0x8B, CHR 0xA4, CHR 0xEB, CHR 0xA9, CHR 0xB4] @
         '' '' @ [CHR 0xEC, CHR 0x9D, CHR 0xB4, CHR 0xEB, CHR 0xA5, CHR 0xBC] @ '' '' @
         [CHR 0xEB, CHR 0xB0, CHR 0x98, CHR 0xEC, CHR 0x98, CHR 0x81, CHR 0xED, CHR 0x95, CHR 0x98] @
         [CHR 0xEC, CHR 0x97, CHR 0xAC] @ '' '' @
         [CHR 0xEC, CHR 0xB5, CHR 0x9C, CHR 0xEC, CHR 0xA2, CHR 0x85] @ '' '' @
         [CHR 0xEC, CHR 0x9D, CHR 0x91, CHR 0xEB, CHR 0x8B, CHR 0xB5, CHR 0xEC, CHR 0x9D, CHR 0x84] @
         '' '' @
         [CHR 0xEB, CHR 0xA7, CHR 0x8C, CHR 0xEB, CHR 0x93, CHR 0x9C, CHR 0xEC, CHR 0x84, CHR 0xB8] @
         [CHR 0xEC, CHR 0x9A, CHR 0x94] @ ''.''),
      tools = None, automatic_function_calling_disable = False, response_mime_type = None\<rparr>"
  by (simp add: synthesis_request_def synthesis_prompt_def user_message_def from_text_def
      MODEL_def newline_def render_result_fun context_prefix_def synthesis_instruction_def
      result_label_suffix_def EDITOR_SYSTEM_INSTRUCTION_def)

lemma synthesize_call:
  "length results \<noteq> 1 \<Longrightarrow>
   synthesize E ui results tr =
     (case generate_content E (length (llm_calls tr)) of
        Inl e \<Rightarrow> Inl e
      | Inr response \<Rightarrow>
          (case first_part_text response of
             Inl e \<Rightarrow> Inl e
           | Inr t \<Rightarrow> Inr (case t of None \<Rightarrow> JNull | Some s \<Rightarrow> JStr s)),
      tr\<lparr>llm_calls := llm_calls tr @ [synthesis_request ui results]\<rparr>)"
  by (simp add: synthesize_def generate_def opt_str_def split: sum.splits)

lemma first_part_text_eq:
  "first_part_text
     \<lparr>candidates = Some (\<lparr>content = Some \<lparr>role = ro, parts = Some (p # ps)\<rparr>\<rparr> # rest)\<rparr>
   = Inr (text p)"
  by (simp add: first_part_text_def reply_parts_def)

text \<open>
  Claim C10. When the plan asks for specialists but no step result is collected (the
  step list is empty, or every step names an unknown specialist), \<open>process\<close> raises nothing
  of its own and returns no placeholder: it makes exactly one more model call, the synthesis
  request. That request has one user turn with one text part, the prompt: the label of the
  original request, the request itself, a blank line and the synthesis instruction, and no
  labelled result after it. What \<open>process\<close> returns is the text of the first part of that
  call's response (\<open>None\<close> when that part has no text), or the exception of that call.
\<close>

theorem no_results_still_synthesized:
  assumes "create_plan E user_input tr = (Inr (JObj d), tr1)"
      and "truthy (dict_get d ''needs_specialists'' (JBool False))"
      and "dict_get d ''plan'' (JArr []) = JArr steps"
      and "list_all (unknown_step (specialists orch)) steps"
  shows "process E orch user_input tr =
           (case generate_content E (length (llm_calls tr1)) of
              Inl e \<Rightarrow> Inl e
            | Inr response \<Rightarrow>
                (case first_part_text response of
                   Inl e \<Rightarrow> Inl e
                 | Inr t \<Rightarrow> Inr (case t of None \<Rightarrow> JNull | Some s \<Rightarrow> JStr s)),
            tr1\<lparr>llm_calls := llm_calls tr1 @
              [\<lparr>model = ''gemini-2.5-flash'',
                contents =
                  [\<lparr>role = ''user'',
                    parts = Some
                      [\<lparr>text = Some
                          ([CHR 0xEC, CHR 0x9B, CHR 0x90, CHR 0xEB, CHR 0x9E, CHR 0x98] @
                           '' '' @
                           [CHR 0xEC, CHR 0x82, CHR 0xAC, CHR 0xEC, CHR 0x9A, CHR 0xA9, CHR 0xEC, CHR 0x9E, CHR 0x90] @
                           '' '' @
                           [CHR 0xEC, CHR 0x9A, CHR 0x94, CHR 0xEC, CHR 0xB2, CHR 0xAD] @ '': ''
                           @ user_input @ [CHR 0x0A, CHR 0x0A] @
                           [CHR 0xEA, CHR 0xB0, CHR 0x81] @ '' '' @
                           [CHR 0xEC, CHR 0xA0, CHR 0x84, CHR 0xEB, CHR 0xAC, CHR 0xB8, CHR 0xEA, CHR 0xB0, CHR 0x80] @
                           [CHR 0xEC, CHR 0x9D, CHR 0x98] @ '' '' @
                           [CHR 0xEA, CHR 0xB2, CHR 0xB0, CHR 0xEA, CHR 0xB3, CHR 0xBC, CHR 0xEB, CHR 0xA5, CHR 0xBC] @
                           '' '' @
                           [CHR 0xED, CHR 0x86, CHR 0xB5, CHR 0xED, CHR 0x95, CHR 0xA9, CHR 0xED, CHR 0x95, CHR 0x98] @
                           [CHR 0xEC, CHR 0x97, CHR 0xAC] @ '' '' @
                           [CHR 0xEC, CHR 0xB5, CHR 0x9C, CHR 0xEC, CHR 0xA2, CHR 0x85] @
                           '' '' @
                           [CHR 0xEC, CHR 0x9D, CHR 0x91, CHR 0xEB, CHR 0x8B, CHR 0xB5, CHR 0xEC, CHR 0x9D, CHR 0x84] @
                           '' '' @
                           [CHR 0xEB, CHR 0xA7, CHR 0x8C, CHR 0xEB, CHR 0x93, CHR 0xA4, CHR 0xEC, CHR 0x96, CHR 0xB4] @
                           [CHR 0xEC, CHR 0xA3, CHR 0xBC, CHR 0xEC, CHR 0x84, CHR 0xB8, CHR 0xEC, CHR 0x9A, CHR 0x94] @
                           '':'' @ [CHR 0x0A, CHR 0x0A]),
                        function_call = None, function_response = None\<rparr>]\<rparr>],
                system_instruction = Some
                  ([CHR 0xEC, CHR 0x97, CHR 0xAC, CHR 0xEB, CHR 0x9F, CHR 0xAC] @ '' '' @
                   [CHR 0xEC, CHR 0xA0, CHR 0x84, CHR 0xEB, CHR 0xAC, CHR 0xB8, CHR 0xEA, CHR 0xB0, CHR 0x80] @
                   [CHR 0xEC, CHR 0x9D, CHR 0x98] @ '' '' @
                   [CHR 0xEA, CHR 0xB2, CHR 0xB0, CHR 0xEA, CHR 0xB3, CHR 0xBC, CHR 0xEB, CHR 0xA5, CHR 0xBC] @
                   '' '' @
                   [CHR 0xED, CHR 0x86, CHR 0xB5, CHR 0xED, CHR 0x95, CHR 0xA9, CHR 0xED, CHR 0x95, CHR 0x98] @
                   [CHR 0xEB, CHR 0x8A, CHR 0x94] @ '' '' @
                   [CHR 0xED, CHR 0x8E, CHR 0xB8, CHR 0xEC, CHR 0xA7, CHR 0x91, CHR 0xEC, CHR 0x9E, CHR 0x90] @
                   [CHR 0xEC, CHR 0x9E, CHR 0x85, CHR 0xEB, CHR 0x8B, CHR 0x88, CHR 0xEB, CHR 0x8B, CHR 0xA4] @
                   ''. '' @
                   [CHR 0xEB, CHR 0xA6, CHR 0xAC, CHR 0xEB, CHR 0xB7, CHR 0xB0, CHR 0xEC, CHR 0x96, CHR 0xB4] @
                   [CHR 0xEC, CHR 0x9D, CHR 0x98] @ '' '' @
                   [CHR 0xED, CHR 0x94, CHR 0xBC, CHR 0xEB, CHR 0x93, CHR 0x9C, CHR 0xEB, CHR 0xB0, CHR 0xB1] @
                   [CHR 0xEC, CHR 0x9D, CHR 0xB4] @ '' '' @
                   [CHR 0xEC, CHR 0x9E, CHR 0x88, CHR 0xEB, CHR 0x8B, CHR 0xA4, CHR 0xEB, CHR 0xA9, CHR 0xB4] @
                   '' '' @ [CHR 0xEC, CHR 0x9D, CHR 0xB4, CHR 0xEB, CHR 0xA5, CHR 0xBC] @
                   '' '' @
                   [CHR 0xEB, CHR 0xB0, CHR 0x98, CHR 0xEC, CHR 0x98, CHR 0x81, CHR 0xED, CHR 0x95, CHR 0x98] @
                   [CHR 0xEC, CHR 0x97, CHR 0xAC] @ '' '' @
                   [CHR 0xEC, CHR 0xB5, CHR 0x9C, CHR 0xEC, CHR 0xA2, CHR 0x85] @ '' '' @
                   [CHR 0xEC, CHR 0x9D, CHR 0x91, CHR 0xEB, CHR 0x8B, CHR 0xB5, CHR 0xEC, CHR 0x9D, CHR 0x84] @
                   '' '' @
                   [CHR 0xEB, CHR 0xA7, CHR 0x8C, CHR 0xEB, CHR 0x93, CHR 0x9C, CHR 0xEC, CHR 0x84, CHR 0xB8] @
                   [CHR 0xEC, CHR 0x9A, CHR 0x94] @ ''.''),
                tools = None, automatic_function_calling_disable = False,
                response_mime_type = None\<rparr>]\<rparr>)
       \<and> (\<forall>ro p ps rest.
            generate_content E (length (llm_calls tr1)) =
              Inr \<lparr>candidates =
                     Some (\<lparr>content = Some \<lparr>role = ro, parts = Some (p # ps)\<rparr>\<rparr> # rest)\<rparr>
            \<longrightarrow> fst (process E orch user_input tr) =
                  Inr (case text p of None \<Rightarrow> JNull | Some s \<Rightarrow> JStr s))"
proof -
  have p: "process E orch user_input tr = synthesize E user_input [] tr1"
    using assms
    by (simp add: process_def execute_plan_def py_iter_def step_summary_all_unknown
        run_steps_all_unknown)
  show ?thesis
    by (simp add: p synthesize_call synthesis_request_eq first_part_text_eq)
qed

theorem no_results_still_synthesized_witness:
  "process ghost_env team ''q'' empty_trace =
     (Inr (JStr ''FINAL''),
      \<lparr>llm_calls = [plan_request ''q'', synthesis_request ''q'' []], tool_calls = [], runs = []\<rparr>)"
proof -
  have p: "create_plan ghost_env ''q'' empty_trace =
             (Inr (JObj [(''needs_specialists'', JBool True),
                         (''plan'', JArr [plan_step ''ghost'' ''haunt''])]),
              \<lparr>llm_calls = [plan_request ''q''], tool_calls = [], runs = []\<rparr>)"
    by (simp add: create_plan_def generate_def first_part_text_def reply_parts_def ghost_env_def
        scripted_env_def model_reply_def table_loads_def from_text_def empty_trace_def
        specialists_plan_def)
  show ?thesis
    using no_results_still_synthesized [OF p, of "[plan_step ''ghost'' ''haunt'']" team,
        THEN conjunct1]
    by (simp add: dict_get_def truthy_def unknown_step_def subscript_def plan_step_def team_def
        ghost_env_def scripted_env_def model_reply_def first_part_text_def reply_parts_def
        from_text_def synthesis_request_eq)
qed

subsection \<open>Information flow between the steps\<close>

lemma call_function_runs: "runs (snd (call_function E A fc tr)) = runs tr"
  by (simp add: call_function_def Let_def split: option.splits sum.splits)

lemma call_functions_runs: "runs (snd (call_functions E A fcs tr)) = runs tr"
proof (induction fcs arbitrary: tr)
  case Nil
  then show ?case by simp
next
  case (Cons fc fcs)
  obtain r tr1 where p1: "call_function E A fc tr = (r, tr1)" by force
  obtain r2 tr2 where p2: "call_functions E A fcs tr1 = (r2, tr2)" by force
  have l1: "runs tr1 = runs tr"
    using call_function_runs [of E A fc tr] p1 by simp
  have "runs tr2 = runs tr1" using Cons.IH [of tr1] p2 by simp
  with p1 p2 l1 show ?case by (simp split: sum.splits)
qed

lemma iteration_runs: "runs (snd (iteration E A req messages tr)) = runs tr"
proof -
  have "runs (snd (call_functions E A fcs (tr\<lparr>llm_calls := llm_calls tr @ [req]\<rparr>))) = runs tr" for fcs
    by (simp add: call_functions_runs)
  then show ?thesis
    by (auto simp: iteration_def split: sum.splits list.splits prod.splits) (metis snd_conv)+
qed

lemma run_loop_runs: "runs (snd (run_loop E S n messages tr)) = runs tr"
proof (induction n arbitrary: messages tr)
  case 0
  then show ?case by simp
next
  case (Suc n)
  obtain r t where it: "iteration E S (run_request S messages) messages tr = (r, t)" by force
  have l: "runs t = runs tr"
    using iteration_runs [of E S "run_request S messages" messages tr] it by simp
  show ?case
  proof (cases r)
    case (Inl e)
    with it l show ?thesis by (simp add: run_loop_Suc)
  next
    case (Inr st)
    show ?thesis
    proof (cases st)
      case (Return s)
      with it l Inr show ?thesis by (simp add: run_loop_Suc)
    next
      case (Continue m)
      with it l Inr Suc.IH [of m t] show ?thesis by (simp add: run_loop_Suc)
    qed
  qed
qed

lemma run_runs: "run E S task tr = (r, tr1) \<Longrightarrow> runs tr1 = runs tr"
  using run_loop_runs [of E S 10 "[user_message task]" tr] by (simp add: run_def)

lemma dict_set_fresh: "k \<notin> set (map fst d) \<Longrightarrow> dict_set d k v = d @ [(k, v)]"
  by (induction d) auto

lemma executed_Cons_run:
  "subscript s ''agent'' = Inr (JStr a) \<Longrightarrow> subscript s ''task'' = Inr task \<Longrightarrow>
   specs a = Some S \<Longrightarrow> executed specs (s # steps) = (a, task) # executed specs steps"
  by (simp add: executed_def List.map_filter_def)

lemma executed_Cons_skip:
  "(\<forall>a task S. \<not> (subscript s ''agent'' = Inr (JStr a) \<and> subscript s ''task'' = Inr task
       \<and> specs a = Some S)) \<Longrightarrow> executed specs (s # steps) = executed specs steps"
  by (auto simp: executed_def List.map_filter_def split: sum.splits json.splits)

lemma collected_simps [simp]:
  "collected [] = []"
  "collected ((a, t, Inr r) # rs) = (a, r) # collected rs"
  "collected ((a, t, Inl e) # rs) = collected rs"
  by (simp_all add: collected_def List.map_filter_def)

lemma run_steps_flow:
  assumes "distinct (map fst earlier @ map fst (executed specs steps))"
  shows "\<exists>new. runs (snd (run_steps E specs ui steps earlier tr)) = runs tr @ new
           \<and> flow_ok E ui earlier (executed specs steps) new
           \<and> (\<forall>results. fst (run_steps E specs ui steps earlier tr) = Inr results \<longrightarrow>
                 results = earlier @ collected new
                 \<and> map fst (collected new) = map fst (executed specs steps))"
  using assms
proof (induction steps arbitrary: earlier tr)
  case Nil
  then show ?case by (simp add: executed_def List.map_filter_def)
next
  case (Cons s steps)
  show ?case
  proof (cases "\<exists>a task S. subscript s ''agent'' = Inr (JStr a) \<and> subscript s ''task'' = Inr task
                   \<and> specs a = Some S")
    case False
    then have ex: "executed specs (s # steps) = executed specs steps"
      using executed_Cons_skip [of s specs steps] by blast
    have d: "distinct (map fst earlier @ map fst (executed specs steps))"
      using Cons.prems ex by simp
    from Cons.IH [OF d, of tr] obtain new where
      n: "runs (snd (run_steps E specs ui steps earlier tr)) = runs tr @ new"
         "flow_ok E ui earlier (executed specs steps) new"
         "\<forall>results. fst (run_steps E specs ui steps earlier tr) = Inr results \<longrightarrow>
             results = earlier @ collected new \<and> map fst (collected new) = map fst (executed specs steps)"
      by blast
    have "run_steps E specs ui (s # steps) earlier tr = run_steps E specs ui steps earlier tr
          \<or> (\<exists>e. run_steps E specs ui (s # steps) earlier tr = (Inl e, tr))"
      using False by (auto split: sum.splits json.splits option.splits)
    then show ?thesis
    proof
      assume "run_steps E specs ui (s # steps) earlier tr = run_steps E specs ui steps earlier tr"
      with n ex show ?thesis by auto
    next
      assume "\<exists>e. run_steps E specs ui (s # steps) earlier tr = (Inl e, tr)"
      then show ?thesis by auto
    qed
  next
    case True
    then obtain a task S where
      s: "subscript s ''agent'' = Inr (JStr a)" "subscript s ''task'' = Inr task" "specs a = Some S"
      by blast
    have ex: "executed specs (s # steps) = (a, task) # executed specs steps"
      using executed_Cons_run [where specs = specs, OF s] .
    let ?ft = "full_task_of E ui task earlier"
    obtain r tr1 where rn: "run E S ?ft tr = (r, tr1)" by force
    have r1: "runs tr1 = runs tr" using run_runs [OF rn] .
    show ?thesis
    proof (cases r)
      case (Inl e)
      have "run_steps E specs ui (s # steps) earlier tr
              = (Inl e, tr1\<lparr>runs := runs tr1 @ [(a, ?ft, Inl e)]\<rparr>)"
        using s rn Inl by simp
      then show ?thesis using r1 ex
        by (intro exI [of _ "[(a, ?ft, Inl e)]"]) simp
    next
      case (Inr result)
      let ?tr2 = "tr1\<lparr>runs := runs tr1 @ [(a, ?ft, Inr result)]\<rparr>"
      have fresh: "a \<notin> set (map fst earlier)" using Cons.prems ex by auto
      have ds: "dict_set earlier a result = earlier @ [(a, result)]"
        using dict_set_fresh [OF fresh] .
      have step: "run_steps E specs ui (s # steps) earlier tr
              = run_steps E specs ui steps (earlier @ [(a, result)]) ?tr2"
        using s rn Inr ds by simp
      have d: "distinct (map fst (earlier @ [(a, result)]) @ map fst (executed specs steps))"
        using Cons.prems ex by auto
      from Cons.IH [OF d, of ?tr2] obtain new where
        n: "runs (snd (run_steps E specs ui steps (earlier @ [(a, result)]) ?tr2)) = runs ?tr2 @ new"
           "flow_ok E ui (earlier @ [(a, result)]) (executed specs steps) new"
           "\<forall>results. fst (run_steps E specs ui steps (earlier @ [(a, result)]) ?tr2) = Inr results \<longrightarrow>
               results = (earlier @ [(a, result)]) @ collected new
               \<and> map fst (collected new) = map fst (executed specs steps)"
        by blast
      show ?thesis using step n r1 ex
        by (intro exI [of _ "(a, ?ft, Inr result) # new"]) simp
    qed
  qed
qed

lemma run_steps_extends:
  "\<exists>new. runs (snd (run_steps E specs ui steps results tr)) = runs tr @ new"
proof (induction steps arbitrary: results tr)
  case Nil
  then show ?case by simp
next
  case (Cons s steps)
  have r: "runs tr1 = runs tr" if "run E S t tr = (r, tr1)" for S t r tr1
    using run_runs [OF that] .
  show ?case
  proof (cases "\<exists>a task S. subscript s ''agent'' = Inr (JStr a) \<and> subscript s ''task'' = Inr task
                   \<and> specs a = Some S")
    case False
    then have "run_steps E specs ui (s # steps) results tr = run_steps E specs ui steps results tr
          \<or> (\<exists>e. run_steps E specs ui (s # steps) results tr = (Inl e, tr))"
      by (auto split: sum.splits json.splits option.splits)
    then show ?thesis using Cons.IH [of results tr] by auto
  next
    case True
    then obtain a task S where
      s: "subscript s ''agent'' = Inr (JStr a)" "subscript s ''task'' = Inr task" "specs a = Some S"
      by blast
    obtain r tr1 where rn: "run E S (full_task_of E ui task results) tr = (r, tr1)" by force
    show ?thesis
    proof (cases r)
      case (Inl e)
      then show ?thesis using s rn r [OF rn] by simp
    next
      case (Inr result)
      then show ?thesis
        using s rn r [OF rn]
          Cons.IH [of "dict_set results a result"
            "tr1\<lparr>runs := runs tr1 @ [(a, full_task_of E ui task results, Inr result)]\<rparr>"]
        by auto
    qed
  qed
qed

lemma run_steps_no_look_ahead:
  "\<exists>more. runs (snd (run_steps E specs ui (steps @ later) results tr))
            = runs (snd (run_steps E specs ui steps results tr)) @ more"
proof (induction steps arbitrary: results tr)
  case Nil
  then show ?case using run_steps_extends [of E specs ui later results tr] by simp
next
  case (Cons s steps)
  show ?case
    using Cons.IH
    by (simp split: sum.splits json.splits option.splits prod.splits)
qed

lemma create_plan_runs: "create_plan E ui tr = (r, tr1) \<Longrightarrow> runs tr1 = runs tr"
  by (auto simp: create_plan_def generate_def split: sum.splits option.splits)

lemma synthesize_runs: "runs (snd (synthesize E ui results tr)) = runs tr"
  by (simp add: synthesize_def generate_def split: sum.splits)

lemma process_delegates:
  assumes "create_plan E ui tr = (Inr (JObj d), tr1)"
      and "truthy (dict_get d ''needs_specialists'' (JBool False))"
      and "py_iter (dict_get d ''plan'' (JArr [])) = Inr steps"
      and "step_summary steps = Inr ()"
  shows "process E orch ui tr =
           (case run_steps E (specialists orch) ui steps [] tr1 of
              (Inl e, tr2) \<Rightarrow> (Inl e, tr2)
            | (Inr results, tr2) \<Rightarrow> synthesize E ui results tr2)"
  using assms by (simp add: process_def execute_plan_def)

lemma process_runs:
  assumes "create_plan E ui tr = (Inr (JObj d), tr1)"
      and "truthy (dict_get d ''needs_specialists'' (JBool False))"
      and "py_iter (dict_get d ''plan'' (JArr [])) = Inr steps"
      and "step_summary steps = Inr ()"
  shows "runs (snd (process E orch ui tr)) = runs (snd (run_steps E (specialists orch) ui steps [] tr1))"
  by (simp add: process_delegates [OF assms] synthesize_runs split: prod.splits sum.splits)

text \<open>
  Claim C4, as amended. In \<open>process\<close>, as long as the steps that reach a specialist name
  pairwise distinct agents, the task string passed at the \<open>k\<close>-th of them is the original
  user request, then that step's task description, then (when there is any) the stored
  results of exactly the \<open>k - 1\<close> steps executed before it, labelled by agent name, in the
  order they were produced. Whatever the agent names, a task string never depends on a
  later step: the invocations made for a plan are a prefix of those made for any longer plan.
\<close>

theorem left_to_right_flow:
  assumes "create_plan E ui tr = (Inr (JObj d), tr1)"
      and "truthy (dict_get d ''needs_specialists'' (JBool False))"
      and "py_iter (dict_get d ''plan'' (JArr [])) = Inr steps"
      and "step_summary steps = Inr ()"
      and "distinct (map fst (executed (specialists orch) steps))"
  shows "flow_ok E ui [] (executed (specialists orch) steps)
           (drop (length (runs tr)) (runs (snd (process E orch ui tr))))
       \<and> (\<exists>more. runs (snd (run_steps E (specialists orch) ui (steps @ later) [] tr1))
                    = runs (snd (run_steps E (specialists orch) ui steps [] tr1)) @ more)
       \<and> full_task_of E ui (JStr t) earlier =
           context_prefix @ ui @ newline @ newline @ current_task_prefix @ t
           @ (if earlier = [] then []
              else previous_results_header
                   @ concat (map (\<lambda>nr. ''--- '' @ fst nr @ result_label_suffix @ snd nr
                                        @ newline @ newline) earlier))"
proof -
  have d: "distinct (map fst [] @ map fst (executed (specialists orch) steps))"
    using assms(5) by simp
  obtain new where
    n: "runs (snd (run_steps E (specialists orch) ui steps [] tr1)) = runs tr1 @ new"
       "flow_ok E ui [] (executed (specialists orch) steps) new"
    using run_steps_flow [OF d, of E ui tr1] by blast
  have "runs tr1 = runs tr" using create_plan_runs [OF assms(1)] .
  then have a: "flow_ok E ui [] (executed (specialists orch) steps)
           (drop (length (runs tr)) (runs (snd (process E orch ui tr))))"
    using n by (simp add: process_runs [OF assms(1-4)])
  have c: "full_task_of E ui (JStr t) earlier =
           context_prefix @ ui @ newline @ newline @ current_task_prefix @ t
           @ (if earlier = [] then []
              else previous_results_header
                   @ concat (map (\<lambda>nr. ''--- '' @ fst nr @ result_label_suffix @ snd nr
                                        @ newline @ newline) earlier))"
    by (simp add: full_task_of_def format_value_def render_result_fun)
  show ?thesis using a c run_steps_no_look_ahead by blast
qed


text \<open>
  Claim C5, as amended. In \<open>process\<close>, when the delegation loop runs to its end (every step
  has its task and no specialist run raises) and the steps that reach a specialist name
  pairwise distinct agents, the results mapping holds the result of every such step in step
  order, labelled by agent name. If it holds exactly one result, that result is returned
  verbatim and no further model call is made. If it holds more than one, exactly one further
  model call is made, the synthesis request: one user turn with one text part, the prompt,
  which is the label of the original request, the request, a blank line, the synthesis
  instruction and then every result in that order as \<open>--- name\<close>, the result label, the result
  and a blank line; the editor's instruction is its system instruction. What is returned is
  the text of the first part of that call's response, or the exception of that call.
\<close>

theorem synthesis_of_results:
  assumes "create_plan E ui tr = (Inr (JObj d), tr1)"
      and "truthy (dict_get d ''needs_specialists'' (JBool False))"
      and "py_iter (dict_get d ''plan'' (JArr [])) = Inr steps"
      and "step_summary steps = Inr ()"
      and "distinct (map fst (executed (specialists orch) steps))"
      and "run_steps E (specialists orch) ui steps [] tr1 = (Inr results, tr2)"
  shows "results = collected (drop (length (runs tr1)) (runs tr2))
       \<and> map fst results = map fst (executed (specialists orch) steps)
       \<and> (length results = 1 \<longrightarrow>
            process E orch ui tr = (Inr (JStr (snd (hd results))), tr2))
       \<and> (length results > 1 \<longrightarrow>
            process E orch ui tr =
              (case generate_content E (length (llm_calls tr2)) of
                 Inl e \<Rightarrow> Inl e
               | Inr response \<Rightarrow>
                   (case first_part_text response of
                      Inl e \<Rightarrow> Inl e
                    | Inr t \<Rightarrow> Inr (case t of None \<Rightarrow> JNull | Some s \<Rightarrow> JStr s)),
               tr2\<lparr>llm_calls := llm_calls tr2 @
                 [\<lparr>model = ''gemini-2.5-flash'',
                   contents =
                     [\<lparr>role = ''user'',
                       parts = Some
                         [\<lparr>text = Some
                             ([CHR 0xEC, CHR 0x9B, CHR 0x90, CHR 0xEB, CHR 0x9E, CHR 0x98] @
                              '' '' @
                              [CHR 0xEC, CHR 0x82, CHR 0xAC, CHR 0xEC, CHR 0x9A, CHR 0xA9, CHR 0xEC, CHR 0x9E, CHR 0x90] @
                              '' '' @
                              [CHR 0xEC, CHR 0x9A, CHR 0x94, CHR 0xEC, CHR 0xB2, CHR 0xAD] @
                              '': ''
                              @ ui @ [CHR 0x0A, CHR 0x0A] @
                              [CHR 0xEA, CHR 0xB0, CHR 0x81] @ '' '' @
                              [CHR 0xEC, CHR 0xA0, CHR 0x84, CHR 0xEB, CHR 0xAC, CHR 0xB8, CHR 0xEA, CHR 0xB0, CHR 0x80] @
                              [CHR 0xEC, CHR 0x9D, CHR 0x98] @ '' '' @
                              [CHR 0xEA, CHR 0xB2, CHR 0xB0, CHR 0xEA, CHR 0xB3, CHR 0xBC, CHR 0xEB, CHR 0xA5, CHR 0xBC] @
                              '' '' @
                              [CHR 0xED, CHR 0x86, CHR 0xB5, CHR 0xED, CHR 0x95, CHR 0xA9, CHR 0xED, CHR 0x95, CHR 0x98] @
                              [CHR 0xEC, CHR 0x97, CHR 0xAC] @ '' '' @
                              [CHR 0xEC, CHR 0xB5, CHR 0x9C, CHR 0xEC, CHR 0xA2, CHR 0x85] @
                              '' '' @
                              [CHR 0xEC, CHR 0x9D, CHR 0x91, CHR 0xEB, CHR 0x8B, CHR 0xB5, CHR 0xEC, CHR 0x9D, CHR 0x84] @
                              '' '' @
                              [CHR 0xEB, CHR 0xA7, CHR 0x8C, CHR 0xEB, CHR 0x93, CHR 0xA4, CHR 0xEC, CHR 0x96, CHR 0xB4] @
                              [CHR 0xEC, CHR 0xA3, CHR 0xBC, CHR 0xEC, CHR 0x84, CHR 0xB8, CHR 0xEC, CHR 0x9A, CHR 0x94] @
                              '':'' @ [CHR 0x0A, CHR 0x0A]
                              @ concat (map (\<lambda>nr. ''--- '' @ fst nr @
                                               '' '' @
                                               [CHR 0xEA, CHR 0xB2, CHR 0xB0, CHR 0xEA, CHR 0xB3, CHR 0xBC] @
                                               '' ---'' @ [CHR 0x0A]
                                               @ snd nr @ [CHR 0x0A, CHR 0x0A]) results)),
                           function_call = None, function_response = None\<rparr>]\<rparr>],
                   system_instruction = Some
                     ([CHR 0xEC, CHR 0x97, CHR 0xAC, CHR 0xEB, CHR 0x9F, CHR 0xAC] @ '' '' @
                      [CHR 0xEC, CHR 0xA0, CHR 0x84, CHR 0xEB, CHR 0xAC, CHR 0xB8, CHR 0xEA, CHR 0xB0, CHR 0x80] @
                      [CHR 0xEC, CHR 0x9D, CHR 0x98] @ '' '' @
                      [CHR 0xEA, CHR 0xB2, CHR 0xB0, CHR 0xEA, CHR 0xB3, CHR 0xBC, CHR 0xEB, CHR 0xA5, CHR 0xBC] @
                      '' '' @
                      [CHR 0xED, CHR 0x86, CHR 0xB5, CHR 0xED, CHR 0x95, CHR 0xA9, CHR 0xED, CHR 0x95, CHR 0x98] @
                      [CHR 0xEB, CHR 0x8A, CHR 0x94] @ '' '' @
                      [CHR 0xED, CHR 0x8E, CHR 0xB8, CHR 0xEC, CHR 0xA7, CHR 0x91, CHR 0xEC, CHR 0x9E, CHR 0x90] @
                      [CHR 0xEC, CHR 0x9E, CHR 0x85, CHR 0xEB, CHR 0x8B, CHR 0x88, CHR 0xEB, CHR 0x8B, CHR 0xA4] @
                      ''. '' @
                      [CHR 0xEB, CHR 0xA6, CHR 0xAC, CHR 0xEB, CHR 0xB7, CHR 0xB0, CHR 0xEC, CHR 0x96, CHR 0xB4] @
                      [CHR 0xEC, CHR 0x9D, CHR 0x98] @ '' '' @
                      [CHR 0xED, CHR 0x94, CHR 0xBC, CHR 0xEB, CHR 0x93, CHR 0x9C, CHR 0xEB, CHR 0xB0, CHR 0xB1] @
                      [CHR 0xEC, CHR 0x9D, CHR 0xB4] @ '' '' @
                      [CHR 0xEC, CHR 0x9E, CHR 0x88, CHR 0xEB, CHR 0x8B, CHR 0xA4, CHR 0xEB, CHR 0xA9, CHR 0xB4] @
                      '' '' @ [CHR 0xEC, CHR 0x9D, CHR 0xB4, CHR 0xEB, CHR 0xA5, CHR 0xBC] @
                      '' '' @
                      [CHR 0xEB, CHR 0xB0, CHR 0x98, CHR 0xEC, CHR 0x98, CHR 0x81, CHR 0xED, CHR 0x95, CHR 0x98] @
                      [CHR 0xEC, CHR 0x97, CHR 0xAC] @ '' '' @
                      [CHR 0xEC, CHR 0xB5, CHR 0x9C, CHR 0xEC, CHR 0xA2, CHR 0x85] @ '' '' @
                      [CHR 0xEC, CHR 0x9D, CHR 0x91, CHR 0xEB, CHR 0x8B, CHR 0xB5, CHR 0xEC, CHR 0x9D, CHR 0x84] @
                      '' '' @
                      [CHR 0xEB, CHR 0xA7, CHR 0x8C, CHR 0xEB, CHR 0x93, CHR 0x9C, CHR 0xEC, CHR 0x84, CHR 0xB8] @
                      [CHR 0xEC, CHR 0x9A, CHR 0x94] @ ''.''),
                   tools = None, automatic_function_calling_disable = False,
                   response_mime_type = None\<rparr>]\<rparr>)
            \<and> (\<forall>ro p ps rest.
                 generate_content E (length (llm_calls tr2)) =
                   Inr \<lparr>candidates =
                          Some (\<lparr>content = Some \<lparr>role = ro, parts = Some (p # ps)\<rparr>\<rparr> # rest)\<rparr>
                 \<longrightarrow> fst (process E orch ui tr) =
                       Inr (case text p of None \<Rightarrow> JNull | Some s \<Rightarrow> JStr s)))"
proof -
  have d: "distinct (map fst [] @ map fst (executed (specialists orch) steps))"
    using assms(5) by simp
  obtain new where
    n: "runs (snd (run_steps E (specialists orch) ui steps [] tr1)) = runs tr1 @ new"
       "\<forall>results. fst (run_steps E (specialists orch) ui steps [] tr1) = Inr results \<longrightarrow>
           results = [] @ collected new
           \<and> map fst (collected new) = map fst (executed (specialists orch) steps)"
    using run_steps_flow [OF d, of E ui tr1] by blast
  have r: "results = collected new"
          "map fst (collected new) = map fst (executed (specialists orch) steps)"
    using n(2) assms(6) by simp_all
  have nw: "new = drop (length (runs tr1)) (runs tr2)"
    using n(1) assms(6) by simp
  have p: "process E orch ui tr = synthesize E ui results tr2"
    using assms(6) by (simp add: process_delegates [OF assms(1-4)])
  have one: "length results = 1 \<longrightarrow> process E orch ui tr = (Inr (JStr (snd (hd results))), tr2)"
    by (simp add: p synthesize_def)
  have many: "length results > 1 \<Longrightarrow>
            process E orch ui tr =
              (case generate_content E (length (llm_calls tr2)) of
                 Inl e \<Rightarrow> Inl e
               | Inr response \<Rightarrow>
                   (case first_part_text response of
                      Inl e \<Rightarrow> Inl e
                    | Inr t \<Rightarrow> Inr (case t of None \<Rightarrow> JNull | Some s \<Rightarrow> JStr s)),
               tr2\<lparr>llm_calls := llm_calls tr2 @ [synthesis_request ui results]\<rparr>)"
    by (simp add: p synthesize_call)
  have first: "fst (process E orch ui tr) = Inr (case text p of None \<Rightarrow> JNull | Some s \<Rightarrow> JStr s)"
    if "length results > 1"
       "generate_content E (length (llm_calls tr2)) =
          Inr \<lparr>candidates =
                 Some (\<lparr>content = Some \<lparr>role = ro, parts = Some (p # ps)\<rparr>\<rparr> # rest)\<rparr>"
    for ro p ps rest
    using that by (simp add: many first_part_text_eq)
  show ?thesis
    using r nw one many first by (simp add: synthesis_request_eq)
qed

lemmas eval_plan =
  process_def create_plan_def generate_def first_part_text_def table_loads_def eval_orchestrator

lemma two_step_plan:
  "create_plan two_step_env ''hello'' empty_trace =
     (Inr (JObj [(''needs_specialists'', JBool True),
                 (''plan'', JArr [plan_step ''analyst'' ''collect X'',
                                  plan_step ''writer'' ''draft Y''])]),
      \<lparr>llm_calls = [plan_request ''hello''], tool_calls = [], runs = []\<rparr>)"
  by (simp add: create_plan_def generate_def first_part_text_def reply_parts_def two_step_env_def
      scripted_env_def model_reply_def table_loads_def from_text_def empty_trace_def
      specialists_plan_def)

lemma two_step_executed:
  "executed (specialists team) [plan_step ''analyst'' ''collect X'', plan_step ''writer'' ''draft Y'']
     = [(''analyst'', JStr ''collect X''), (''writer'', JStr ''draft Y'')]"
  by (simp add: executed_def List.map_filter_def plan_step_def subscript_def team_def)

lemma two_step_runs:
  "run_steps two_step_env (specialists team) ''hello''
     [plan_step ''analyst'' ''collect X'', plan_step ''writer'' ''draft Y''] []
     \<lparr>llm_calls = [plan_request ''hello''], tool_calls = [], runs = []\<rparr> =
   (Inr [(''analyst'', ''DATA''), (''writer'', ''DOC'')],
    \<lparr>llm_calls =
       [plan_request ''hello'',
        run_request tool_specialist
          [user_message (full_task_of two_step_env ''hello'' (JStr ''collect X'') [])],
        run_request plain_specialist
          [user_message (full_task_of two_step_env ''hello'' (JStr ''draft Y'')
                           [(''analyst'', ''DATA'')])]],
     tool_calls = [],
     runs =
       [(''analyst'', full_task_of two_step_env ''hello'' (JStr ''collect X'') [], Inr ''DATA''),
        (''writer'', full_task_of two_step_env ''hello'' (JStr ''draft Y'') [(''analyst'', ''DATA'')],
         Inr ''DOC'')]\<rparr>)"
  by (simp add: eval_orchestrator two_step_env_def)

lemma two_step_hyps:
  "truthy (dict_get [(''needs_specialists'', JBool True),
                     (''plan'', JArr [plan_step ''analyst'' ''collect X'',
                                      plan_step ''writer'' ''draft Y''])]
             ''needs_specialists'' (JBool False))"
  "py_iter (dict_get [(''needs_specialists'', JBool True),
                      (''plan'', JArr [plan_step ''analyst'' ''collect X'',
                                       plan_step ''writer'' ''draft Y''])]
              ''plan'' (JArr []))
     = Inr [plan_step ''analyst'' ''collect X'', plan_step ''writer'' ''draft Y'']"
  "step_summary [plan_step ''analyst'' ''collect X'', plan_step ''writer'' ''draft Y''] = Inr ()"
  "distinct (map fst (executed (specialists team)
      [plan_step ''analyst'' ''collect X'', plan_step ''writer'' ''draft Y'']))"
     apply (simp add: dict_get_def truthy_def)
    apply (simp add: dict_get_def py_iter_def)
   apply (simp add: step_label_def plan_step_def subscript_def)
  apply (simp add: two_step_executed)
  done

lemma runs_empty_trace: "drop (length (runs empty_trace)) rs = rs"
  by (simp add: empty_trace_def)

theorem left_to_right_flow_witness:
  "flow_ok two_step_env ''hello'' []
     [(''analyst'', JStr ''collect X''), (''writer'', JStr ''draft Y'')]
     (runs (snd (process two_step_env team ''hello'' empty_trace)))
   \<and> runs (snd (process two_step_env team ''hello'' empty_trace)) =
       [(''analyst'', full_task_of two_step_env ''hello'' (JStr ''collect X'') [], Inr ''DATA''),
        (''writer'', full_task_of two_step_env ''hello'' (JStr ''draft Y'') [(''analyst'', ''DATA'')],
         Inr ''DOC'')]"
proof -
  have "flow_ok two_step_env ''hello'' []
     [(''analyst'', JStr ''collect X''), (''writer'', JStr ''draft Y'')]
     (runs (snd (process two_step_env team ''hello'' empty_trace)))"
    using left_to_right_flow [OF two_step_plan two_step_hyps, THEN conjunct1]
    by (simp only: two_step_executed runs_empty_trace)
  moreover have "runs (snd (process two_step_env team ''hello'' empty_trace)) =
       [(''analyst'', full_task_of two_step_env ''hello'' (JStr ''collect X'') [], Inr ''DATA''),
        (''writer'', full_task_of two_step_env ''hello'' (JStr ''draft Y'') [(''analyst'', ''DATA'')],
         Inr ''DOC'')]"
    by (simp add: eval_plan two_step_env_def two_step_plan_text_def)
  ultimately show ?thesis by simp
qed

theorem synthesis_of_results_witness:
  "process two_step_env team ''hello'' empty_trace =
     (Inr (JStr ''FINAL''),
      \<lparr>llm_calls =
         [plan_request ''hello'',
          run_request tool_specialist
            [user_message (full_task_of two_step_env ''hello'' (JStr ''collect X'') [])],
          run_request plain_specialist
            [user_message (full_task_of two_step_env ''hello'' (JStr ''draft Y'')
                             [(''analyst'', ''DATA'')])],
          synthesis_request ''hello'' [(''analyst'', ''DATA''), (''writer'', ''DOC'')]],
       tool_calls = [],
       runs =
         [(''analyst'', full_task_of two_step_env ''hello'' (JStr ''collect X'') [], Inr ''DATA''),
          (''writer'', full_task_of two_step_env ''hello'' (JStr ''draft Y'') [(''analyst'', ''DATA'')],
           Inr ''DOC'')]\<rparr>)"
proof -
  have g: "generate_content two_step_env (Suc (Suc (Suc 0))) = model_reply [from_text ''FINAL'']"
    by (simp add: two_step_env_def scripted_env_def)
  show ?thesis
    using synthesis_of_results [OF two_step_plan two_step_hyps two_step_runs,
        THEN conjunct2, THEN conjunct2, THEN conjunct2]
    by (simp add: g model_reply_def first_part_text_def reply_parts_def from_text_def
        synthesis_request_eq)
qed

text \<open>
  Claim C4 as stated fails when an agent name repeats: in the plan analyst, writer, analyst,
  reviewer the second analyst result replaces the first in place, so the reviewer's task
  string carries \<open>r3\<close> before \<open>r2\<close> and does not carry \<open>r1\<close>; it is not the string built
  from the results of steps 1 to 3 in the order they were produced.
\<close>

theorem repeated_agent_flow_counterexample:
  "runs (snd (process revisit_env team ''q'' empty_trace)) =
     [(''analyst'', full_task_of revisit_env ''q'' (JStr ''collect'') [], Inr ''r1''),
      (''writer'', full_task_of revisit_env ''q'' (JStr ''draft'') [(''analyst'', ''r1'')], Inr ''r2''),
      (''analyst'', full_task_of revisit_env ''q'' (JStr ''check'')
                      [(''analyst'', ''r1''), (''writer'', ''r2'')], Inr ''r3''),
      (''reviewer'', full_task_of revisit_env ''q'' (JStr ''review'')
                       [(''analyst'', ''r3''), (''writer'', ''r2'')], Inr ''r4'')]
   \<and> full_task_of revisit_env ''q'' (JStr ''review'') [(''analyst'', ''r3''), (''writer'', ''r2'')]
       \<noteq> full_task_of revisit_env ''q'' (JStr ''review'')
            [(''analyst'', ''r1''), (''writer'', ''r2''), (''analyst'', ''r3'')]"
proof -
  have "runs (snd (process revisit_env team ''q'' empty_trace)) =
     [(''analyst'', full_task_of revisit_env ''q'' (JStr ''collect'') [], Inr ''r1''),
      (''writer'', full_task_of revisit_env ''q'' (JStr ''draft'') [(''analyst'', ''r1'')], Inr ''r2''),
      (''analyst'', full_task_of revisit_env ''q'' (JStr ''check'')
                      [(''analyst'', ''r1''), (''writer'', ''r2'')], Inr ''r3''),
      (''reviewer'', full_task_of revisit_env ''q'' (JStr ''review'')
                       [(''analyst'', ''r3''), (''writer'', ''r2'')], Inr ''r4'')]"
    by (simp add: eval_plan revisit_env_def revisit_plan_text_def)
  moreover have "full_task_of revisit_env ''q'' (JStr ''review'') [(''analyst'', ''r3''), (''writer'', ''r2'')]
       \<noteq> full_task_of revisit_env ''q'' (JStr ''review'')
            [(''analyst'', ''r1''), (''writer'', ''r2''), (''analyst'', ''r3'')]"
    by (simp add: full_task_of_def render_result_def)
  ultimately show ?thesis by simp
qed

text \<open>
  Claim C5 as stated fails in two ways. When an agent name repeats, as in the plan analyst,
  writer, analyst, the synthesis prompt lists the analyst's second result before the
  writer's result, which is neither the collected results in step order nor all three step
  results. And when a later step raises, a collected result is not returned: in the plan
  analyst, writer with a model that fails during the writer's run, exactly one step result
  has been collected, and \<open>process\<close> raises that failure instead of returning it.
\<close>

theorem repeated_agent_synthesis_counterexample:
  "last (llm_calls (snd (process repeat_env team ''q'' empty_trace))) =
     synthesis_request ''q'' [(''analyst'', ''r3''), (''writer'', ''r2'')]
   \<and> synthesis_prompt ''q'' [(''analyst'', ''r3''), (''writer'', ''r2'')]
       \<noteq> synthesis_prompt ''q'' [(''writer'', ''r2''), (''analyst'', ''r3'')]
   \<and> synthesis_prompt ''q'' [(''analyst'', ''r3''), (''writer'', ''r2'')]
       \<noteq> synthesis_prompt ''q'' [(''analyst'', ''r1''), (''writer'', ''r2''), (''analyst'', ''r3'')]
   \<and> fst (process cut_short_env team ''hello'' empty_trace) = Inl LLMCallError
   \<and> runs (snd (process cut_short_env team ''hello'' empty_trace)) =
       [(''analyst'', full_task_of cut_short_env ''hello'' (JStr ''collect X'') [], Inr ''DATA''),
        (''writer'', full_task_of cut_short_env ''hello'' (JStr ''draft Y'')
                       [(''analyst'', ''DATA'')], Inl LLMCallError)]
   \<and> collected (runs (snd (process cut_short_env team ''hello'' empty_trace))) =
       [(''analyst'', ''DATA'')]"
proof -
  have "last (llm_calls (snd (process repeat_env team ''q'' empty_trace))) =
     synthesis_request ''q'' [(''analyst'', ''r3''), (''writer'', ''r2'')]"
    by (simp add: eval_plan repeat_env_def repeat_plan_text_def)
  moreover have "synthesis_prompt ''q'' [(''analyst'', ''r3''), (''writer'', ''r2'')]
       \<noteq> synthesis_prompt ''q'' [(''writer'', ''r2''), (''analyst'', ''r3'')]"
    by (simp add: synthesis_prompt_def render_result_def)
  moreover have "synthesis_prompt ''q'' [(''analyst'', ''r3''), (''writer'', ''r2'')]
       \<noteq> synthesis_prompt ''q'' [(''analyst'', ''r1''), (''writer'', ''r2''), (''analyst'', ''r3'')]"
    by (simp add: synthesis_prompt_def render_result_def)
  moreover have c: "process cut_short_env team ''hello'' empty_trace =
      (Inl LLMCallError,
       \<lparr>llm_calls =
          [plan_request ''hello'',
           run_request tool_specialist
             [user_message (full_task_of cut_short_env ''hello'' (JStr ''collect X'') [])],
           run_request plain_specialist
             [user_message (full_task_of cut_short_env ''hello'' (JStr ''draft Y'')
                              [(''analyst'', ''DATA'')])]],
        tool_calls = [],
        runs =
          [(''analyst'', full_task_of cut_short_env ''hello'' (JStr ''collect X'') [], Inr ''DATA''),
           (''writer'', full_task_of cut_short_env ''hello'' (JStr ''draft Y'')
                          [(''analyst'', ''DATA'')], Inl LLMCallError)]\<rparr>)"
    by (simp add: eval_plan cut_short_env_def two_step_plan_text_def)
  ultimately show ?thesis by (simp add: c)
qed

end
